(* ===== verification/Lidar_Prelude.thy ===== *)
theory Lidar_Prelude
  imports Complex_Main
begin

text \<open>
  Shared vocabulary of the development: the three-vectors and row-major
  three-by-three matrices that \<^verbatim>\<open>numpy\<close> handles in
  \<^verbatim>\<open>sensorframe_lidar_pointcloud.py\<close>, the Python exceptions the script can
  raise (all of them \<^verbatim>\<open>ValueError\<close>s, told apart by their cause), the outcome of
  a statement sequence that either finishes or raises with the state reached so far,
  and the generic lemmas on sums of squares and square roots the component proofs share.
  Python floats are idealised as \<^typ>\<open>real\<close>: rounding is not modelled.
\<close>

named_theorems vec_simps "evaluation rules of the three-vector operations"

type_synonym vec3 = "real \<times> real \<times> real"

text \<open>A \<^verbatim>\<open>np.array\<close> of three rows of three entries, stored by rows.\<close>

type_synonym mat3 = "vec3 \<times> vec3 \<times> vec3"

text \<open>
  The exceptions of the script: \<^verbatim>\<open>np.matmul\<close> with a vector of the wrong
  length (its argument is the length found), \<^verbatim>\<open>Rotation.from_quat\<close> with a list
  that is not of length four or has norm zero, and \<^verbatim>\<open>math.acos\<close> outside
  \<open>[-1, 1]\<close>.
\<close>

datatype py_error =
    MatmulShapeMismatch nat
  | QuatShapeMismatch nat
  | ZeroNormQuaternion
  | MathDomainError

text \<open>
  A sequence of statements either runs to its end (\<open>Normal\<close>) or raises
  (\<open>Raised\<close>); in both cases the state reached is kept, because the effects done
  before an exception (lines written to a file) stay done.
\<close>

datatype 's exec_result = Normal 's | Raised py_error 's

fun result_state :: "'s exec_result \<Rightarrow> 's" where
  "result_state (Normal s) = s"
| "result_state (Raised e s) = s"

subsection \<open>Vector and matrix operations\<close>

fun dot3 :: "vec3 \<Rightarrow> vec3 \<Rightarrow> real" where
  "dot3 (a1, a2, a3) (b1, b2, b3) = a1 * b1 + a2 * b2 + a3 * b3"

text \<open>\<^verbatim>\<open>np.matmul\<close> of a matrix with a vector of length three.\<close>

fun mat_vec :: "mat3 \<Rightarrow> vec3 \<Rightarrow> vec3" where
  "mat_vec (r1, r2, r3) v = (dot3 r1 v, dot3 r2 v, dot3 r3 v)"

fun transpose3 :: "mat3 \<Rightarrow> mat3" where
  "transpose3 ((a, b, c), (d, e, f), (g, h, i)) = ((a, d, g), (b, e, h), (c, f, i))"

fun mat_mul3 :: "mat3 \<Rightarrow> mat3 \<Rightarrow> mat3" where
  "mat_mul3 (r1, r2, r3) m =
     (let (c1, c2, c3) = transpose3 m
      in ((dot3 r1 c1, dot3 r1 c2, dot3 r1 c3),
          (dot3 r2 c1, dot3 r2 c2, dot3 r2 c3),
          (dot3 r3 c1, dot3 r3 c2, dot3 r3 c3)))"

fun det3 :: "mat3 \<Rightarrow> real" where
  "det3 ((a, b, c), (d, e, f), (g, h, i)) =
     a * (e * i - f * h) - b * (d * i - f * g) + c * (d * h - e * g)"

definition id3 :: mat3 where
  "id3 = ((1, 0, 0), (0, 1, 0), (0, 0, 1))"

fun vadd3 :: "vec3 \<Rightarrow> vec3 \<Rightarrow> vec3" where
  "vadd3 (a1, a2, a3) (b1, b2, b3) = (a1 + b1, a2 + b2, a3 + b3)"

definition norm3 :: "vec3 \<Rightarrow> real" where
  "norm3 v = sqrt (dot3 v v)"

declare dot3.simps [vec_simps] mat_vec.simps [vec_simps] transpose3.simps [vec_simps]
  mat_mul3.simps [vec_simps] det3.simps [vec_simps] vadd3.simps [vec_simps]
  norm3_def [vec_simps] id3_def [vec_simps]

subsection \<open>Sums of squares and square roots\<close>

lemma sum_sq3_nonneg [simp]: "0 \<le> (a::real)\<^sup>2 + b\<^sup>2 + c\<^sup>2"
  by (intro add_nonneg_nonneg) simp_all

lemma sum_sq4_nonneg [simp]: "0 \<le> (a::real)\<^sup>2 + b\<^sup>2 + c\<^sup>2 + d\<^sup>2"
  by (intro add_nonneg_nonneg) simp_all

lemma sum_sq4_eq_0_iff: "(a::real)\<^sup>2 + b\<^sup>2 + c\<^sup>2 + d\<^sup>2 = 0 \<longleftrightarrow> a = 0 \<and> b = 0 \<and> c = 0 \<and> d = 0"
proof
  assume h: "a\<^sup>2 + b\<^sup>2 + c\<^sup>2 + d\<^sup>2 = 0"
  have "0 \<le> a\<^sup>2" "0 \<le> b\<^sup>2" "0 \<le> c\<^sup>2" "0 \<le> d\<^sup>2" by simp_all
  with h have "a\<^sup>2 = 0 \<and> b\<^sup>2 = 0 \<and> c\<^sup>2 = 0 \<and> d\<^sup>2 = 0" by linarith
  then show "a = 0 \<and> b = 0 \<and> c = 0 \<and> d = 0" by simp
qed simp

lemma dot3_self_nonneg [simp]: "0 \<le> dot3 v v"
proof (cases v rule: prod_cases3)
  case (fields a b c)
  then show ?thesis by (simp add: power2_eq_square [symmetric])
qed

lemma sqrt_of_square_sum: "0 \<le> r \<Longrightarrow> s = r\<^sup>2 \<Longrightarrow> sqrt s = (r::real)"
  by simp

text \<open>Cauchy--Schwarz for four-vectors, in the squared form the angle proofs use.\<close>

lemma cauchy_schwarz4:
  fixes a0 a1 a2 a3 b0 b1 b2 b3 :: real
  shows "(a0 * b0 + a1 * b1 + a2 * b2 + a3 * b3)\<^sup>2
           \<le> (a0\<^sup>2 + a1\<^sup>2 + a2\<^sup>2 + a3\<^sup>2) * (b0\<^sup>2 + b1\<^sup>2 + b2\<^sup>2 + b3\<^sup>2)"
proof -
  have "(a0 * b0 + a1 * b1 + a2 * b2 + a3 * b3)\<^sup>2 +
        ((a0*b1 - a1*b0)\<^sup>2 + (a0*b2 - a2*b0)\<^sup>2 + (a0*b3 - a3*b0)\<^sup>2
         + (a1*b2 - a2*b1)\<^sup>2 + (a1*b3 - a3*b1)\<^sup>2 + (a2*b3 - a3*b2)\<^sup>2)
        = (a0\<^sup>2 + a1\<^sup>2 + a2\<^sup>2 + a3\<^sup>2) * (b0\<^sup>2 + b1\<^sup>2 + b2\<^sup>2 + b3\<^sup>2)"
    by algebra
  moreover have "0 \<le> (a0*b1 - a1*b0)\<^sup>2 + (a0*b2 - a2*b0)\<^sup>2 + (a0*b3 - a3*b0)\<^sup>2
         + (a1*b2 - a2*b1)\<^sup>2 + (a1*b3 - a3*b1)\<^sup>2 + (a2*b3 - a3*b2)\<^sup>2"
    by (intro add_nonneg_nonneg) simp_all
  ultimately show ?thesis by linarith
qed

end
