(* ===== verification/Airsim_Types.thy ===== *)
theory Airsim_Types
  imports Lidar_Prelude
begin

text \<open>
  The message types the script receives from the AirSim client library
  (\<^verbatim>\<open>airsim/types.py\<close>, not under \<^verbatim>\<open>src/\<close>): only the fields the
  script reads. \<^verbatim>\<open>Vector3r\<close> and \<^verbatim>\<open>Quaternionr\<close> both name their
  components \<^verbatim>\<open>x_val\<close>, \<^verbatim>\<open>y_val\<close>, \<^verbatim>\<open>z_val\<close>; the quaternion's are
  written \<open>qx_val\<close>, \<open>qy_val\<close>, \<open>qz_val\<close> here so that the two records do not
  share field names. \<^verbatim>\<open>LidarData.point_cloud\<close> is the flat list of
  coordinates \<open>[x0, y0, z0, x1, \<dots>]\<close> in the sensor's local frame (the
  \<^verbatim>\<open>SensorLocalFrame\<close> setting of the script's header comment).
\<close>

record vector3r =
  x_val :: real
  y_val :: real
  z_val :: real

record quaternionr =
  w_val :: real
  qx_val :: real
  qy_val :: real
  qz_val :: real

record pose =
  position :: vector3r
  orientation :: quaternionr

record lidar_data =
  point_cloud :: "real list"
  time_stamp :: nat
  pose :: pose

text \<open>\<^verbatim>\<open>MultirotorState.kinematics_estimated\<close>: only its orientation is read.\<close>

record kinematics_state =
  kin_orientation :: quaternionr

record multirotor_state =
  kinematics_estimated :: kinematics_state

text \<open>The quaternion as the list \<open>[w, x, y, z]\<close> in the order line 85 unpacks it.\<close>

definition quat_list :: "quaternionr \<Rightarrow> real list" where
  "quat_list q = [w_val q, qx_val q, qy_val q, qz_val q]"

definition quat_norm2 :: "quaternionr \<Rightarrow> real" where
  "quat_norm2 q = (w_val q)\<^sup>2 + (qx_val q)\<^sup>2 + (qy_val q)\<^sup>2 + (qz_val q)\<^sup>2"

definition unit_quat :: "quaternionr \<Rightarrow> bool" where
  "unit_quat q \<longleftrightarrow> quat_norm2 q = 1"

definition mk_quat :: "real \<Rightarrow> real \<Rightarrow> real \<Rightarrow> real \<Rightarrow> quaternionr" where
  "mk_quat w x y z = \<lparr>w_val = w, qx_val = x, qy_val = y, qz_val = z\<rparr>"

definition mk_vec :: "real \<Rightarrow> real \<Rightarrow> real \<Rightarrow> vector3r" where
  "mk_vec x y z = \<lparr>x_val = x, y_val = y, z_val = z\<rparr>"

lemma quat_norm2_nonneg [simp]: "0 \<le> quat_norm2 q"
  by (simp add: quat_norm2_def)

lemma mk_quat_sel [simp]:
  "w_val (mk_quat w x y z) = w" "qx_val (mk_quat w x y z) = x"
  "qy_val (mk_quat w x y z) = y" "qz_val (mk_quat w x y z) = z"
  by (simp_all add: mk_quat_def)

lemma mk_vec_sel [simp]:
  "x_val (mk_vec x y z) = x" "y_val (mk_vec x y z) = y" "z_val (mk_vec x y z) = z"
  by (simp_all add: mk_vec_def)

end
