(* ===== verification/Rotation.thy ===== *)
theory Rotation
  imports Airsim_Types
begin

text \<open>
  The rotation matrix that lines 85--88 of \<^verbatim>\<open>sensorframe_lidar_pointcloud.py\<close>
  build from the lidar's orientation quaternion \<open>(q0, q1, q2, q3) = (w, x, y, z)\<close>,
  and its abstract specification: the rotation of a vector \<open>v\<close> by a unit
  quaternion \<open>q\<close> is the vector part of the Hamilton product
  \<open>q \<otimes> (0, v) \<otimes> q\<^sup>*\<close>. The lemmas show that the matrix implements that
  rotation, that it is orthogonal with determinant one, that it keeps lengths, that
  it is the same for \<open>q\<close> and \<open>-q\<close>, and that it turns quaternion products into
  matrix products; all of this needs a quaternion of norm one, which the script
  never checks. For any quaternion, the exact change of squared length the matrix
  makes (\<open>rotation_matrix_stretch\<close>) shows what a non-unit one does.
\<close>

subsection \<open>The code: lines 85--88\<close>

definition rotation_matrix :: "quaternionr \<Rightarrow> mat3" where
  "rotation_matrix ori =
     (let q0 = w_val ori; q1 = qx_val ori;
          q2 = qy_val ori; q3 = qz_val ori
      in ((1 - 2*(q2*q2 + q3*q3), 2*(q1*q2 - q3*q0), 2*(q1*q3 + q2*q0)),
          (2*(q1*q2 + q3*q0), 1 - 2*(q1*q1 + q3*q3), 2*(q2*q3 - q1*q0)),
          (2*(q1*q3 - q2*q0), 2*(q2*q3 + q1*q0), 1 - 2*(q1*q1 + q2*q2))))"

subsection \<open>The specification: Hamilton quaternions\<close>

definition quat_mult :: "quaternionr \<Rightarrow> quaternionr \<Rightarrow> quaternionr" where
  "quat_mult p q =
     (let a0 = w_val p; a1 = qx_val p; a2 = qy_val p; a3 = qz_val p;
          b0 = w_val q; b1 = qx_val q; b2 = qy_val q; b3 = qz_val q
      in mk_quat (a0*b0 - a1*b1 - a2*b2 - a3*b3)
                 (a0*b1 + a1*b0 + a2*b3 - a3*b2)
                 (a0*b2 - a1*b3 + a2*b0 + a3*b1)
                 (a0*b3 + a1*b2 - a2*b1 + a3*b0))"

definition quat_conj :: "quaternionr \<Rightarrow> quaternionr" where
  "quat_conj q = mk_quat (w_val q) (- qx_val q) (- qy_val q) (- qz_val q)"

definition quat_neg :: "quaternionr \<Rightarrow> quaternionr" where
  "quat_neg q = mk_quat (- w_val q) (- qx_val q) (- qy_val q) (- qz_val q)"

definition pure_quat :: "vec3 \<Rightarrow> quaternionr" where
  "pure_quat v = (case v of (x, y, z) \<Rightarrow> mk_quat 0 x y z)"

definition vec_part :: "quaternionr \<Rightarrow> vec3" where
  "vec_part q = (qx_val q, qy_val q, qz_val q)"

definition rotate_by :: "quaternionr \<Rightarrow> vec3 \<Rightarrow> vec3" where
  "rotate_by q v = vec_part (quat_mult (quat_mult q (pure_quat v)) (quat_conj q))"

lemmas quat_ops_defs = quat_mult_def quat_conj_def quat_neg_def pure_quat_def vec_part_def
  rotate_by_def rotation_matrix_def

lemma unit_quat_eq: "unit_quat q \<longleftrightarrow> (w_val q)\<^sup>2 + (qx_val q)\<^sup>2 + (qy_val q)\<^sup>2 + (qz_val q)\<^sup>2 = 1"
  by (simp add: unit_quat_def quat_norm2_def)

lemma quat_norm2_mult: "quat_norm2 (quat_mult p q) = quat_norm2 p * quat_norm2 q"
  unfolding quat_norm2_def quat_mult_def Let_def mk_quat_sel by algebra

lemma unit_quat_mult: "unit_quat p \<Longrightarrow> unit_quat q \<Longrightarrow> unit_quat (quat_mult p q)"
  by (simp add: unit_quat_def quat_norm2_mult)

lemma unit_quat_neg: "unit_quat (quat_neg q) = unit_quat q"
  by (simp add: unit_quat_def quat_norm2_def quat_neg_def)

lemma unit_quat_expand:
  "unit_quat q \<Longrightarrow> (w_val q)\<^sup>2 + (qx_val q)\<^sup>2 + (qy_val q)\<^sup>2 + (qz_val q)\<^sup>2 = 1"
  by (simp add: unit_quat_eq)

text \<open>A unit quaternion with rational components, used by the witnesses.\<close>

definition half_quat :: quaternionr where
  "half_quat = mk_quat (1/2) (1/2) (1/2) (1/2)"

lemma unit_half_quat: "unit_quat half_quat"
  by (simp add: unit_quat_eq half_quat_def power2_eq_square)

subsection \<open>The matrix implements the quaternion rotation\<close>

text \<open>
  C5: for a unit orientation quaternion, multiplying by the matrix of lines 86--88
  is the rotation \<open>v \<mapsto> q \<otimes> v \<otimes> q\<^sup>*\<close>: the matrix formula is a correct
  refinement of the quaternion rotation.
\<close>

theorem rotation_matrix_refines_rotate_by:
  assumes "unit_quat q"
  shows "mat_vec (rotation_matrix q) v = rotate_by q v"
proof (cases v rule: prod_cases3)
  case (fields x y z)
  note u = unit_quat_expand [OF assms]
  show ?thesis unfolding fields quat_ops_defs Let_def
    by (simp add: vec_simps prod_eq_iff) (intro conjI; use u in algebra)
qed

theorem rotation_matrix_refines_rotate_by_witness:
  "unit_quat half_quat \<and>
   mat_vec (rotation_matrix half_quat) (1, 0, 0) = rotate_by half_quat (1, 0, 0)"
  using unit_half_quat rotation_matrix_refines_rotate_by [OF unit_half_quat, of "(1, 0, 0)"]
  by simp

text \<open>
  C6: for a unit quaternion the matrix is orthogonal: its transpose is its inverse.
\<close>

theorem rotation_matrix_orthogonal:
  assumes "unit_quat q"
  shows "mat_mul3 (transpose3 (rotation_matrix q)) (rotation_matrix q) = id3"
proof -
  note u = unit_quat_expand [OF assms]
  show ?thesis unfolding rotation_matrix_def Let_def
    by (simp add: vec_simps prod_eq_iff) (intro conjI; use u in algebra)
qed

theorem rotation_matrix_orthogonal_witness:
  "unit_quat half_quat \<and>
   mat_mul3 (transpose3 (rotation_matrix half_quat)) (rotation_matrix half_quat) = id3"
  using unit_half_quat rotation_matrix_orthogonal [OF unit_half_quat] by simp

text \<open>For a unit quaternion the matrix has determinant one (a proper rotation).\<close>

lemma rotation_matrix_det:
  assumes "unit_quat q"
  shows "det3 (rotation_matrix q) = 1"
proof -
  note u = unit_quat_expand [OF assms]
  show ?thesis unfolding rotation_matrix_def Let_def
    by (simp add: vec_simps) (use u in algebra)
qed

lemma rotation_matrix_dot_self:
  assumes "unit_quat q"
  shows "dot3 (mat_vec (rotation_matrix q) v) (mat_vec (rotation_matrix q) v) = dot3 v v"
proof (cases v rule: prod_cases3)
  case (fields x y z)
  note u = unit_quat_expand [OF assms]
  show ?thesis unfolding fields rotation_matrix_def Let_def
    by (simp add: vec_simps) (use u in algebra)
qed

text \<open>For a unit quaternion the matrix keeps the length of every vector.\<close>

lemma rotation_matrix_preserves_norm:
  assumes "unit_quat q"
  shows "norm3 (mat_vec (rotation_matrix q) v) = norm3 v"
  using rotation_matrix_dot_self [OF assms] by (simp add: norm3_def)

text \<open>
  The matrix does not change when the quaternion is negated: \<open>q\<close> and \<open>-q\<close>
  are the same orientation (double cover).
\<close>

lemma rotation_matrix_neg: "rotation_matrix (quat_neg q) = rotation_matrix q"
  by (simp add: rotation_matrix_def quat_neg_def Let_def)

text \<open>
  C19: the matrix of a product of unit quaternions is the product of their matrices,
  so composing orientations as quaternions and as matrices agrees.
\<close>

theorem rotation_matrix_mult:
  assumes "unit_quat p" and "unit_quat q"
  shows "rotation_matrix (quat_mult p q) = mat_mul3 (rotation_matrix p) (rotation_matrix q)"
proof -
  note u = unit_quat_expand [OF assms(1)] unit_quat_expand [OF assms(2)]
  show ?thesis unfolding rotation_matrix_def quat_mult_def Let_def
    by (simp add: vec_simps prod_eq_iff) (intro conjI; use u in algebra)
qed

theorem rotation_matrix_mult_witness:
  "unit_quat half_quat \<and> unit_quat (mk_quat 0 1 0 0) \<and>
   rotation_matrix (quat_mult half_quat (mk_quat 0 1 0 0))
     = mat_mul3 (rotation_matrix half_quat) (rotation_matrix (mk_quat 0 1 0 0))"
proof -
  have h: "unit_quat (mk_quat 0 1 0 0)" by (simp add: unit_quat_eq)
  show ?thesis using unit_half_quat h rotation_matrix_mult [OF unit_half_quat h] by simp
qed

text \<open>The axis part of a quaternion and the cross product, for the general identity
  below.\<close>

definition quat_axis :: "quaternionr \<Rightarrow> vec3" where
  "quat_axis q = (qx_val q, qy_val q, qz_val q)"

fun cross3 :: "vec3 \<Rightarrow> vec3 \<Rightarrow> vec3" where
  "cross3 (a1, a2, a3) (b1, b2, b3) = (a2 * b3 - a3 * b2, a3 * b1 - a1 * b3, a1 * b2 - a2 * b1)"

text \<open>
  C20: the script never normalises the lidar quaternion before building the matrix
  (only the angle computation normalises, through \<^verbatim>\<open>Rotation.from_quat\<close>). For
  every quaternion \<open>q\<close> with axis part \<open>v\<close> and every vector \<open>x\<close>, the matrix of lines
  86--88 changes the squared length of \<open>x\<close> by exactly
  \<open>-4 (1 - |q|\<^sup>2) |v \<times> x|\<^sup>2\<close>: it keeps lengths only when \<open>q\<close> has unit norm or
  \<open>x\<close> lies along the axis, and a non-unit quaternion stretches (\<open>|q| > 1\<close>) or
  shrinks (\<open>|q| < 1\<close>) every point off its axis.
\<close>

theorem rotation_matrix_stretch:
  "dot3 (mat_vec (rotation_matrix q) x) (mat_vec (rotation_matrix q) x) =
     dot3 x x - 4 * (1 - quat_norm2 q) * dot3 (cross3 (quat_axis q) x) (cross3 (quat_axis q) x)"
proof (cases x rule: prod_cases3)
  case (fields a b c)
  show ?thesis unfolding fields rotation_matrix_def Let_def quat_axis_def
    by (simp add: vec_simps quat_norm2_def) algebra
qed

end
