(* ===== verification/Point_Transform.thy ===== *)
theory Point_Transform
  imports Rotation
begin

text \<open>
  The geometry of one lidar return (lines 92--100 of
  \<^verbatim>\<open>sensorframe_lidar_pointcloud.py\<close>): the flat point cloud is cut into
  slices \<^verbatim>\<open>point_cloud[i:i+3]\<close> for \<^verbatim>\<open>i in range(0, len, 3)\<close>; each
  slice is multiplied by the rotation matrix with \<^verbatim>\<open>np.matmul\<close>, which raises
  \<^verbatim>\<open>ValueError\<close> unless the slice has three entries; the lidar position is added;
  the range is the Euclidean distance from the lidar position to the result.
  \<open>chunks3\<close> is a plain recursive reference for the slicing, and the lemmas show
  the slicing equal to it, count the slices, and give the transform on every branch.
\<close>

subsection \<open>Slicing the point cloud: lines 92--93\<close>

text \<open>Python's \<^verbatim>\<open>range(start, stop, step)\<close> for a positive step.\<close>

function py_range :: "nat \<Rightarrow> nat \<Rightarrow> nat \<Rightarrow> nat list" where
  "py_range start stop step =
     (if 0 < step \<and> start < stop then start # py_range (start + step) stop step else [])"
  by pat_completeness auto
termination
  by (relation "measure (\<lambda>(start, stop, step). stop - start)") auto

declare py_range.simps [simp del]

text \<open>Python's slice \<^verbatim>\<open>xs[i:j]\<close> for \<open>0 \<le> i \<le> j\<close>: it never raises, it is
  cut short at the end of the list.\<close>

definition py_slice :: "'a list \<Rightarrow> nat \<Rightarrow> nat \<Rightarrow> 'a list" where
  "py_slice xs i j = take (j - i) (drop i xs)"

definition point_slices :: "real list \<Rightarrow> real list list" where
  "point_slices pcl =
     map (\<lambda>i. py_slice pcl i (i + 3)) (py_range 0 (length pcl) 3)"

fun chunks3 :: "'a list \<Rightarrow> 'a list list" where
  "chunks3 (a # b # c # rest) = [a, b, c] # chunks3 rest"
| "chunks3 [] = []"
| "chunks3 xs = [xs]"

lemma chunks3_unfold: "chunks3 xs = (if xs = [] then [] else take 3 xs # chunks3 (drop 3 xs))"
  by (induction xs rule: chunks3.induct) auto

lemma py_range_step3:
  "py_range k n 3 = (if k < n then k # py_range (k + 3) n 3 else [])"
  by (simp add: py_range.simps [of k n 3])

lemma slices_from:
  "map (\<lambda>i. py_slice xs i (i + 3)) (py_range k (length xs) 3) = chunks3 (drop k xs)"
proof (induction "length xs - k" arbitrary: k rule: less_induct)
  case less
  show ?case
  proof (cases "k < length xs")
    case True
    then have "length xs - (k + 3) < length xs - k" by simp
    then have "map (\<lambda>i. py_slice xs i (i + 3)) (py_range (k + 3) (length xs) 3)
                 = chunks3 (drop (k + 3) xs)" by (rule less)
    with True show ?thesis
      by (simp add: py_range_step3 [of k] chunks3_unfold [of "drop k xs"] py_slice_def add.commute)
  next
    case False
    then show ?thesis by (simp add: py_range_step3 [of k] chunks3_unfold [of "drop k xs"])
  qed
qed

text \<open>
  C10: the slicing of lines 92--93 is the chunking into consecutive triples, the last
  chunk shorter when the length is not a multiple of three.
\<close>

theorem point_slices_eq_chunks3: "point_slices pc = chunks3 pc"
  using slices_from [of pc 0] by (simp add: point_slices_def)

lemma point_slices_chunks: "point_slices pc = chunks3 pc"
  using slices_from [of pc 0] by (simp add: point_slices_def)

lemma length_chunks3: "length (chunks3 xs) = (length xs + 2) div 3"
  by (induction xs rule: chunks3.induct) auto

lemma concat_chunks3 [simp]: "concat (chunks3 xs) = xs"
  by (induction xs rule: chunks3.induct) auto

lemma dvd3_Suc3 [simp]: "(3::nat) dvd Suc (Suc (Suc n)) \<longleftrightarrow> 3 dvd n"
  by presburger

lemma three_not_dvd_small [simp]: "\<not> (3::nat) dvd Suc 0" "\<not> (3::nat) dvd Suc (Suc 0)"
  by presburger+

lemma chunks3_Nil_iff [simp]: "chunks3 xs = [] \<longleftrightarrow> xs = []"
  by (induction xs rule: chunks3.induct) auto

lemma chunks3_full: "3 dvd length xs \<Longrightarrow> ys \<in> set (chunks3 xs) \<Longrightarrow> length ys = 3"
  by (induction xs rule: chunks3.induct) auto

lemma last_chunks3:
  "\<not> 3 dvd length xs \<Longrightarrow> length (last (chunks3 xs)) = length xs mod 3"
  by (induction xs rule: chunks3.induct) auto

text \<open>
  A point cloud of \<open>3 * n\<close> coordinates gives exactly \<open>n\<close> slices, each of three
  coordinates, whose concatenation is the cloud: one slice per point, in input order.
\<close>

lemma point_slices_count_order:
  assumes "length pc = 3 * n"
  shows "length (point_slices pc) = n \<and> (\<forall>s \<in> set (point_slices pc). length s = 3)
         \<and> concat (point_slices pc) = pc"
  using assms chunks3_full [of pc] by (simp add: point_slices_chunks length_chunks3)

subsection \<open>One point: lines 95--100\<close>

definition np_matmul :: "mat3 \<Rightarrow> real list \<Rightarrow> py_error + vec3" where
  "np_matmul m xyz =
     (case xyz of [x, y, z] \<Rightarrow> Inr (mat_vec m (x, y, z))
      | _ \<Rightarrow> Inl (MatmulShapeMismatch (length xyz)))"

definition transform_point :: "mat3 \<Rightarrow> vector3r \<Rightarrow> real list \<Rightarrow> py_error + (vec3 \<times> real)" where
  "transform_point rm pos xyz =
     (case np_matmul rm xyz of
        Inl e \<Rightarrow> Inl e
      | Inr (corrected_x, corrected_y, corrected_z) \<Rightarrow>
          (let final_x = corrected_x + x_val pos;
               final_y = corrected_y + y_val pos;
               final_z = corrected_z + z_val pos;
               point_range = sqrt ((x_val pos - final_x)\<^sup>2 + (y_val pos - final_y)\<^sup>2
                                   + (z_val pos - final_z)\<^sup>2)
           in Inr ((final_x, final_y, final_z), point_range)))"

definition vec_of :: "vector3r \<Rightarrow> vec3" where
  "vec_of p = (x_val p, y_val p, z_val p)"

lemma np_matmul_triple [simp]: "np_matmul m [x, y, z] = Inr (mat_vec m (x, y, z))"
  by (simp add: np_matmul_def)

lemma np_matmul_other: "length xyz \<noteq> 3 \<Longrightarrow> np_matmul m xyz = Inl (MatmulShapeMismatch (length xyz))"
  by (auto simp: np_matmul_def split: list.split)

lemma transform_point_eval:
  "transform_point rm pos [x, y, z] =
     Inr (vadd3 (mat_vec rm (x, y, z)) (vec_of pos), norm3 (mat_vec rm (x, y, z)))"
proof -
  obtain a b c where abc: "mat_vec rm (x, y, z) = (a, b, c)" by (cases "mat_vec rm (x, y, z)") auto
  have "(x_val pos - (a + x_val pos))\<^sup>2 + (y_val pos - (b + y_val pos))\<^sup>2
          + (z_val pos - (c + z_val pos))\<^sup>2 = dot3 (a, b, c) (a, b, c)"
    by (simp add: power2_eq_square)
  then show ?thesis
    by (simp add: transform_point_def abc vec_of_def norm3_def Let_def)
qed

text \<open>
  On a slice of three coordinates the transform returns the rotated point moved
  by the lidar position, and its range is the length of the rotated point (the
  distance computed on line 100 does not depend on the position).
\<close>

lemma transform_point_triple:
  "transform_point rm pos [x, y, z] =
     Inr (vadd3 (mat_vec rm (x, y, z)) (vec_of pos), norm3 (mat_vec rm (x, y, z)))"
  by (simp add: transform_point_def vec_of_def norm3_def Let_def power2_eq_square
      split: prod.split)

text \<open>
  C8: with a unit lidar quaternion the range of a point is the length of the point
  in the sensor frame, whatever the orientation and the position.
\<close>

theorem transform_point_range_local:
  assumes "unit_quat q"
  shows "\<exists>w. transform_point (rotation_matrix q) pos [x, y, z] = Inr (w, norm3 (x, y, z))"
proof (rule exI)
  show "transform_point (rotation_matrix q) pos [x, y, z]
          = Inr (vadd3 (mat_vec (rotation_matrix q) (x, y, z)) (vec_of pos), norm3 (x, y, z))"
    using rotation_matrix_dot_self [OF assms, of "(x, y, z)"]
    by (simp add: transform_point_eval norm3_def)
qed

theorem transform_point_range_local_witness:
  "unit_quat half_quat \<and>
   (\<exists>w. transform_point (rotation_matrix half_quat) (mk_vec 0 0 (-1)) [3, 4, 0]
          = Inr (w, norm3 (3, 4, 0)))"
  using unit_half_quat transform_point_range_local [OF unit_half_quat, of "mk_vec 0 0 (-1)" 3 4 0]
  by simp

end
