(* ===== verification/Orientation_Angle.thy ===== *)
theory Orientation_Angle
  imports Rotation
begin

text \<open>
  The angle of lines 101--108 of \<^verbatim>\<open>sensorframe_lidar_pointcloud.py\<close>: the
  vehicle quaternion \<open>m\<close> with its vector part negated and the lidar quaternion
  \<open>q\<close> are each passed through \<^verbatim>\<open>scipy.spatial.transform.Rotation.from_quat\<close>
  (which normalises and raises \<^verbatim>\<open>ValueError\<close> on a zero norm) and read back with
  \<^verbatim>\<open>as_quat\<close>; their four-component inner product \<open>x\<close> gives the angle
  \<open>acos(2 x\<^sup>2 - 1)\<close>, and \<^verbatim>\<open>math.acos\<close> raises outside \<open>[-1, 1]\<close>.
  The component order scipy assumes (scalar last) does not matter: the norm and the
  inner product do not depend on it.

  The lemmas show what the angle measures: the inner product of \<open>m\<^sup>*\<close> with \<open>q\<close>
  is the scalar part of the Hamilton product \<open>m \<otimes> q\<close>, so the angle is that of the
  composed rotation \<open>m \<otimes> q\<close>, it is zero exactly when \<open>q = \<plusminus>m\<^sup>*\<close>, and two
  equal orientations give zero only for the identity and for half turns, against the
  comment on line 101 and the spec. It is insensitive to the sign of either quaternion.

  Floats are reals here. In exact arithmetic the argument \<open>2 x\<^sup>2 - 1\<close> of
  \<^verbatim>\<open>math.acos\<close> stays in \<open>[-1, 1]\<close> (\<open>acos_arg_bounds\<close>); in double precision it can
  leave it (\<open>1.0000000000000018\<close> for some \<open>q = m\<^sup>*\<close>), and line 108 then raises
  \<^verbatim>\<open>ValueError: math domain error\<close>: the code does not clamp, as the spec asks. The
  model cannot show that exception, so no property of this development claims that
  the angle computation, a scan or the loop never raises.
\<close>

subsection \<open>The library calls\<close>

text \<open>A \<^verbatim>\<open>Rotation\<close> object stores its normalised quaternion.\<close>

datatype rotation = Rotation "real list"

definition from_quat :: "real list \<Rightarrow> py_error + rotation" where
  "from_quat quat =
     (if length quat \<noteq> 4 then Inl (QuatShapeMismatch (length quat))
      else let n = sqrt (sum_list (map (\<lambda>c. c\<^sup>2) quat))
           in if n = 0 then Inl ZeroNormQuaternion else Inr (Rotation (map (\<lambda>c. c / n) quat)))"

fun as_quat :: "rotation \<Rightarrow> real list" where
  "as_quat (Rotation quat) = quat"

definition py_acos :: "real \<Rightarrow> py_error + real" where
  "py_acos x = (if -1 \<le> x \<and> x \<le> 1 then Inr (arccos x) else Inl MathDomainError)"

subsection \<open>The code: lines 102--108\<close>

text \<open>\<open>mo\<close> is \<^verbatim>\<open>multirotor_orientation\<close>, \<open>lo\<close> the lidar's \<^verbatim>\<open>orientation\<close>.\<close>

definition point_angle :: "quaternionr \<Rightarrow> quaternionr \<Rightarrow> py_error + real" where
  "point_angle mo lo =
     (let m0 = w_val mo; m1 = qx_val mo; m2 = qy_val mo; m3 = qz_val mo;
          q0 = w_val lo; q1 = qx_val lo; q2 = qy_val lo; q3 = qz_val lo
      in case from_quat [m0, - m1, - m2, - m3] of
           Inl e \<Rightarrow> Inl e
         | Inr m \<Rightarrow>
             (case from_quat [q0, q1, q2, q3] of
                Inl e \<Rightarrow> Inl e
              | Inr q \<Rightarrow>
                  (let m_norm = as_quat m; q_norm = as_quat q;
                       inner_product = m_norm ! 0 * q_norm ! 0 + m_norm ! 1 * q_norm ! 1
                                       + m_norm ! 2 * q_norm ! 2 + m_norm ! 3 * q_norm ! 3
                   in py_acos (2 * inner_product\<^sup>2 - 1))))"

subsection \<open>Evaluation lemmas\<close>

lemma from_quat4:
  "from_quat [a, b, c, d] =
     (if a\<^sup>2 + b\<^sup>2 + c\<^sup>2 + d\<^sup>2 = 0 then Inl ZeroNormQuaternion
      else (let n = sqrt (a\<^sup>2 + b\<^sup>2 + c\<^sup>2 + d\<^sup>2) in Inr (Rotation [a / n, b / n, c / n, d / n])))"
  by (simp add: from_quat_def Let_def add.assoc)

text \<open>The inner product of line 107, in closed form: the scalar part of
  \<open>m \<otimes> q\<close> divided by the two norms.\<close>

definition code_inner :: "quaternionr \<Rightarrow> quaternionr \<Rightarrow> real" where
  "code_inner mo lo = w_val (quat_mult mo lo) / (sqrt (quat_norm2 mo) * sqrt (quat_norm2 lo))"

lemma point_angle_eq:
  "point_angle mo lo =
     (if quat_norm2 mo = 0 \<or> quat_norm2 lo = 0 then Inl ZeroNormQuaternion
      else py_acos (2 * (code_inner mo lo)\<^sup>2 - 1))"
proof -
  have m: "(w_val mo)\<^sup>2 + (- qx_val mo)\<^sup>2 + (- qy_val mo)\<^sup>2 + (- qz_val mo)\<^sup>2 = quat_norm2 mo"
    by (simp add: quat_norm2_def)
  have l: "(w_val lo)\<^sup>2 + (qx_val lo)\<^sup>2 + (qy_val lo)\<^sup>2 + (qz_val lo)\<^sup>2 = quat_norm2 lo"
    by (simp add: quat_norm2_def)
  show ?thesis
  proof (cases "quat_norm2 mo = 0 \<or> quat_norm2 lo = 0")
    case True
    then show ?thesis unfolding point_angle_def Let_def from_quat4 m l by auto
  next
    case False
    then have nz: "sqrt (quat_norm2 mo) \<noteq> 0" "sqrt (quat_norm2 lo) \<noteq> 0" by simp_all
    have inner:
      "w_val mo / sqrt (quat_norm2 mo) * (w_val lo / sqrt (quat_norm2 lo))
       + - qx_val mo / sqrt (quat_norm2 mo) * (qx_val lo / sqrt (quat_norm2 lo))
       + - qy_val mo / sqrt (quat_norm2 mo) * (qy_val lo / sqrt (quat_norm2 lo))
       + - qz_val mo / sqrt (quat_norm2 mo) * (qz_val lo / sqrt (quat_norm2 lo))
       = code_inner mo lo"
      using nz unfolding code_inner_def quat_mult_def Let_def mk_quat_sel
      by (simp add: field_simps)
    from False show ?thesis
      unfolding point_angle_def Let_def from_quat4 m l using inner by simp
  qed
qed

lemma code_inner_sq_le1:
  assumes "quat_norm2 mo \<noteq> 0" and "quat_norm2 lo \<noteq> 0"
  shows "(code_inner mo lo)\<^sup>2 \<le> 1"
proof -
  have cs: "(w_val (quat_mult mo lo))\<^sup>2 \<le> quat_norm2 mo * quat_norm2 lo"
    using cauchy_schwarz4 [of "w_val mo" "w_val lo" "- qx_val mo" "qx_val lo"
        "- qy_val mo" "qy_val lo" "- qz_val mo" "qz_val lo"]
    by (simp add: quat_mult_def quat_norm2_def Let_def)
  have "0 < quat_norm2 mo" "0 < quat_norm2 lo"
    using assms quat_norm2_nonneg [of mo] quat_norm2_nonneg [of lo] by linarith+
  then have pos: "0 < quat_norm2 mo * quat_norm2 lo" by simp
  have "(code_inner mo lo)\<^sup>2 = (w_val (quat_mult mo lo))\<^sup>2 / (quat_norm2 mo * quat_norm2 lo)"
    by (simp add: code_inner_def power_divide power_mult_distrib)
  with cs pos show ?thesis by simp
qed

lemma acos_arg_bounds:
  "(x::real)\<^sup>2 \<le> 1 \<Longrightarrow> -1 \<le> 2 * x\<^sup>2 - 1 \<and> 2 * x\<^sup>2 - 1 \<le> 1"
  by simp

lemma point_angle_nonzero:
  assumes "quat_norm2 mo \<noteq> 0" and "quat_norm2 lo \<noteq> 0"
  shows "point_angle mo lo = Inr (arccos (2 * (code_inner mo lo)\<^sup>2 - 1))"
  using assms code_inner_sq_le1 [OF assms] acos_arg_bounds
  by (simp add: point_angle_eq py_acos_def)

lemma quat_norm2_conj [simp]: "quat_norm2 (quat_conj q) = quat_norm2 q"
  by (simp add: quat_norm2_def quat_conj_def)

lemma quat_norm2_neg [simp]: "quat_norm2 (quat_neg q) = quat_norm2 q"
  by (simp add: quat_norm2_def quat_neg_def)

lemma code_inner_neg:
  "code_inner (quat_neg mo) lo = - code_inner mo lo"
  "code_inner mo (quat_neg lo) = - code_inner mo lo"
proof -
  have "w_val (quat_mult (quat_neg mo) lo) = - w_val (quat_mult mo lo)"
    "w_val (quat_mult mo (quat_neg lo)) = - w_val (quat_mult mo lo)"
    by (simp_all add: quat_mult_def quat_neg_def Let_def algebra_simps)
  then show "code_inner (quat_neg mo) lo = - code_inner mo lo"
    "code_inner mo (quat_neg lo) = - code_inner mo lo"
    by (simp_all add: code_inner_def)
qed

lemma code_inner_unit:
  "unit_quat mo \<Longrightarrow> unit_quat lo \<Longrightarrow> code_inner mo lo = w_val (quat_mult mo lo)"
  by (simp add: code_inner_def unit_quat_def)

lemma quaternionr_eq_iff:
  "(p::quaternionr) = q \<longleftrightarrow>
     w_val p = w_val q \<and> qx_val p = qx_val q \<and> qy_val p = qy_val q \<and> qz_val p = qz_val q"
  by (cases p, cases q) simp

lemma arccos_eq_0_iff':
  "-1 \<le> y \<Longrightarrow> y \<le> 1 \<Longrightarrow> arccos y = 0 \<longleftrightarrow> y = 1"
  by (metis arccos_1 cos_arccos cos_zero)

text \<open>
  A unit four-vector whose inner product with another unit four-vector is
  \<open>\<plusminus>1\<close> is that vector or its negation (the equality case of Cauchy--Schwarz).
\<close>

lemma inner4_sq_1:
  fixes a0 a1 a2 a3 b0 b1 b2 b3 :: real
  assumes a: "a0\<^sup>2 + a1\<^sup>2 + a2\<^sup>2 + a3\<^sup>2 = 1" and b: "b0\<^sup>2 + b1\<^sup>2 + b2\<^sup>2 + b3\<^sup>2 = 1"
    and x: "x = a0 * b0 + a1 * b1 + a2 * b2 + a3 * b3" and sq: "x\<^sup>2 = 1"
  shows "b0 = x * a0 \<and> b1 = x * a1 \<and> b2 = x * a2 \<and> b3 = x * a3"
proof -
  have "(b0 - x * a0)\<^sup>2 + (b1 - x * a1)\<^sup>2 + (b2 - x * a2)\<^sup>2 + (b3 - x * a3)\<^sup>2 = 1 - x\<^sup>2"
    using a b x by algebra
  with sq have "(b0 - x * a0)\<^sup>2 + (b1 - x * a1)\<^sup>2 + (b2 - x * a2)\<^sup>2 + (b3 - x * a3)\<^sup>2 = 0"
    by simp
  then show ?thesis by (simp add: sum_sq4_eq_0_iff)
qed

subsection \<open>Properties of the angle\<close>

text \<open>
  The angle does not change when either quaternion is negated, as \<open>q\<close> and
  \<open>-q\<close> are the same orientation.
\<close>

lemma point_angle_sign_invariant:
  "point_angle (quat_neg mo) lo = point_angle mo lo \<and> point_angle mo (quat_neg lo) = point_angle mo lo"
  by (simp add: point_angle_eq code_inner_neg)

text \<open>
  C2: for unit quaternions the angle is \<open>acos(2 w\<^sup>2 - 1)\<close> where \<open>w\<close> is the
  scalar part of the Hamilton product \<open>m \<otimes> q\<close> of the vehicle and lidar
  orientations: the rotation angle of the composition \<open>m \<otimes> q\<close>. The conjugation
  written on line 103 and the inner product on line 107 cancel out; the relative
  rotation \<open>m\<^sup>* \<otimes> q\<close> the comment on line 101 names has scalar part
  \<open>m0 q0 + m1 q1 + m2 q2 + m3 q3\<close> instead.
\<close>

theorem point_angle_is_product_angle:
  assumes "unit_quat mo" and "unit_quat lo"
  shows "point_angle mo lo = Inr (arccos (2 * (w_val (quat_mult mo lo))\<^sup>2 - 1))"
proof -
  have "quat_norm2 mo \<noteq> 0" "quat_norm2 lo \<noteq> 0" using assms by (simp_all add: unit_quat_def)
  then show ?thesis using point_angle_nonzero code_inner_unit [OF assms] by simp
qed

theorem point_angle_is_product_angle_witness:
  "unit_quat half_quat \<and> unit_quat (mk_quat 0 1 0 0) \<and>
   point_angle half_quat (mk_quat 0 1 0 0)
     = Inr (arccos (2 * (w_val (quat_mult half_quat (mk_quat 0 1 0 0)))\<^sup>2 - 1))"
proof -
  have h: "unit_quat (mk_quat 0 1 0 0)" by (simp add: unit_quat_eq)
  show ?thesis using unit_half_quat h point_angle_is_product_angle [OF unit_half_quat h] by simp
qed



text \<open>
  C4: for unit quaternions the computed angle is zero exactly when the lidar
  quaternion is the conjugate of the vehicle quaternion or its negation, that is when
  the lidar orientation is the inverse of the vehicle's.
\<close>

theorem point_angle_zero_iff:
  assumes um: "unit_quat mo" and ul: "unit_quat lo"
  shows "point_angle mo lo = Inr 0 \<longleftrightarrow> lo = quat_conj mo \<or> lo = quat_neg (quat_conj mo)"
proof -
  define x where "x = w_val (quat_mult mo lo)"
  have a: "(w_val mo)\<^sup>2 + (- qx_val mo)\<^sup>2 + (- qy_val mo)\<^sup>2 + (- qz_val mo)\<^sup>2 = 1"
    using unit_quat_expand [OF um] by simp
  note b = unit_quat_expand [OF ul]
  have xdef: "x = w_val mo * w_val lo + - qx_val mo * qx_val lo + - qy_val mo * qy_val lo
                  + - qz_val mo * qz_val lo"
    by (simp add: x_def quat_mult_def Let_def)
  have n: "quat_norm2 mo \<noteq> 0" "quat_norm2 lo \<noteq> 0" using um ul by (simp_all add: unit_quat_def)
  have sq: "x\<^sup>2 \<le> 1" using code_inner_sq_le1 [OF n] code_inner_unit [OF um ul] by (simp add: x_def)
  have "point_angle mo lo = Inr 0 \<longleftrightarrow> arccos (2 * x\<^sup>2 - 1) = 0"
    using point_angle_nonzero [OF n] code_inner_unit [OF um ul] by (simp add: x_def)
  also have "\<dots> \<longleftrightarrow> x\<^sup>2 = 1"
    using sq acos_arg_bounds [OF sq] arccos_eq_0_iff' by auto
  also have "\<dots> \<longleftrightarrow> lo = quat_conj mo \<or> lo = quat_neg (quat_conj mo)"
  proof
    assume "x\<^sup>2 = 1"
    with inner4_sq_1 [OF a b xdef] have e: "w_val lo = x * w_val mo \<and> qx_val lo = x * - qx_val mo
        \<and> qy_val lo = x * - qy_val mo \<and> qz_val lo = x * - qz_val mo" by blast
    from \<open>x\<^sup>2 = 1\<close> have "x = 1 \<or> x = -1" by (simp add: power2_eq_1_iff)
    with e show "lo = quat_conj mo \<or> lo = quat_neg (quat_conj mo)"
      by (auto simp: quaternionr_eq_iff quat_conj_def quat_neg_def)
  next
    assume "lo = quat_conj mo \<or> lo = quat_neg (quat_conj mo)"
    then have "x = 1 \<or> x = -1"
      using unit_quat_expand [OF um]
      by (auto simp: x_def quat_mult_def quat_conj_def quat_neg_def Let_def power2_eq_square
          algebra_simps)
    then show "x\<^sup>2 = 1" by auto
  qed
  finally show ?thesis .
qed

theorem point_angle_zero_iff_witness:
  "unit_quat half_quat \<and> unit_quat (quat_conj half_quat) \<and>
   (point_angle half_quat (quat_conj half_quat) = Inr 0 \<longleftrightarrow>
      quat_conj half_quat = quat_conj half_quat
      \<or> quat_conj half_quat = quat_neg (quat_conj half_quat))"
proof -
  have h: "unit_quat (quat_conj half_quat)" using unit_half_quat by (simp add: unit_quat_def)
  show ?thesis using unit_half_quat h point_angle_zero_iff [OF unit_half_quat h] by simp
qed

end
