(* ===== verification/Scan_Processing.thy ===== *)
theory Scan_Processing
  imports Point_Transform Orientation_Angle "HOL-Library.Sublist"
begin

text \<open>
  One scan of one lidar: the body of \<^verbatim>\<open>for lidar_name in lidar_names\<close>
  (lines 76--113 of \<^verbatim>\<open>sensorframe_lidar_pointcloud.py\<close>). The program's
  environment is an explicit state: the files (each a list of the records written to
  it), the file handle \<^verbatim>\<open>f\<close> left open, standard output, the wall clock read by
  \<^verbatim>\<open>time.time()\<close> (its \<open>k\<close>-th reading is \<open>clock k\<close>) and the simulator,
  which answers the \<open>k\<close>-th request with \<open>lidar_feed k\<close> or \<open>state_feed k\<close>.
  A record of line 112 is kept as the tuple the format string receives; its text
  rendering is not modelled. The lemmas give the point loop in closed form when it
  succeeds, the rows written before each kind of exception, and the effect of the
  \<^verbatim>\<open>'w'\<close> and \<^verbatim>\<open>'a'\<close> open modes.
\<close>

subsection \<open>Records, rounding and the environment\<close>

text \<open>The tuple written on line 112.\<close>

record out_row =
  row_x :: real
  row_y :: real
  row_z :: real
  row_range :: real
  row_angle :: real
  row_time :: int
  row_r :: int
  row_g :: int
  row_b :: int

definition row_of :: "vec3 \<Rightarrow> real \<Rightarrow> real \<Rightarrow> int \<Rightarrow> out_row" where
  "row_of v point_range p_angle milli_time =
     (case v of (final_x, final_y, final_z) \<Rightarrow>
        \<lparr>row_x = final_x, row_y = final_y, row_z = final_z, row_range = point_range,
         row_angle = p_angle, row_time = milli_time, row_r = 255, row_g = 255, row_b = 0\<rparr>)"

text \<open>Python 3's \<^verbatim>\<open>round\<close> on a float: to the nearest integer, ties to even.\<close>

definition py_round :: "real \<Rightarrow> int" where
  "py_round x =
     (let f = \<lfloor>x\<rfloor>; d = x - of_int f
      in if d < 1/2 then f else if 1/2 < d then f + 1 else if even f then f else f + 1)"

datatype open_mode = ModeWrite | ModeAppend

record world =
  files :: "string \<Rightarrow> out_row list option"
  handle :: "string option"
  stdout :: "string list"
  clock :: "nat \<Rightarrow> real"
  clock_reads :: nat
  lidar_feed :: "nat \<Rightarrow> string \<Rightarrow> string \<Rightarrow> lidar_data"
  state_feed :: "nat \<Rightarrow> string \<Rightarrow> multirotor_state"
  sim_calls :: nat

definition contents :: "world \<Rightarrow> string \<Rightarrow> out_row list" where
  "contents w fn = (case files w fn of None \<Rightarrow> [] | Some c \<Rightarrow> c)"

definition time_time :: "world \<Rightarrow> real \<times> world" where
  "time_time w = (clock w (clock_reads w), w\<lparr>clock_reads := Suc (clock_reads w)\<rparr>)"

text \<open>\<^verbatim>\<open>open(filename, 'w')\<close> truncates or creates; \<^verbatim>\<open>open(filename, 'a')\<close>
  keeps the contents or creates.\<close>

definition py_open :: "string \<Rightarrow> open_mode \<Rightarrow> world \<Rightarrow> world" where
  "py_open fn mode w =
     w\<lparr>files := (files w)(fn \<mapsto> (case mode of ModeWrite \<Rightarrow> [] | ModeAppend \<Rightarrow> contents w fn)),
       handle := Some fn\<rparr>"

definition py_write :: "string \<Rightarrow> out_row \<Rightarrow> world \<Rightarrow> world" where
  "py_write fn row w = w\<lparr>files := (files w)(fn \<mapsto> contents w fn @ [row])\<rparr>"

definition py_close :: "world \<Rightarrow> world" where
  "py_close w = w\<lparr>handle := None\<rparr>"

definition get_lidar_data :: "string \<Rightarrow> string \<Rightarrow> world \<Rightarrow> lidar_data \<times> world" where
  "get_lidar_data lidar_name vehicle_name w =
     (lidar_feed w (sim_calls w) lidar_name vehicle_name, w\<lparr>sim_calls := Suc (sim_calls w)\<rparr>)"

definition get_multirotor_state :: "string \<Rightarrow> world \<Rightarrow> multirotor_state \<times> world" where
  "get_multirotor_state vehicle_name w =
     (state_feed w (sim_calls w) vehicle_name, w\<lparr>sim_calls := Suc (sim_calls w)\<rparr>)"

subsection \<open>The point loop: lines 92--112\<close>

text \<open>\<open>lo\<close> is the lidar orientation, \<open>mo\<close> the vehicle's.\<close>

fun points_loop ::
  "string \<Rightarrow> mat3 \<Rightarrow> vector3r \<Rightarrow> quaternionr \<Rightarrow> quaternionr \<Rightarrow> real list list \<Rightarrow> world
   \<Rightarrow> world exec_result" where
  "points_loop fn rm pos lo mo [] w = Normal w"
| "points_loop fn rm pos lo mo (xyz # rest) w =
     (case transform_point rm pos xyz of
        Inl e \<Rightarrow> Raised e w
      | Inr (final, point_range) \<Rightarrow>
          (case point_angle mo lo of
             Inl e \<Rightarrow> Raised e w
           | Inr p_angle \<Rightarrow>
               (let (t, w1) = time_time w;
                    milli_time = py_round (t * 1000)
                in points_loop fn rm pos lo mo rest
                     (py_write fn (row_of final point_range p_angle milli_time) w1))))"

subsection \<open>One lidar: lines 76--113\<close>

definition scan_filename :: "string \<Rightarrow> string \<Rightarrow> string" where
  "scan_filename time_stamp_str lidar_name = time_stamp_str @ ''_'' @ lidar_name @ ''_pointcloud.asc''"

definition process_lidar :: "string \<Rightarrow> string \<Rightarrow> bool \<Rightarrow> string \<Rightarrow> world \<Rightarrow> world exec_result" where
  "process_lidar time_stamp_str vehicle_name existing_data_cleared lidar_name w =
     (let filename = scan_filename time_stamp_str lidar_name;
          w1 = py_open filename (if \<not> existing_data_cleared then ModeWrite else ModeAppend) w;
          (ld, w2) = get_lidar_data lidar_name vehicle_name w1;
          (st, w3) = get_multirotor_state vehicle_name w2;
          ori = orientation (pose ld);
          rm = rotation_matrix ori;
          pos = position (pose ld);
          mo = kin_orientation (kinematics_estimated st)
      in case points_loop filename rm pos ori mo (point_slices (point_cloud ld)) w3 of
           Normal w4 \<Rightarrow> Normal (py_close w4)
         | Raised e w4 \<Rightarrow> Raised e w4)"

subsection \<open>Rounding\<close>

lemma py_round_close: "\<bar>of_int (py_round x) - x\<bar> \<le> 1/2"
proof -
  have "of_int \<lfloor>x\<rfloor> \<le> x" "x < of_int \<lfloor>x\<rfloor> + 1" by linarith+
  then show ?thesis by (auto simp: py_round_def Let_def)
qed

text \<open>A tie goes to the even neighbour, as Python 3 rounds.\<close>

lemma py_round_half: "py_round (of_int k + 1/2) = (if even k then k else k + 1)"
proof -
  have "\<lfloor>of_int k + 1/2 :: real\<rfloor> = k" by linarith
  then show ?thesis by (simp add: py_round_def Let_def)
qed

lemma py_round_of_int [simp]: "py_round (of_int k) = k"
  by (simp add: py_round_def)

lemma py_round_nonneg: "0 \<le> x \<Longrightarrow> 0 \<le> py_round x"
  by (simp add: py_round_def Let_def)

subsection \<open>The point loop in closed form\<close>

text \<open>
  The rows the loop writes when every slice has three coordinates and the angle is
  \<open>a\<close>: the \<open>i\<close>-th row carries the \<open>(k + i)\<close>-th clock reading.
\<close>

fun scan_rows :: "mat3 \<Rightarrow> vector3r \<Rightarrow> real \<Rightarrow> real list list \<Rightarrow> (nat \<Rightarrow> real) \<Rightarrow> nat \<Rightarrow> out_row list"
  where
  "scan_rows rm pos a [] clk k = []"
| "scan_rows rm pos a (xyz # xs) clk k =
     row_of (vadd3 (mat_vec rm (xyz ! 0, xyz ! 1, xyz ! 2)) (vec_of pos))
            (norm3 (mat_vec rm (xyz ! 0, xyz ! 1, xyz ! 2))) a (py_round (clk k * 1000))
     # scan_rows rm pos a xs clk (Suc k)"

lemma length_scan_rows [simp]: "length (scan_rows rm pos a xs clk k) = length xs"
  by (induction xs arbitrary: k) auto

lemma contents_upd [simp]: "contents (w\<lparr>files := (files w)(fn \<mapsto> c)\<rparr>) fn = c"
  by (simp add: contents_def)

lemma points_loop_append:
  "points_loop fn rm pos lo mo (xs @ ys) w =
     (case points_loop fn rm pos lo mo xs w of
        Normal w' \<Rightarrow> points_loop fn rm pos lo mo ys w'
      | Raised e w' \<Rightarrow> Raised e w')"
  by (induction xs arbitrary: w)
     (auto simp: time_time_def split: sum.split prod.split)

lemma points_loop_ok:
  assumes "list_all (\<lambda>xyz. length xyz = 3) xs" and "point_angle mo lo = Inr a"
    and "files w fn \<noteq> None"
  shows "points_loop fn rm pos lo mo xs w =
           Normal (w\<lparr>files := (files w)(fn \<mapsto> contents w fn @ scan_rows rm pos a xs (clock w) (clock_reads w)),
                     clock_reads := clock_reads w + length xs\<rparr>)"
  using assms(1,3)
proof (induction xs arbitrary: w)
  case Nil
  then obtain c where c: "files w fn = Some c" by auto
  then have "(files w)(fn \<mapsto> c) = files w" by (rule fun_upd_idem)
  then show ?case by (simp add: contents_def c)
next
  case (Cons xyz xs)
  then obtain x y z where xyz: "xyz = [x, y, z]"
    by (auto simp: length_Suc_conv numeral_eq_Suc)
  from Cons show ?case
    by (auto simp: xyz transform_point_eval assms(2) time_time_def py_write_def contents_def
        Let_def fun_eq_iff)
qed

lemma points_loop_short:
  assumes "length ys \<noteq> 3"
  shows "points_loop fn rm pos lo mo [ys] w = Raised (MatmulShapeMismatch (length ys)) w"
  using assms by (simp add: transform_point_def np_matmul_other)

lemma points_loop_angle_error:
  assumes "transform_point rm pos xyz = Inr r" and "point_angle mo lo = Inl e"
  shows "points_loop fn rm pos lo mo (xyz # xs) w = Raised e w"
  using assms by (cases r) simp

lemma chunks3_append: "3 dvd length xs \<Longrightarrow> chunks3 (xs @ ys) = chunks3 xs @ chunks3 ys"
  by (induction xs rule: chunks3.induct) auto

lemma chunks3_short_list: "0 < length ys \<Longrightarrow> length ys < 3 \<Longrightarrow> chunks3 ys = [ys]"
  by (cases ys rule: chunks3.cases) auto

lemma chunks3_split_last:
  assumes "\<not> 3 dvd length xs"
  shows "chunks3 xs = chunks3 (take (3 * (length xs div 3)) xs) @ [drop (3 * (length xs div 3)) xs]"
proof -
  let ?k = "3 * (length xs div 3)"
  have "length (take ?k xs) = ?k" by simp
  then have d: "3 dvd length (take ?k xs)" by simp
  have l: "length (drop ?k xs) = length xs mod 3" by (simp add: minus_div_mult_eq_mod [symmetric])
  with assms have "0 < length (drop ?k xs)" "length (drop ?k xs) < 3" by presburger+
  then have "chunks3 (drop ?k xs) = [drop ?k xs]" by (rule chunks3_short_list)
  with chunks3_append [OF d, of "drop ?k xs"] show ?thesis by simp
qed

lemma list_all_chunks3: "3 dvd length xs \<Longrightarrow> list_all (\<lambda>xyz. length xyz = 3) (chunks3 xs)"
  using chunks3_full [of xs] by (simp add: list_all_iff)

subsection \<open>One lidar scan\<close>

text \<open>The answers of the simulator to the two requests of lines 81--82.\<close>

definition next_lidar :: "world \<Rightarrow> string \<Rightarrow> string \<Rightarrow> lidar_data" where
  "next_lidar w lidar_name vehicle_name = lidar_feed w (sim_calls w) lidar_name vehicle_name"

definition next_vehicle_orientation :: "world \<Rightarrow> string \<Rightarrow> quaternionr" where
  "next_vehicle_orientation w vehicle_name =
     kin_orientation (kinematics_estimated (state_feed w (Suc (sim_calls w)) vehicle_name))"

text \<open>The world after line 82, before the point loop.\<close>

definition scan_start :: "string \<Rightarrow> bool \<Rightarrow> world \<Rightarrow> world" where
  "scan_start fn cleared w =
     w\<lparr>files := (files w)(fn \<mapsto> (if cleared then contents w fn else [])), handle := Some fn,
       sim_calls := Suc (Suc (sim_calls w))\<rparr>"

lemma process_lidar_unfold:
  "process_lidar ts vn cleared lname w =
     (let fn = scan_filename ts lname; ld = next_lidar w lname vn; ori = orientation (pose ld)
      in case points_loop fn (rotation_matrix ori) (position (pose ld)) ori
                (next_vehicle_orientation w vn) (point_slices (point_cloud ld))
                (scan_start fn cleared w) of
           Normal w4 \<Rightarrow> Normal (py_close w4)
         | Raised e w4 \<Rightarrow> Raised e w4)"
  by (simp add: process_lidar_def Let_def py_open_def get_lidar_data_def get_multirotor_state_def
      next_lidar_def next_vehicle_orientation_def scan_start_def)

lemma files_scan_start: "files (scan_start fn cleared w) fn \<noteq> None"
  by (simp add: scan_start_def)

lemma contents_scan_start: "contents (scan_start fn cleared w) fn = (if cleared then contents w fn else [])"
  by (simp add: scan_start_def contents_def)

lemmas scan_start_simps [simp] =
  files_scan_start contents_scan_start

lemma scan_start_fields [simp]:
  "clock (scan_start fn cleared w) = clock w"
  "clock_reads (scan_start fn cleared w) = clock_reads w"
  "handle (scan_start fn cleared w) = Some fn"
  "files (scan_start fn cleared w) g = (if g = fn then Some (if cleared then contents w fn else []) else files w g)"
  by (simp_all add: scan_start_def)

lemma scan_start_other [simp]: "g \<noteq> fn \<Longrightarrow> files (scan_start fn cleared w) g = files w g"
  by simp

subsection \<open>Concrete scans for the witnesses\<close>

definition demo_scan :: "real list \<Rightarrow> lidar_data" where
  "demo_scan pc = \<lparr>point_cloud = pc, time_stamp = 0,
     pose = \<lparr>position = mk_vec 0 0 (-1), orientation = mk_quat 1 0 0 0\<rparr>\<rparr>"

definition demo_state :: "quaternionr \<Rightarrow> multirotor_state" where
  "demo_state q = \<lparr>kinematics_estimated = \<lparr>kin_orientation = q\<rparr>\<rparr>"

definition demo_world :: "real list \<Rightarrow> quaternionr \<Rightarrow> world" where
  "demo_world pc q = \<lparr>files = Map.empty, handle = None, stdout = [],
     clock = (\<lambda>k. 1700000000 + of_nat k), clock_reads = 0,
     lidar_feed = (\<lambda>k lname vname. demo_scan pc), state_feed = (\<lambda>k vname. demo_state q),
     sim_calls = 0\<rparr>"

lemma demo_world_sel [simp]:
  "next_lidar (demo_world pc q) lname vname = demo_scan pc"
  "next_vehicle_orientation (demo_world pc q) vname = q"
  "orientation (pose (demo_scan pc)) = mk_quat 1 0 0 0"
  "point_cloud (demo_scan pc) = pc"
  by (simp_all add: demo_world_def next_lidar_def next_vehicle_orientation_def demo_scan_def
      demo_state_def)

subsection \<open>Properties of one scan\<close>

text \<open>
  C1: when the cloud has a multiple of three coordinates and both quaternions have
  non-zero norm, the scan finishes normally: the lidar's file holds the rows of this
  scan, one per point in input order, after the old contents in append mode and alone
  in write mode; the handle is closed and no other file changes.
\<close>

theorem process_lidar_ok:
  assumes ld: "ld = next_lidar w lname vname" and mo: "mo = next_vehicle_orientation w vname"
    and pc: "3 dvd length (point_cloud ld)"
    and nz: "quat_norm2 (orientation (pose ld)) \<noteq> 0" "quat_norm2 mo \<noteq> 0"
  shows "\<exists>w'. process_lidar ts vname cleared lname w = Normal w' \<and>
     files w' (scan_filename ts lname) =
       Some ((if cleared then contents w (scan_filename ts lname) else []) @
             scan_rows (rotation_matrix (orientation (pose ld))) (position (pose ld))
               (arccos (2 * (code_inner mo (orientation (pose ld)))\<^sup>2 - 1))
               (point_slices (point_cloud ld)) (clock w) (clock_reads w)) \<and>
     handle w' = None \<and>
     (\<forall>g. g \<noteq> scan_filename ts lname \<longrightarrow> files w' g = files w g)"
proof -
  have ang: "point_angle mo (orientation (pose ld))
               = Inr (arccos (2 * (code_inner mo (orientation (pose ld)))\<^sup>2 - 1))"
    using point_angle_nonzero nz by simp
  have sl: "list_all (\<lambda>xyz. length xyz = 3) (point_slices (point_cloud ld))"
    using pc by (simp add: point_slices_chunks list_all_chunks3)
  show ?thesis
    using points_loop_ok [OF sl ang [unfolded mo] files_scan_start]
    by (simp add: process_lidar_unfold ld [symmetric] mo [symmetric] Let_def py_close_def
        contents_def)
qed

theorem process_lidar_ok_witness:
  "demo_scan [3, 4, 0] = next_lidar (demo_world [3, 4, 0] (mk_quat 1 0 0 0)) ''LidarSensor1'' ''Drone1'' \<and>
   mk_quat 1 0 0 0 = next_vehicle_orientation (demo_world [3, 4, 0] (mk_quat 1 0 0 0)) ''Drone1'' \<and>
   3 dvd length (point_cloud (demo_scan [3, 4, 0])) \<and>
   quat_norm2 (orientation (pose (demo_scan [3, 4, 0]))) \<noteq> 0 \<and> quat_norm2 (mk_quat 1 0 0 0) \<noteq> 0 \<and>
   (\<exists>w'. process_lidar ''t'' ''Drone1'' False ''LidarSensor1'' (demo_world [3, 4, 0] (mk_quat 1 0 0 0))
            = Normal w' \<and>
     files w' (scan_filename ''t'' ''LidarSensor1'') =
       Some ((if False then contents (demo_world [3, 4, 0] (mk_quat 1 0 0 0))
                              (scan_filename ''t'' ''LidarSensor1'') else []) @
             scan_rows (rotation_matrix (orientation (pose (demo_scan [3, 4, 0]))))
               (position (pose (demo_scan [3, 4, 0])))
               (arccos (2 * (code_inner (mk_quat 1 0 0 0)
                               (orientation (pose (demo_scan [3, 4, 0]))))\<^sup>2 - 1))
               (point_slices (point_cloud (demo_scan [3, 4, 0])))
               (clock (demo_world [3, 4, 0] (mk_quat 1 0 0 0)))
               (clock_reads (demo_world [3, 4, 0] (mk_quat 1 0 0 0)))) \<and>
     handle w' = None \<and>
     (\<forall>g. g \<noteq> scan_filename ''t'' ''LidarSensor1''
            \<longrightarrow> files w' g = files (demo_world [3, 4, 0] (mk_quat 1 0 0 0)) g))"
proof -
  have h: "demo_scan [3, 4, 0] = next_lidar (demo_world [3, 4, 0] (mk_quat 1 0 0 0)) ''LidarSensor1'' ''Drone1''"
    "mk_quat 1 0 0 0 = next_vehicle_orientation (demo_world [3, 4, 0] (mk_quat 1 0 0 0)) ''Drone1''"
    "3 dvd length (point_cloud (demo_scan [3, 4, 0]))"
    "quat_norm2 (orientation (pose (demo_scan [3, 4, 0]))) \<noteq> 0" "quat_norm2 (mk_quat 1 0 0 0) \<noteq> 0"
    by (simp_all add: quat_norm2_def)
  show ?thesis using h process_lidar_ok [OF h, of "''t''" False] by blast
qed

text \<open>
  C12: when the cloud's length is not a multiple of three (and both quaternions have
  non-zero norm), the scan writes the rows of all complete triples and then
  \<^verbatim>\<open>np.matmul\<close> raises on the one or two coordinates left over; the handle of
  the file stays open, since the \<^verbatim>\<open>f.close()\<close> of line 113 is not reached.
\<close>

theorem process_lidar_shape_error:
  assumes ld: "ld = next_lidar w lname vname" and mo: "mo = next_vehicle_orientation w vname"
    and pc: "\<not> 3 dvd length (point_cloud ld)"
    and nz: "quat_norm2 (orientation (pose ld)) \<noteq> 0" "quat_norm2 mo \<noteq> 0"
  shows "\<exists>w'. process_lidar ts vname cleared lname w
              = Raised (MatmulShapeMismatch (length (point_cloud ld) mod 3)) w' \<and>
     files w' (scan_filename ts lname) =
       Some ((if cleared then contents w (scan_filename ts lname) else []) @
             scan_rows (rotation_matrix (orientation (pose ld))) (position (pose ld))
               (arccos (2 * (code_inner mo (orientation (pose ld)))\<^sup>2 - 1))
               (point_slices (take (3 * (length (point_cloud ld) div 3)) (point_cloud ld)))
               (clock w) (clock_reads w)) \<and>
     handle w' = Some (scan_filename ts lname)"
proof -
  let ?pc = "point_cloud ld" and ?k = "3 * (length (point_cloud ld) div 3)"
  have ang: "point_angle mo (orientation (pose ld))
               = Inr (arccos (2 * (code_inner mo (orientation (pose ld)))\<^sup>2 - 1))"
    using point_angle_nonzero nz by simp
  have d: "3 dvd length (take ?k ?pc)" by simp
  have sl: "list_all (\<lambda>xyz. length xyz = 3) (point_slices (take ?k ?pc))"
    using list_all_chunks3 [OF d] by (simp add: point_slices_chunks)
  have split: "point_slices ?pc = point_slices (take ?k ?pc) @ [drop ?k ?pc]"
    using chunks3_split_last [OF pc] by (simp add: point_slices_chunks)
  have l: "length (drop ?k ?pc) = length ?pc mod 3" by (simp add: minus_div_mult_eq_mod [symmetric])
  with pc have l3: "length (drop ?k ?pc) \<noteq> 3" by auto
  show ?thesis
    using points_loop_ok [OF sl ang [unfolded mo] files_scan_start]
      points_loop_short [OF l3] l
    by (simp add: process_lidar_unfold ld [symmetric] mo [symmetric] Let_def split
        points_loop_append contents_def)
qed

theorem process_lidar_shape_error_witness:
  "demo_scan [3, 4, 0, 1] = next_lidar (demo_world [3, 4, 0, 1] (mk_quat 1 0 0 0)) ''LidarSensor1'' ''Drone1'' \<and>
   mk_quat 1 0 0 0 = next_vehicle_orientation (demo_world [3, 4, 0, 1] (mk_quat 1 0 0 0)) ''Drone1'' \<and>
   \<not> 3 dvd length (point_cloud (demo_scan [3, 4, 0, 1])) \<and>
   quat_norm2 (orientation (pose (demo_scan [3, 4, 0, 1]))) \<noteq> 0 \<and> quat_norm2 (mk_quat 1 0 0 0) \<noteq> 0 \<and>
   (\<exists>w'. process_lidar ''t'' ''Drone1'' False ''LidarSensor1'' (demo_world [3, 4, 0, 1] (mk_quat 1 0 0 0))
            = Raised (MatmulShapeMismatch (length (point_cloud (demo_scan [3, 4, 0, 1])) mod 3)) w' \<and>
     files w' (scan_filename ''t'' ''LidarSensor1'') =
       Some ((if False then contents (demo_world [3, 4, 0, 1] (mk_quat 1 0 0 0))
                              (scan_filename ''t'' ''LidarSensor1'') else []) @
             scan_rows (rotation_matrix (orientation (pose (demo_scan [3, 4, 0, 1]))))
               (position (pose (demo_scan [3, 4, 0, 1])))
               (arccos (2 * (code_inner (mk_quat 1 0 0 0)
                               (orientation (pose (demo_scan [3, 4, 0, 1]))))\<^sup>2 - 1))
               (point_slices (take (3 * (length (point_cloud (demo_scan [3, 4, 0, 1])) div 3))
                                   (point_cloud (demo_scan [3, 4, 0, 1]))))
               (clock (demo_world [3, 4, 0, 1] (mk_quat 1 0 0 0)))
               (clock_reads (demo_world [3, 4, 0, 1] (mk_quat 1 0 0 0)))) \<and>
     handle w' = Some (scan_filename ''t'' ''LidarSensor1''))"
proof -
  have h: "demo_scan [3, 4, 0, 1] = next_lidar (demo_world [3, 4, 0, 1] (mk_quat 1 0 0 0)) ''LidarSensor1'' ''Drone1''"
    "mk_quat 1 0 0 0 = next_vehicle_orientation (demo_world [3, 4, 0, 1] (mk_quat 1 0 0 0)) ''Drone1''"
    "\<not> 3 dvd length (point_cloud (demo_scan [3, 4, 0, 1]))"
    "quat_norm2 (orientation (pose (demo_scan [3, 4, 0, 1]))) \<noteq> 0" "quat_norm2 (mk_quat 1 0 0 0) \<noteq> 0"
    by (simp_all add: quat_norm2_def)
  show ?thesis using h process_lidar_shape_error [OF h, of "''t''" False] by blast
qed

text \<open>
  C13: a vehicle quaternion of norm zero makes \<^verbatim>\<open>from_quat\<close> raise at the first
  point, before any row is written; the file has already been opened, so in write
  mode its previous contents are lost, and its handle stays open.
\<close>

theorem process_lidar_zero_vehicle:
  assumes ld: "ld = next_lidar w lname vname" and mo: "mo = next_vehicle_orientation w vname"
    and pc: "3 \<le> length (point_cloud ld)" and z: "quat_norm2 mo = 0"
  shows "process_lidar ts vname cleared lname w
           = Raised ZeroNormQuaternion (scan_start (scan_filename ts lname) cleared w)"
proof -
  obtain a b c rest where pcs: "point_cloud ld = a # b # c # rest"
    using pc by (cases "point_cloud ld" rule: chunks3.cases) auto
  have ang: "point_angle mo (orientation (pose ld)) = Inl ZeroNormQuaternion"
    using z by (simp add: point_angle_eq)
  have "points_loop fn rm pos (orientation (pose ld)) mo (point_slices (point_cloud ld)) w0
          = Raised ZeroNormQuaternion w0" for fn rm pos w0
    using points_loop_angle_error [OF transform_point_eval ang]
    by (simp add: point_slices_chunks pcs)
  then show ?thesis
    by (simp add: process_lidar_unfold ld [symmetric] mo [symmetric] Let_def)
qed

theorem process_lidar_zero_vehicle_witness:
  "demo_scan [3, 4, 0] = next_lidar (demo_world [3, 4, 0] (mk_quat 0 0 0 0)) ''LidarSensor1'' ''Drone1'' \<and>
   mk_quat 0 0 0 0 = next_vehicle_orientation (demo_world [3, 4, 0] (mk_quat 0 0 0 0)) ''Drone1'' \<and>
   3 \<le> length (point_cloud (demo_scan [3, 4, 0])) \<and> quat_norm2 (mk_quat 0 0 0 0) = 0 \<and>
   process_lidar ''t'' ''Drone1'' False ''LidarSensor1'' (demo_world [3, 4, 0] (mk_quat 0 0 0 0))
     = Raised ZeroNormQuaternion (scan_start (scan_filename ''t'' ''LidarSensor1'') False
                                    (demo_world [3, 4, 0] (mk_quat 0 0 0 0)))"
proof -
  have h: "demo_scan [3, 4, 0] = next_lidar (demo_world [3, 4, 0] (mk_quat 0 0 0 0)) ''LidarSensor1'' ''Drone1''"
    "mk_quat 0 0 0 0 = next_vehicle_orientation (demo_world [3, 4, 0] (mk_quat 0 0 0 0)) ''Drone1''"
    "3 \<le> length (point_cloud (demo_scan [3, 4, 0]))" "quat_norm2 (mk_quat 0 0 0 0) = 0"
    by (simp_all add: quat_norm2_def)
  show ?thesis using h process_lidar_zero_vehicle [OF h, of "''t''" False] by blast
qed

subsection \<open>Frame lemmas\<close>

text \<open>
  The point loop only appends to files, and it does not touch the simulator, the
  clock or standard output; these facts carry the loop of lines 73--114.
\<close>

lemma points_loop_frame:
  "lidar_feed (result_state (points_loop fn rm pos lo mo xs w)) = lidar_feed w \<and>
   state_feed (result_state (points_loop fn rm pos lo mo xs w)) = state_feed w \<and>
   clock (result_state (points_loop fn rm pos lo mo xs w)) = clock w \<and>
   sim_calls (result_state (points_loop fn rm pos lo mo xs w)) = sim_calls w \<and>
   handle (result_state (points_loop fn rm pos lo mo xs w)) = handle w"
  by (induction xs arbitrary: w)
     (auto simp: time_time_def py_write_def split: sum.split prod.split)

lemma points_loop_prefix:
  "prefix (contents w g) (contents (result_state (points_loop fn rm pos lo mo xs w)) g)"
proof (induction xs arbitrary: w)
  case Nil
  then show ?case by simp
next
  case (Cons xyz xs)
  have step: "prefix (contents w g) (contents (py_write fn r (w\<lparr>clock_reads := k\<rparr>)) g)" for r k
    by (simp add: py_write_def contents_def split: option.split)
  show ?case
    using Cons.IH step
    by (auto simp: time_time_def split: sum.split prod.split intro: prefix_order.trans)
qed

lemma points_loop_files_dom:
  "files w g \<noteq> None \<Longrightarrow> files (result_state (points_loop fn rm pos lo mo xs w)) g \<noteq> None"
  by (induction xs arbitrary: w)
     (auto simp: time_time_def py_write_def split: sum.split prod.split)

text \<open>A scan whose inputs are well formed finishes normally.\<close>

definition good_scan :: "lidar_data \<Rightarrow> quaternionr \<Rightarrow> bool" where
  "good_scan ld mo \<longleftrightarrow>
     3 dvd length (point_cloud ld) \<and> quat_norm2 (orientation (pose ld)) \<noteq> 0 \<and> quat_norm2 mo \<noteq> 0"

lemma process_lidar_normal:
  assumes "good_scan (next_lidar w lname vname) (next_vehicle_orientation w vname)"
  shows "\<exists>w'. process_lidar ts vname cleared lname w = Normal w'"
proof -
  let ?ld = "next_lidar w lname vname" and ?mo = "next_vehicle_orientation w vname"
  have ang: "point_angle ?mo (orientation (pose ?ld))
               = Inr (arccos (2 * (code_inner ?mo (orientation (pose ?ld)))\<^sup>2 - 1))"
    using point_angle_nonzero assms by (simp add: good_scan_def)
  have sl: "list_all (\<lambda>xyz. length xyz = 3) (point_slices (point_cloud ?ld))"
    using assms by (simp add: good_scan_def point_slices_chunks list_all_chunks3)
  show ?thesis
    using points_loop_ok [OF sl ang files_scan_start]
    by (simp add: process_lidar_unfold Let_def)
qed

lemma process_lidar_frame:
  "lidar_feed (result_state (process_lidar ts vn cleared lname w)) = lidar_feed w \<and>
   state_feed (result_state (process_lidar ts vn cleared lname w)) = state_feed w"
proof -
  define ld where "ld = next_lidar w lname vn"
  define r where "r = points_loop (scan_filename ts lname) (rotation_matrix (orientation (pose ld)))
     (position (pose ld)) (orientation (pose ld)) (next_vehicle_orientation w vn)
     (point_slices (point_cloud ld)) (scan_start (scan_filename ts lname) cleared w)"
  have f: "lidar_feed (result_state r) = lidar_feed w \<and> state_feed (result_state r) = state_feed w"
    using points_loop_frame unfolding r_def by (simp add: scan_start_def)
  have "process_lidar ts vn cleared lname w
          = (case r of Normal w4 \<Rightarrow> Normal (py_close w4) | Raised e w4 \<Rightarrow> Raised e w4)"
    by (simp add: process_lidar_unfold Let_def r_def ld_def)
  with f show ?thesis by (cases r) (simp_all add: py_close_def)
qed

end
