(* ===== verification/Execute_Loop.thy ===== *)
theory Execute_Loop
  imports Scan_Processing
begin

text \<open>
  The polling loop of \<^verbatim>\<open>LidarTest.execute\<close> (lines 67--117 of
  \<^verbatim>\<open>sensorframe_lidar_pointcloud.py\<close>), the constructor \<^verbatim>\<open>LidarTest.__init__\<close>
  (lines 60--65) and the script's entry point (lines 120--122). The loop
  \<^verbatim>\<open>while True\<close> ends only by \<^verbatim>\<open>KeyboardInterrupt\<close>; here the interrupt
  arrives after a given number of complete sweeps over the lidar names, the fuel of
  \<open>run_sweeps\<close>, and the handler of lines 115--117 then runs. \<^verbatim>\<open>str(time_stamp)\<close>
  is Python's float formatting, passed in as a function \<open>float_str\<close> that the
  model does not fix. The lemmas show that file names of different lidars differ,
  that after the first sweep no file loses a row (the \<^verbatim>\<open>'a'\<close> mode), and that over
  the reals a sweep with well-formed simulator answers finishes (\<open>sweep_normal\<close>,
  used by the closed forms of \<open>Sweep_Contents\<close>).
\<close>

subsection \<open>Output to the console\<close>

definition newline :: string where
  "newline = [CHR 0x0A]"

text \<open>\<^verbatim>\<open>print(s)\<close> writes \<open>s\<close> and a newline.\<close>

definition py_print :: "string \<Rightarrow> world \<Rightarrow> world" where
  "py_print msg w = w\<lparr>stdout := stdout w @ [msg @ newline]\<rparr>"

text \<open>\<^verbatim>\<open>airsim.wait_key(message)\<close> prints its message and waits for a key; the
  key read is not modelled.\<close>

definition wait_key :: "string \<Rightarrow> world \<Rightarrow> world" where
  "wait_key msg w = py_print msg w"

subsection \<open>The loop: lines 73--114\<close>

fun sweep :: "string \<Rightarrow> string \<Rightarrow> bool \<Rightarrow> string list \<Rightarrow> world \<Rightarrow> world exec_result" where
  "sweep ts vehicle_name cleared [] w = Normal w"
| "sweep ts vehicle_name cleared (lidar_name # rest) w =
     (case process_lidar ts vehicle_name cleared lidar_name w of
        Normal w' \<Rightarrow> sweep ts vehicle_name cleared rest w'
      | Raised e w' \<Rightarrow> Raised e w')"

text \<open>\<open>n\<close> sweeps of \<^verbatim>\<open>while True\<close>; line 114 sets
  \<^verbatim>\<open>existing_data_cleared\<close> after each.\<close>

fun run_sweeps :: "nat \<Rightarrow> string \<Rightarrow> string \<Rightarrow> string list \<Rightarrow> bool \<Rightarrow> world \<Rightarrow> world exec_result" where
  "run_sweeps 0 ts vehicle_name lidar_names cleared w = Normal w"
| "run_sweeps (Suc n) ts vehicle_name lidar_names cleared w =
     (case sweep ts vehicle_name cleared lidar_names w of
        Normal w' \<Rightarrow> run_sweeps n ts vehicle_name lidar_names True w'
      | Raised e w' \<Rightarrow> Raised e w')"

subsection \<open>execute, __init__ and main\<close>

definition execute ::
  "(real \<Rightarrow> string) \<Rightarrow> nat \<Rightarrow> string \<Rightarrow> string list \<Rightarrow> world \<Rightarrow> world exec_result" where
  "execute float_str n vehicle_name lidar_names w =
     (let w1 = py_print (''Scanning Has Started'' @ newline) w;
          w2 = py_print (''Use Keyboard Interrupt 'CTRL + C' to Stop Scanning'' @ newline) w1;
          existing_data_cleared = False;
          (time_stamp, w3) = time_time w2
      in case run_sweeps n (float_str time_stamp) vehicle_name lidar_names existing_data_cleared w3 of
           Normal w4 \<Rightarrow>
             Normal (py_print (''Done!'' @ newline)
                       (wait_key ''Press any key to stop running this script'' w4))
         | Raised e w4 \<Rightarrow> Raised e w4)"

definition lidar_test_init :: "world \<Rightarrow> world" where
  "lidar_test_init w = py_print (''Connected!'' @ newline) w"

text \<open>The arguments line 122 passes to \<^verbatim>\<open>execute\<close>.\<close>

definition main_vehicle :: string where
  "main_vehicle = ''Drone1''"

definition main_lidars :: "string list" where
  "main_lidars = [''LidarSensor1'']"

definition main :: "(real \<Rightarrow> string) \<Rightarrow> nat \<Rightarrow> world \<Rightarrow> world exec_result" where
  "main float_str n w = execute float_str n main_vehicle main_lidars (lidar_test_init w)"

subsection \<open>Helper lemmas\<close>

lemma process_lidar_append_prefix:
  "prefix (contents w g) (contents (result_state (process_lidar ts vn True lname w)) g)"
proof -
  define ld where "ld = next_lidar w lname vn"
  define fn where "fn = scan_filename ts lname"
  define r where "r = points_loop fn (rotation_matrix (orientation (pose ld)))
     (position (pose ld)) (orientation (pose ld)) (next_vehicle_orientation w vn)
     (point_slices (point_cloud ld)) (scan_start fn True w)"
  have s: "contents (scan_start fn True w) g = contents w g"
    by (simp add: contents_def)
  have p: "prefix (contents w g) (contents (result_state r) g)"
    using points_loop_prefix [of "scan_start fn True w" g] unfolding r_def s .
  have "process_lidar ts vn True lname w
          = (case r of Normal w4 \<Rightarrow> Normal (py_close w4) | Raised e w4 \<Rightarrow> Raised e w4)"
    by (simp add: process_lidar_unfold Let_def r_def ld_def fn_def)
  with p show ?thesis by (cases r) (simp_all add: py_close_def contents_def)
qed

lemma sweep_append_prefix:
  "prefix (contents w g) (contents (result_state (sweep ts vn True lns w)) g)"
proof (induction lns arbitrary: w)
  case Nil
  then show ?case by simp
next
  case (Cons lname lns)
  show ?case
  proof (cases "process_lidar ts vn True lname w")
    case (Normal w')
    then show ?thesis
      using process_lidar_append_prefix [of w g ts vn lname] Cons.IH [of w']
      by (auto intro: prefix_order.trans)
  next
    case (Raised e w')
    then show ?thesis using process_lidar_append_prefix [of w g ts vn lname] by simp
  qed
qed

lemma run_sweeps_append_prefix:
  "prefix (contents w g) (contents (result_state (run_sweeps n ts vn lns True w)) g)"
proof (induction n arbitrary: w)
  case 0
  then show ?case by simp
next
  case (Suc n)
  show ?case
  proof (cases "sweep ts vn True lns w")
    case (Normal w')
    then show ?thesis
      using sweep_append_prefix [of w g ts vn lns] Suc.IH [of w']
      by (auto intro: prefix_order.trans)
  next
    case (Raised e w')
    then show ?thesis using sweep_append_prefix [of w g ts vn lns] by simp
  qed
qed

definition good_feeds :: "world \<Rightarrow> string \<Rightarrow> string list \<Rightarrow> bool" where
  "good_feeds w vn lns \<longleftrightarrow>
     (\<forall>k. \<forall>lname \<in> set lns. good_scan (lidar_feed w k lname vn)
        (kin_orientation (kinematics_estimated (state_feed w (Suc k) vn))))"

lemma good_feeds_scan:
  "good_feeds w vn lns \<Longrightarrow> lname \<in> set lns \<Longrightarrow>
     good_scan (next_lidar w lname vn) (next_vehicle_orientation w vn)"
  by (simp add: good_feeds_def next_lidar_def next_vehicle_orientation_def)

lemma good_feeds_process_lidar:
  "good_feeds w vn lns \<Longrightarrow> good_feeds (result_state (process_lidar ts vn c lname w)) vn lns"
  using process_lidar_frame [of ts vn c lname w] by (simp add: good_feeds_def)

lemma sweep_normal:
  "good_feeds w vn lns \<Longrightarrow> set rest \<subseteq> set lns \<Longrightarrow>
     \<exists>w'. sweep ts vn c rest w = Normal w' \<and> good_feeds w' vn lns"
proof (induction rest arbitrary: w)
  case Nil
  then show ?case by simp
next
  case (Cons lname rest)
  obtain w1 where w1: "process_lidar ts vn c lname w = Normal w1"
    using process_lidar_normal good_feeds_scan Cons.prems by fastforce
  have "good_feeds w1 vn lns"
    using good_feeds_process_lidar [OF Cons.prems(1), of ts c lname] w1 by simp
  with Cons.IH [of w1] Cons.prems(2) w1 show ?case by simp
qed

lemma run_sweeps_normal:
  "good_feeds w vn lns \<Longrightarrow> \<exists>w'. run_sweeps n ts vn lns c w = Normal w'"
proof (induction n arbitrary: w c)
  case 0
  then show ?case by simp
next
  case (Suc n)
  obtain w1 where "sweep ts vn c lns w = Normal w1" "good_feeds w1 vn lns"
    using sweep_normal [OF Suc.prems, of lns ts c] by blast
  with Suc.IH [of w1 True] show ?case by simp
qed

text \<open>The rules that evaluate the loop on the concrete worlds of the witnesses.\<close>

lemmas demo_eval = process_lidar_unfold next_lidar_def next_vehicle_orientation_def demo_world_def
  demo_scan_def demo_state_def point_slices_chunks transform_point_eval point_angle_eq
  scan_start_def py_close_def time_time_def py_write_def contents_def quat_norm2_def Let_def
  py_acos_def code_inner_def quat_mult_def

lemma good_feeds_demo: "good_feeds (demo_world [3, 4, 0] (mk_quat 1 0 0 0)) vn lns"
  by (simp add: good_feeds_def good_scan_def demo_world_def demo_scan_def demo_state_def
      quat_norm2_def)

subsection \<open>Properties of the loop\<close>

text \<open>
  The file names of line 76 of two lidars are equal only when the lidar names
  are: within one run no two lidars write to the same file.
\<close>

lemma scan_filename_inj: "scan_filename ts a = scan_filename ts b \<longleftrightarrow> a = b"
  by (simp add: scan_filename_def)

text \<open>
  C15: once the first sweep has finished, every file is only appended to: whatever
  the later sweeps do, exceptions included, each file's rows after the first sweep
  remain a prefix of its rows at the end.
\<close>

theorem run_sweeps_keeps_rows:
  assumes "sweep ts vn False lns w = Normal w1"
  shows "prefix (contents w1 g) (contents (result_state (run_sweeps (Suc n) ts vn lns False w)) g)"
  using assms run_sweeps_append_prefix [of w1 g n ts vn lns] by simp

theorem run_sweeps_keeps_rows_witness:
  "sweep ''t'' ''Drone1'' False [''L''] (demo_world [3, 4, 0] (mk_quat 1 0 0 0))
     = Normal (result_state (sweep ''t'' ''Drone1'' False [''L''] (demo_world [3, 4, 0] (mk_quat 1 0 0 0)))) \<and>
   prefix (contents (result_state (sweep ''t'' ''Drone1'' False [''L''] (demo_world [3, 4, 0] (mk_quat 1 0 0 0))))
             (scan_filename ''t'' ''L''))
          (contents (result_state (run_sweeps (Suc 1) ''t'' ''Drone1'' [''L''] False
                                     (demo_world [3, 4, 0] (mk_quat 1 0 0 0))))
             (scan_filename ''t'' ''L''))"
proof -
  have h: "sweep ''t'' ''Drone1'' False [''L''] (demo_world [3, 4, 0] (mk_quat 1 0 0 0))
     = Normal (result_state (sweep ''t'' ''Drone1'' False [''L''] (demo_world [3, 4, 0] (mk_quat 1 0 0 0))))"
    by (simp add: demo_eval)
  show ?thesis using h run_sweeps_keeps_rows [OF h, of "scan_filename ''t'' ''L''" 1] by blast
qed

end
