(* ===== verification/Interrupt_Semantics.thy ===== *)
theory Interrupt_Semantics
  imports Execute_Loop
begin

text \<open>
  A small-step semantics of \<^verbatim>\<open>LidarTest.execute\<close> (lines 72--117) in which the
  \<^verbatim>\<open>KeyboardInterrupt\<close> may arrive before any step of the loop, not only between
  sweeps. A configuration records where control is (the top of \<^verbatim>\<open>while True\<close>,
  the \<^verbatim>\<open>for\<close> loop over the remaining lidar names, the point loop of one scan with
  its remaining slices, the \<^verbatim>\<open>except\<close> handler, the end, or an uncaught
  exception), the flag \<^verbatim>\<open>existing_data_cleared\<close> and the world. Opening the file
  and the two simulator requests of lines 76--91 form one step, one point of lines
  93--112 is one step, \<^verbatim>\<open>f.close()\<close> is one step. The lemmas show where the
  file handle is open in every reachable configuration (so an interrupt inside a
  scan leaves it open), that after the first sweep no step removes a row, and that
  every run of the big-step loop of \<open>Execute_Loop\<close> is a run of this machine.
\<close>

datatype loc =
    LoopHead
  | NextLidar "string list"
  | Points string "string list" mat3 vector3r quaternionr quaternionr "real list list"
  | Handler
  | Finished
  | Failed py_error

record cfg =
  loc :: loc
  cleared :: bool
  wld :: world

fun running :: "loc \<Rightarrow> bool" where
  "running LoopHead = True"
| "running (NextLidar _) = True"
| "running (Points _ _ _ _ _ _ _) = True"
| "running _ = False"

text \<open>Lines 76--91 for one lidar: open its file, ask the simulator, build the matrix.\<close>

definition open_scan :: "string \<Rightarrow> string \<Rightarrow> string \<Rightarrow> string list \<Rightarrow> cfg \<Rightarrow> cfg" where
  "open_scan ts vn lname rest c =
     (let ld = next_lidar (wld c) lname vn; fn = scan_filename ts lname
      in c\<lparr>loc := Points fn rest (rotation_matrix (orientation (pose ld))) (position (pose ld))
                    (orientation (pose ld)) (next_vehicle_orientation (wld c) vn)
                    (point_slices (point_cloud ld)),
           wld := scan_start fn (cleared c) (wld c)\<rparr>)"

text \<open>\<open>ts\<close> is \<^verbatim>\<open>str(time_stamp)\<close>, \<open>vn\<close> the vehicle name, \<open>lns\<close> the lidar names.\<close>

inductive step :: "string \<Rightarrow> string \<Rightarrow> string list \<Rightarrow> cfg \<Rightarrow> cfg \<Rightarrow> bool"
  for ts vn lns where
  loop_head: "loc c = LoopHead \<Longrightarrow> step ts vn lns c (c\<lparr>loc := NextLidar lns\<rparr>)"
| sweep_done: "loc c = NextLidar [] \<Longrightarrow> step ts vn lns c (c\<lparr>loc := LoopHead, cleared := True\<rparr>)"
| scan_open: "loc c = NextLidar (lname # rest) \<Longrightarrow> step ts vn lns c (open_scan ts vn lname rest c)"
| point_ok: "loc c = Points fn rest rm pos lo mo (xyz # xs) \<Longrightarrow>
     transform_point rm pos xyz = Inr (v, r) \<Longrightarrow> point_angle mo lo = Inr a \<Longrightarrow>
     step ts vn lns c
       (c\<lparr>loc := Points fn rest rm pos lo mo xs,
          wld := py_write fn (row_of v r a (py_round (fst (time_time (wld c)) * 1000)))
                   (snd (time_time (wld c)))\<rparr>)"
| point_shape_error: "loc c = Points fn rest rm pos lo mo (xyz # xs) \<Longrightarrow>
     transform_point rm pos xyz = Inl e \<Longrightarrow> step ts vn lns c (c\<lparr>loc := Failed e\<rparr>)"
| point_angle_error: "loc c = Points fn rest rm pos lo mo (xyz # xs) \<Longrightarrow>
     transform_point rm pos xyz = Inr p \<Longrightarrow> point_angle mo lo = Inl e \<Longrightarrow>
     step ts vn lns c (c\<lparr>loc := Failed e\<rparr>)"
| scan_close: "loc c = Points fn rest rm pos lo mo [] \<Longrightarrow>
     step ts vn lns c (c\<lparr>loc := NextLidar rest, wld := py_close (wld c)\<rparr>)"
| interrupt: "running (loc c) \<Longrightarrow> step ts vn lns c (c\<lparr>loc := Handler\<rparr>)"
| handler: "loc c = Handler \<Longrightarrow>
     step ts vn lns c
       (c\<lparr>loc := Finished,
          wld := py_print (''Done!'' @ newline)
                   (wait_key ''Press any key to stop running this script'' (wld c))\<rparr>)"

text \<open>The configuration at the top of the loop after lines 68--71.\<close>

definition exec_start :: "world \<Rightarrow> cfg" where
  "exec_start w =
     \<lparr>loc = LoopHead, cleared = False,
      wld = snd (time_time (py_print (''Use Keyboard Interrupt 'CTRL + C' to Stop Scanning'' @ newline)
                             (py_print (''Scanning Has Started'' @ newline) w)))\<rparr>"

definition exec_ts :: "(real \<Rightarrow> string) \<Rightarrow> world \<Rightarrow> string" where
  "exec_ts float_str w = float_str (clock w (clock_reads w))"

subsection \<open>Where the handle is open\<close>

definition handle_inv :: "cfg \<Rightarrow> bool" where
  "handle_inv c \<longleftrightarrow>
     (case loc c of
        LoopHead \<Rightarrow> handle (wld c) = None
      | NextLidar _ \<Rightarrow> handle (wld c) = None
      | Points fn _ _ _ _ _ _ \<Rightarrow> handle (wld c) = Some fn
      | _ \<Rightarrow> True)"

lemma step_handle_inv: "step ts vn lns c c' \<Longrightarrow> handle_inv c \<Longrightarrow> handle_inv c'"
  by (induction rule: step.induct)
     (auto simp: handle_inv_def open_scan_def Let_def scan_start_def py_close_def py_write_def
       time_time_def py_print_def wait_key_def split: loc.splits)

lemma steps_handle_inv: "(step ts vn lns)\<^sup>*\<^sup>* c c' \<Longrightarrow> handle_inv c \<Longrightarrow> handle_inv c'"
  by (induction rule: rtranclp_induct) (auto intro: step_handle_inv)

subsection \<open>No row is lost once the data is cleared\<close>

lemma step_keeps_rows:
  "step ts vn lns c c' \<Longrightarrow> cleared c \<Longrightarrow> cleared c' \<and> prefix (contents (wld c) g) (contents (wld c') g)"
proof (induction rule: step.induct)
  case (scan_open c lname rest)
  then show ?case by (simp add: open_scan_def Let_def scan_start_def contents_def)
next
  case (point_ok c fn rest rm pos lo mo xyz xs v r a)
  then show ?case
    by (simp add: py_write_def time_time_def contents_def split: option.split)
next
  case (scan_close c fn rest rm pos lo mo)
  then show ?case by (simp add: py_close_def contents_def)
next
  case (handler c)
  then show ?case by (simp add: py_print_def wait_key_def contents_def)
qed simp_all

lemma steps_keep_rows:
  "(step ts vn lns)\<^sup>*\<^sup>* c c' \<Longrightarrow> cleared c \<Longrightarrow> cleared c' \<and> prefix (contents (wld c) g) (contents (wld c') g)"
proof (induction rule: rtranclp_induct)
  case base
  then show ?case by simp
next
  case (step c1 c2)
  then show ?case using step_keeps_rows [of ts vn lns c1 c2 g] by (auto intro: prefix_order.trans)
qed

subsection \<open>The big-step loop is a run of the machine\<close>

lemma points_loop_steps:
  "points_loop fn rm pos lo mo xs w = Normal w' \<Longrightarrow>
   (step ts vn lns)\<^sup>*\<^sup>* \<lparr>loc = Points fn rest rm pos lo mo xs, cleared = cl, wld = w\<rparr>
                        \<lparr>loc = Points fn rest rm pos lo mo [], cleared = cl, wld = w'\<rparr>"
proof (induction xs arbitrary: w)
  case Nil
  then show ?case by simp
next
  case (Cons xyz xs)
  obtain v r a where t: "transform_point rm pos xyz = Inr (v, r)" and an: "point_angle mo lo = Inr a"
    using Cons.prems by (auto split: sum.splits)
  let ?w1 = "py_write fn (row_of v r a (py_round (fst (time_time w) * 1000))) (snd (time_time w))"
  have "points_loop fn rm pos lo mo xs ?w1 = Normal w'"
    using Cons.prems by (simp add: t an time_time_def)
  then have rest: "(step ts vn lns)\<^sup>*\<^sup>* \<lparr>loc = Points fn rest rm pos lo mo xs, cleared = cl, wld = ?w1\<rparr>
                        \<lparr>loc = Points fn rest rm pos lo mo [], cleared = cl, wld = w'\<rparr>"
    by (rule Cons.IH)
  have "step ts vn lns \<lparr>loc = Points fn rest rm pos lo mo (xyz # xs), cleared = cl, wld = w\<rparr>
                       \<lparr>loc = Points fn rest rm pos lo mo xs, cleared = cl, wld = ?w1\<rparr>"
    using step.point_ok [of "\<lparr>loc = Points fn rest rm pos lo mo (xyz # xs), cleared = cl, wld = w\<rparr>",
        OF _ t an] by simp
  then show ?case using rest by (rule converse_rtranclp_into_rtranclp)
qed

lemma process_lidar_steps:
  "process_lidar ts vn cl lname w = Normal w' \<Longrightarrow>
   (step ts vn lns)\<^sup>*\<^sup>* \<lparr>loc = NextLidar (lname # rest), cleared = cl, wld = w\<rparr>
                        \<lparr>loc = NextLidar rest, cleared = cl, wld = w'\<rparr>"
proof -
  assume ok: "process_lidar ts vn cl lname w = Normal w'"
  let ?c = "\<lparr>loc = NextLidar (lname # rest), cleared = cl, wld = w\<rparr>"
  let ?ld = "next_lidar w lname vn" and ?fn = "scan_filename ts lname"
  let ?xs = "point_slices (point_cloud ?ld)"
  let ?p = "Points ?fn rest (rotation_matrix (orientation (pose ?ld))) (position (pose ?ld))
              (orientation (pose ?ld)) (next_vehicle_orientation w vn)"
  obtain w4 where w4: "points_loop ?fn (rotation_matrix (orientation (pose ?ld))) (position (pose ?ld))
       (orientation (pose ?ld)) (next_vehicle_orientation w vn) ?xs (scan_start ?fn cl w) = Normal w4"
    and w': "w' = py_close w4"
    using ok by (auto simp: process_lidar_unfold Let_def split: exec_result.splits)
  have s1: "step ts vn lns ?c \<lparr>loc = ?p ?xs, cleared = cl, wld = scan_start ?fn cl w\<rparr>"
    using step.scan_open [of ?c lname rest] by (simp add: open_scan_def Let_def)
  have s2: "(step ts vn lns)\<^sup>*\<^sup>* \<lparr>loc = ?p ?xs, cleared = cl, wld = scan_start ?fn cl w\<rparr>
                               \<lparr>loc = ?p [], cleared = cl, wld = w4\<rparr>"
    using points_loop_steps [OF w4] .
  have s3: "step ts vn lns \<lparr>loc = ?p [], cleared = cl, wld = w4\<rparr>
                          \<lparr>loc = NextLidar rest, cleared = cl, wld = w'\<rparr>"
    using step.scan_close [of "\<lparr>loc = ?p [], cleared = cl, wld = w4\<rparr>"] by (simp add: w')
  from s1 s2 s3 show ?thesis
    by (meson converse_rtranclp_into_rtranclp rtranclp.rtrancl_into_rtrancl)
qed

lemma sweep_steps:
  "sweep ts vn cl rest w = Normal w' \<Longrightarrow>
   (step ts vn lns)\<^sup>*\<^sup>* \<lparr>loc = NextLidar rest, cleared = cl, wld = w\<rparr>
                        \<lparr>loc = NextLidar [], cleared = cl, wld = w'\<rparr>"
proof (induction rest arbitrary: w)
  case Nil
  then show ?case by simp
next
  case (Cons lname rest)
  then obtain w1 where w1: "process_lidar ts vn cl lname w = Normal w1"
    and more: "sweep ts vn cl rest w1 = Normal w'"
    by (auto split: exec_result.splits)
  show ?case
    using process_lidar_steps [OF w1, of lns rest] Cons.IH [OF more] by (rule rtranclp_trans)
qed

lemma run_sweeps_steps:
  "run_sweeps n ts vn lns cl w = Normal w' \<Longrightarrow>
   (step ts vn lns)\<^sup>*\<^sup>* \<lparr>loc = LoopHead, cleared = cl, wld = w\<rparr>
                        \<lparr>loc = LoopHead, cleared = (cl \<or> 0 < n), wld = w'\<rparr>"
proof (induction n arbitrary: cl w)
  case 0
  then show ?case by simp
next
  case (Suc n)
  then obtain w1 where w1: "sweep ts vn cl lns w = Normal w1"
    and more: "run_sweeps n ts vn lns True w1 = Normal w'"
    by (auto split: exec_result.splits)
  have a: "step ts vn lns \<lparr>loc = LoopHead, cleared = cl, wld = w\<rparr> \<lparr>loc = NextLidar lns, cleared = cl, wld = w\<rparr>"
    using step.loop_head [of "\<lparr>loc = LoopHead, cleared = cl, wld = w\<rparr>"] by simp
  have b: "step ts vn lns \<lparr>loc = NextLidar [], cleared = cl, wld = w1\<rparr> \<lparr>loc = LoopHead, cleared = True, wld = w1\<rparr>"
    using step.sweep_done [of "\<lparr>loc = NextLidar [], cleared = cl, wld = w1\<rparr>"] by simp
  have c: "(step ts vn lns)\<^sup>*\<^sup>* \<lparr>loc = LoopHead, cleared = True, wld = w1\<rparr>
                             \<lparr>loc = LoopHead, cleared = True, wld = w'\<rparr>"
    using Suc.IH [OF more] by simp
  have "(step ts vn lns)\<^sup>*\<^sup>* \<lparr>loc = LoopHead, cleared = cl, wld = w\<rparr>
                             \<lparr>loc = NextLidar [], cleared = cl, wld = w1\<rparr>"
    using a sweep_steps [OF w1, of lns] by (rule converse_rtranclp_into_rtranclp)
  then have "(step ts vn lns)\<^sup>*\<^sup>* \<lparr>loc = LoopHead, cleared = cl, wld = w\<rparr>
                                  \<lparr>loc = LoopHead, cleared = True, wld = w1\<rparr>"
    using b by (rule rtranclp.rtrancl_into_rtrancl)
  then have "(step ts vn lns)\<^sup>*\<^sup>* \<lparr>loc = LoopHead, cleared = cl, wld = w\<rparr>
                                  \<lparr>loc = LoopHead, cleared = True, wld = w'\<rparr>"
    using c by (rule rtranclp_trans)
  then show ?case by simp
qed

subsection \<open>Properties of the interruptible loop\<close>

definition demo_cfg :: cfg where
  "demo_cfg = open_scan ''t'' ''Drone1'' ''L'' []
                ((exec_start (demo_world [3, 4, 0] (mk_quat 1 0 0 0)))\<lparr>loc := NextLidar [''L'']\<rparr>)"

lemma demo_cfg_reachable:
  "(step ''t'' ''Drone1'' [''L''])\<^sup>*\<^sup>* (exec_start (demo_world [3, 4, 0] (mk_quat 1 0 0 0))) demo_cfg"
proof -
  let ?c0 = "exec_start (demo_world [3, 4, 0] (mk_quat 1 0 0 0))"
  have s1: "step ''t'' ''Drone1'' [''L''] ?c0 (?c0\<lparr>loc := NextLidar [''L'']\<rparr>)"
    by (rule step.loop_head) (simp add: exec_start_def)
  have s2: "step ''t'' ''Drone1'' [''L''] (?c0\<lparr>loc := NextLidar [''L'']\<rparr>) demo_cfg"
    unfolding demo_cfg_def by (rule step.scan_open) simp
  from s1 s2 show ?thesis by (meson r_into_rtranclp rtranclp.rtrancl_into_rtrancl)
qed

lemma demo_cfg_loc:
  "\<exists>rest rm pos lo mo xs. loc demo_cfg = Points (scan_filename ''t'' ''L'') rest rm pos lo mo xs"
  unfolding demo_cfg_def open_scan_def Let_def by (intro exI) simp

lemma demo_start_handle: "handle (demo_world [3, 4, 0] (mk_quat 1 0 0 0)) = None"
  by (simp add: demo_world_def)

text \<open>
  C23: from the start of the loop with no file open, in every reachable
  configuration the handle is closed at the top of the loop and between lidars, and
  is the current lidar's file while its points are processed.
\<close>

theorem reachable_handle_inv:
  assumes "handle w = None" and "(step ts vn lns)\<^sup>*\<^sup>* (exec_start w) c"
  shows "handle_inv c"
proof -
  have "handle_inv (exec_start w)"
    using assms(1) by (simp add: handle_inv_def exec_start_def time_time_def py_print_def)
  with assms(2) show ?thesis by (rule steps_handle_inv)
qed

theorem reachable_handle_inv_witness:
  "handle (demo_world [3, 4, 0] (mk_quat 1 0 0 0)) = None \<and>
   (step ''t'' ''Drone1'' [''L''])\<^sup>*\<^sup>* (exec_start (demo_world [3, 4, 0] (mk_quat 1 0 0 0))) demo_cfg \<and>
   handle_inv demo_cfg"
  using demo_start_handle demo_cfg_reachable
    reachable_handle_inv [OF demo_start_handle demo_cfg_reachable] by blast

text \<open>
  C24: a keyboard interrupt that arrives while a scan's points are processed ends the
  program with that scan's file still open: the handler of lines 115--117 does not
  close it, unlike the spec's description of the shutdown.
\<close>

theorem interrupt_in_scan_leaves_handle_open:
  assumes "handle w = None" and "(step ts vn lns)\<^sup>*\<^sup>* (exec_start w) c"
    and "\<exists>rest rm pos lo mo xs. loc c = Points fn rest rm pos lo mo xs"
  shows "\<exists>c'. (step ts vn lns)\<^sup>*\<^sup>* c c' \<and> loc c' = Finished \<and> handle (wld c') = Some fn"
proof -
  have inv: "handle_inv (exec_start w)"
    using assms(1) by (simp add: handle_inv_def exec_start_def time_time_def py_print_def)
  have h: "handle (wld c) = Some fn"
    using steps_handle_inv [OF assms(2) inv] assms(3) by (auto simp: handle_inv_def)
  let ?c1 = "c\<lparr>loc := Handler\<rparr>"
  let ?c2 = "?c1\<lparr>loc := Finished,
     wld := py_print (''Done!'' @ newline) (wait_key ''Press any key to stop running this script'' (wld ?c1))\<rparr>"
  have s1: "step ts vn lns c ?c1" using assms(3) by (auto intro: step.interrupt)
  have s2: "step ts vn lns ?c1 ?c2" by (rule step.handler) simp
  have "(step ts vn lns)\<^sup>*\<^sup>* c ?c2" using s1 s2 by (meson r_into_rtranclp rtranclp.rtrancl_into_rtrancl)
  moreover have "handle (wld ?c2) = Some fn" using h by (simp add: py_print_def wait_key_def)
  ultimately show ?thesis by force
qed

theorem interrupt_in_scan_leaves_handle_open_witness:
  "handle (demo_world [3, 4, 0] (mk_quat 1 0 0 0)) = None \<and>
   (step ''t'' ''Drone1'' [''L''])\<^sup>*\<^sup>* (exec_start (demo_world [3, 4, 0] (mk_quat 1 0 0 0))) demo_cfg \<and>
   (\<exists>rest rm pos lo mo xs. loc demo_cfg = Points (scan_filename ''t'' ''L'') rest rm pos lo mo xs) \<and>
   (\<exists>c'. (step ''t'' ''Drone1'' [''L''])\<^sup>*\<^sup>* demo_cfg c' \<and> loc c' = Finished \<and>
         handle (wld c') = Some (scan_filename ''t'' ''L''))"
  using demo_start_handle demo_cfg_reachable demo_cfg_loc
    interrupt_in_scan_leaves_handle_open [OF demo_start_handle demo_cfg_reachable demo_cfg_loc]
  by blast

text \<open>
  C25: once \<^verbatim>\<open>existing_data_cleared\<close> is set, no step of the interruptible loop
  removes a row from any file: an interrupt or an exception at any point leaves
  every file an extension of what it held then.
\<close>

theorem steps_keep_rows_after_clear:
  assumes "cleared c" and "(step ts vn lns)\<^sup>*\<^sup>* c c'"
  shows "prefix (contents (wld c) g) (contents (wld c') g)"
  using steps_keep_rows [OF assms(2) assms(1)] by blast

theorem steps_keep_rows_after_clear_witness:
  "cleared (demo_cfg\<lparr>cleared := True\<rparr>) \<and>
   (step ''t'' ''Drone1'' [''L''])\<^sup>*\<^sup>* (demo_cfg\<lparr>cleared := True\<rparr>) (demo_cfg\<lparr>cleared := True, loc := Handler\<rparr>) \<and>
   prefix (contents (wld (demo_cfg\<lparr>cleared := True\<rparr>)) (scan_filename ''t'' ''L''))
          (contents (wld (demo_cfg\<lparr>cleared := True, loc := Handler\<rparr>)) (scan_filename ''t'' ''L''))"
proof -
  have c: "cleared (demo_cfg\<lparr>cleared := True\<rparr>)" by simp
  have "step ''t'' ''Drone1'' [''L''] (demo_cfg\<lparr>cleared := True\<rparr>) (demo_cfg\<lparr>cleared := True, loc := Handler\<rparr>)"
    using step.interrupt [of "demo_cfg\<lparr>cleared := True\<rparr>"] demo_cfg_loc by auto
  then have s: "(step ''t'' ''Drone1'' [''L''])\<^sup>*\<^sup>* (demo_cfg\<lparr>cleared := True\<rparr>) (demo_cfg\<lparr>cleared := True, loc := Handler\<rparr>)"
    by (rule r_into_rtranclp)
  show ?thesis using c s steps_keep_rows_after_clear [OF c s] by blast
qed

text \<open>
  C26: every run of the big-step \<^verbatim>\<open>execute\<close> of \<open>Execute_Loop\<close>, interrupted after
  \<open>n\<close> sweeps, is a run of the interruptible machine from its start to the end of
  the handler, with the same final world.
\<close>

theorem execute_is_run:
  assumes "execute float_str n vn lns w = Normal w'"
  shows "(step (exec_ts float_str w) vn lns)\<^sup>*\<^sup>* (exec_start w) \<lparr>loc = Finished, cleared = (0 < n), wld = w'\<rparr>"
proof -
  let ?w3 = "wld (exec_start w)" and ?ts = "exec_ts float_str w"
  obtain w4 where w4: "run_sweeps n ?ts vn lns False ?w3 = Normal w4"
    and w': "w' = py_print (''Done!'' @ newline) (wait_key ''Press any key to stop running this script'' w4)"
    using assms by (auto simp: execute_def exec_start_def exec_ts_def time_time_def py_print_def Let_def
        split: exec_result.splits)
  have start: "exec_start w = \<lparr>loc = LoopHead, cleared = False, wld = ?w3\<rparr>"
    by (simp add: exec_start_def)
  have r: "(step ?ts vn lns)\<^sup>*\<^sup>* (exec_start w) \<lparr>loc = LoopHead, cleared = (0 < n), wld = w4\<rparr>"
    using run_sweeps_steps [OF w4] start by simp
  have i: "step ?ts vn lns \<lparr>loc = LoopHead, cleared = (0 < n), wld = w4\<rparr>
                          \<lparr>loc = Handler, cleared = (0 < n), wld = w4\<rparr>"
    using step.interrupt [of "\<lparr>loc = LoopHead, cleared = (0 < n), wld = w4\<rparr>"] by simp
  have h: "step ?ts vn lns \<lparr>loc = Handler, cleared = (0 < n), wld = w4\<rparr>
                          \<lparr>loc = Finished, cleared = (0 < n), wld = w'\<rparr>"
    using step.handler [of "\<lparr>loc = Handler, cleared = (0 < n), wld = w4\<rparr>"] by (simp add: w')
  from r i h show ?thesis by (meson rtranclp.rtrancl_into_rtrancl)
qed

theorem execute_is_run_witness:
  "execute (\<lambda>x. ''t'') 1 ''Drone1'' [''L''] (demo_world [3, 4, 0] (mk_quat 1 0 0 0))
     = Normal (result_state (execute (\<lambda>x. ''t'') 1 ''Drone1'' [''L''] (demo_world [3, 4, 0] (mk_quat 1 0 0 0)))) \<and>
   (step (exec_ts (\<lambda>x. ''t'') (demo_world [3, 4, 0] (mk_quat 1 0 0 0))) ''Drone1'' [''L''])\<^sup>*\<^sup>*
     (exec_start (demo_world [3, 4, 0] (mk_quat 1 0 0 0)))
     \<lparr>loc = Finished, cleared = (0 < (1::nat)),
      wld = result_state (execute (\<lambda>x. ''t'') 1 ''Drone1'' [''L''] (demo_world [3, 4, 0] (mk_quat 1 0 0 0)))\<rparr>"
proof -
  have h: "execute (\<lambda>x. ''t'') 1 ''Drone1'' [''L''] (demo_world [3, 4, 0] (mk_quat 1 0 0 0))
     = Normal (result_state (execute (\<lambda>x. ''t'') 1 ''Drone1'' [''L''] (demo_world [3, 4, 0] (mk_quat 1 0 0 0))))"
    by (simp add: execute_def demo_eval py_print_def wait_key_def)
  show ?thesis using h execute_is_run [OF h] by blast
qed

end
