(* ===== verification/Time_Stamps.thy ===== *)
theory Time_Stamps
  imports Interrupt_Semantics
begin

text \<open>
  The time stamps of the records (line 110 of
  \<^verbatim>\<open>sensorframe_lidar_pointcloud.py\<close>: \<^verbatim>\<open>round(time.time()*1000)\<close> once per
  point). \<open>stamps_ok\<close> says that in every file the time stamps are sorted and none
  exceeds the rounded reading the clock will give next. Every step of the
  interruptible machine of \<open>Interrupt_Semantics\<close> keeps it when the clock readings are
  non-decreasing, because Python's rounding is monotone; so in every reachable
  configuration each file's time stamps are sorted. \<^verbatim>\<open>time.time()\<close> is the wall
  clock, which may be set back; the hypothesis \<open>mono (clock w)\<close> is exactly what the
  property needs.
\<close>

definition stamps_ok :: "world \<Rightarrow> bool" where
  "stamps_ok w \<longleftrightarrow>
     (\<forall>fn. sorted (map row_time (contents w fn)) \<and>
           list_all (\<lambda>r. row_time r \<le> py_round (clock w (clock_reads w) * 1000)) (contents w fn))"

subsection \<open>Rounding is monotone\<close>

lemma py_round_mono:
  assumes "x \<le> y"
  shows "py_round x \<le> py_round y"
proof (rule ccontr)
  assume "\<not> py_round x \<le> py_round y"
  then have gt: "of_int (py_round y) + 1 \<le> (of_int (py_round x) :: real)" by linarith
  have "\<bar>of_int (py_round x) - x\<bar> \<le> 1/2" "\<bar>of_int (py_round y) - y\<bar> \<le> 1/2"
    using py_round_close by blast+
  with gt assms have "x = y" by linarith
  with \<open>\<not> py_round x \<le> py_round y\<close> show False by simp
qed

lemma stamp_mono:
  "mono (clock w) \<Longrightarrow> i \<le> j \<Longrightarrow> py_round (clock w i * 1000) \<le> py_round (clock w j * 1000)"
  by (rule py_round_mono) (simp add: monoD)

subsection \<open>The operations keep the invariant\<close>

lemma stamps_ok_time:
  assumes m: "mono (clock w)" and ok: "stamps_ok w"
  shows "stamps_ok (snd (time_time w))"
proof -
  have "py_round (clock w (clock_reads w) * 1000) \<le> py_round (clock w (Suc (clock_reads w)) * 1000)"
    using stamp_mono [OF m] by simp
  with ok show ?thesis
    by (auto simp: stamps_ok_def time_time_def contents_def list_all_iff intro: order_trans)
qed

lemma stamps_ok_write:
  assumes m: "mono (clock w)" and ok: "stamps_ok w"
  shows "stamps_ok (py_write fn (row_of v r a (py_round (fst (time_time w) * 1000))) (snd (time_time w)))"
proof -
  let ?t = "py_round (clock w (clock_reads w) * 1000)"
  have le: "?t \<le> py_round (clock w (Suc (clock_reads w)) * 1000)"
    using stamp_mono [OF m] by simp
  have t: "row_time (row_of v r a ?t) = ?t"
    by (simp add: row_of_def split: prod.splits)
  have old: "list_all (\<lambda>x. row_time x \<le> ?t) (contents w g)" "sorted (map row_time (contents w g))" for g
    using ok by (simp_all add: stamps_ok_def)
  show ?thesis
    unfolding stamps_ok_def
  proof
    fix g
    show "sorted (map row_time (contents (py_write fn (row_of v r a (py_round (fst (time_time w) * 1000)))
             (snd (time_time w))) g)) \<and>
          list_all (\<lambda>x. row_time x \<le> py_round (clock (py_write fn (row_of v r a (py_round (fst (time_time w) * 1000)))
             (snd (time_time w))) (clock_reads (py_write fn (row_of v r a (py_round (fst (time_time w) * 1000)))
             (snd (time_time w)))) * 1000))
            (contents (py_write fn (row_of v r a (py_round (fst (time_time w) * 1000))) (snd (time_time w))) g)"
      using old [of g] le t
      by (auto simp: py_write_def time_time_def contents_def sorted_append list_all_iff
               intro: order_trans split: option.splits)
  qed
qed

lemma stamps_ok_scan_start: "stamps_ok w \<Longrightarrow> stamps_ok (scan_start fn cl w)"
  by (auto simp: stamps_ok_def scan_start_def contents_def)

lemma stamps_ok_close: "stamps_ok w \<Longrightarrow> stamps_ok (py_close w)"
  by (simp add: stamps_ok_def py_close_def contents_def)

lemma stamps_ok_print: "stamps_ok w \<Longrightarrow> stamps_ok (py_print msg w)"
  by (simp add: stamps_ok_def py_print_def contents_def)

lemma clock_step: "step ts vn lns c c' \<Longrightarrow> clock (wld c') = clock (wld c)"
  by (induction rule: step.induct)
     (simp_all add: open_scan_def Let_def scan_start_def py_write_def time_time_def py_close_def
       py_print_def wait_key_def)

lemma stamps_ok_step:
  "step ts vn lns c c' \<Longrightarrow> mono (clock (wld c)) \<Longrightarrow> stamps_ok (wld c) \<Longrightarrow> stamps_ok (wld c')"
  by (induction rule: step.induct)
     (simp_all add: open_scan_def Let_def stamps_ok_scan_start stamps_ok_write stamps_ok_close
       stamps_ok_print wait_key_def)

lemma stamps_ok_steps:
  "(step ts vn lns)\<^sup>*\<^sup>* c c' \<Longrightarrow> mono (clock (wld c)) \<Longrightarrow> stamps_ok (wld c) \<Longrightarrow>
   stamps_ok (wld c') \<and> clock (wld c') = clock (wld c)"
  by (induction rule: rtranclp_induct) (auto dest: clock_step intro: stamps_ok_step)

lemma stamps_ok_exec_start:
  "mono (clock w) \<Longrightarrow> stamps_ok w \<Longrightarrow> stamps_ok (wld (exec_start w)) \<and> clock (wld (exec_start w)) = clock w"
proof -
  assume m: "mono (clock w)" and ok: "stamps_ok w"
  let ?w2 = "py_print (''Use Keyboard Interrupt 'CTRL + C' to Stop Scanning'' @ newline)
               (py_print (''Scanning Has Started'' @ newline) w)"
  have "stamps_ok ?w2" using ok by (simp add: stamps_ok_print)
  moreover have "clock ?w2 = clock w" by (simp add: py_print_def)
  ultimately show ?thesis
    using m stamps_ok_time [of ?w2] by (simp add: exec_start_def time_time_def)
qed

lemma demo_stamps_ok: "stamps_ok (demo_world [3, 4, 0] (mk_quat 1 0 0 0))"
  by (simp add: stamps_ok_def demo_world_def contents_def)

lemma demo_clock_mono: "mono (clock (demo_world [3, 4, 0] (mk_quat 1 0 0 0)))"
  by (simp add: demo_world_def mono_def)

text \<open>
  C32: when the clock never goes back, in every configuration the program reaches
  from the start of the loop, interrupts included, the time stamps of every file are
  in non-decreasing order, provided they were so in the initial world.
\<close>

theorem reachable_stamps_sorted:
  assumes "mono (clock w)" "stamps_ok w" "(step ts vn lns)\<^sup>*\<^sup>* (exec_start w) c"
  shows "sorted (map row_time (contents (wld c) fn))"
proof -
  have "stamps_ok (wld (exec_start w))" "clock (wld (exec_start w)) = clock w"
    using stamps_ok_exec_start [OF assms(1,2)] by auto
  then have "stamps_ok (wld c)"
    using stamps_ok_steps [OF assms(3)] assms(1) by simp
  then show ?thesis by (simp add: stamps_ok_def)
qed

theorem reachable_stamps_sorted_witness:
  "mono (clock (demo_world [3, 4, 0] (mk_quat 1 0 0 0))) \<and>
   stamps_ok (demo_world [3, 4, 0] (mk_quat 1 0 0 0)) \<and>
   (step ''t'' ''Drone1'' [''L''])\<^sup>*\<^sup>* (exec_start (demo_world [3, 4, 0] (mk_quat 1 0 0 0))) demo_cfg \<and>
   sorted (map row_time (contents (wld demo_cfg) (scan_filename ''t'' ''L'')))"
  using reachable_stamps_sorted [OF demo_clock_mono demo_stamps_ok demo_cfg_reachable]
    demo_clock_mono demo_stamps_ok demo_cfg_reachable
  by blast
end
