(* ===== verification/Row_Types.thy ===== *)
theory Row_Types
  imports Interrupt_Semantics
begin

text \<open>
  The type of the records in the output files, as the spec describes a point: three
  coordinates, a range from the sensor that is never negative, an angle in
  \<open>[0, \<pi>]\<close> (the range of \<^verbatim>\<open>math.acos\<close>), an integer time stamp and the colour
  \<open>255 255 0\<close>. \<open>row_ok\<close> is that type; \<open>rows_ok\<close> says every file holds only records
  of it. Every step of the interruptible machine of \<open>Interrupt_Semantics\<close> keeps
  \<open>rows_ok\<close>, because the range is a square root (line 100) and the angle the
  result of \<^verbatim>\<open>math.acos\<close> (line 108), so every reachable configuration has only
  well-formed records on disk.
\<close>

definition row_ok :: "out_row \<Rightarrow> bool" where
  "row_ok r \<longleftrightarrow>
     row_r r = 255 \<and> row_g r = 255 \<and> row_b r = 0 \<and> 0 \<le> row_range r \<and>
     0 \<le> row_angle r \<and> row_angle r \<le> pi"

definition rows_ok :: "world \<Rightarrow> bool" where
  "rows_ok w \<longleftrightarrow> (\<forall>fn. list_all row_ok (contents w fn))"

subsection \<open>The values a point produces\<close>

lemma transform_point_range_nonneg: "transform_point rm pos xyz = Inr (v, r) \<Longrightarrow> 0 \<le> r"
  by (auto simp: transform_point_def Let_def split: sum.splits prod.splits)

lemma py_acos_range: "py_acos x = Inr a \<Longrightarrow> 0 \<le> a \<and> a \<le> pi"
  by (auto simp: py_acos_def split: if_splits intro: arccos_lbound arccos_ubound)

lemma point_angle_range: "point_angle mo lo = Inr a \<Longrightarrow> 0 \<le> a \<and> a \<le> pi"
  unfolding point_angle_def Let_def
  by (auto split: sum.splits dest: py_acos_range)

lemma row_of_ok: "0 \<le> r \<Longrightarrow> 0 \<le> a \<Longrightarrow> a \<le> pi \<Longrightarrow> row_ok (row_of v r a t)"
  by (simp add: row_ok_def row_of_def split: prod.splits)

subsection \<open>The operations keep the type\<close>

lemma rows_ok_write: "rows_ok w \<Longrightarrow> row_ok r \<Longrightarrow> rows_ok (py_write fn r w)"
  by (simp add: rows_ok_def py_write_def contents_def)

lemma rows_ok_frame: "files w' = files w \<Longrightarrow> rows_ok w \<Longrightarrow> rows_ok w'"
  by (simp add: rows_ok_def contents_def)

lemma rows_ok_scan_start: "rows_ok w \<Longrightarrow> rows_ok (scan_start fn cl w)"
  by (simp add: rows_ok_def scan_start_def contents_def)

lemma rows_ok_step: "step ts vn lns c c' \<Longrightarrow> rows_ok (wld c) \<Longrightarrow> rows_ok (wld c')"
proof (induction rule: step.induct)
  case (scan_open c lname rest)
  then show ?case by (simp add: open_scan_def Let_def rows_ok_scan_start)
next
  case (point_ok c fn rest rm pos lo mo xyz xs v r a)
  have "row_ok (row_of v r a (py_round (fst (time_time (wld c)) * 1000)))"
    using point_ok.hyps(2,3) transform_point_range_nonneg point_angle_range by (blast intro: row_of_ok)
  moreover have "rows_ok (snd (time_time (wld c)))"
    using point_ok.prems by (rule rows_ok_frame [rotated]) (simp add: time_time_def)
  ultimately show ?case by (simp add: rows_ok_write)
next
  case (scan_close c fn rest rm pos lo mo)
  then show ?case by (simp add: rows_ok_frame py_close_def)
next
  case (handler c)
  then show ?case by (simp add: rows_ok_frame py_print_def wait_key_def)
qed simp_all

lemma rows_ok_steps: "(step ts vn lns)\<^sup>*\<^sup>* c c' \<Longrightarrow> rows_ok (wld c) \<Longrightarrow> rows_ok (wld c')"
  by (induction rule: rtranclp_induct) (auto intro: rows_ok_step)

lemma rows_ok_exec_start: "rows_ok w \<Longrightarrow> rows_ok (wld (exec_start w))"
  by (simp add: rows_ok_def exec_start_def time_time_def py_print_def contents_def)

lemma demo_rows_ok: "rows_ok (demo_world [3, 4, 0] (mk_quat 1 0 0 0))"
  by (simp add: rows_ok_def demo_world_def contents_def)

text \<open>
  C22: starting from files that hold only well-formed records, in every configuration
  the program reaches, interrupts and exceptions included, every record in every file
  has the colour \<open>255 255 0\<close>, a range that is not negative and an angle in
  \<open>[0, \<pi>]\<close>.
\<close>

theorem reachable_rows_typed:
  assumes "rows_ok w" "(step ts vn lns)\<^sup>*\<^sup>* (exec_start w) c"
  shows "list_all row_ok (contents (wld c) fn)"
  using rows_ok_steps [OF assms(2) rows_ok_exec_start [OF assms(1)]] by (simp add: rows_ok_def)

theorem reachable_rows_typed_witness:
  "rows_ok (demo_world [3, 4, 0] (mk_quat 1 0 0 0)) \<and>
   (step ''t'' ''Drone1'' [''L''])\<^sup>*\<^sup>* (exec_start (demo_world [3, 4, 0] (mk_quat 1 0 0 0))) demo_cfg \<and>
   list_all row_ok (contents (wld demo_cfg) (scan_filename ''t'' ''L''))"
  using reachable_rows_typed [OF demo_rows_ok demo_cfg_reachable] demo_rows_ok demo_cfg_reachable
  by blast

end
