(* ===== verification/Loop_Refinement.thy ===== *)
theory Loop_Refinement
  imports Interrupt_Semantics
begin

text \<open>
  The converse of the simulation in \<open>Interrupt_Semantics\<close>: every run of the
  interruptible machine that starts and ends at the top of \<^verbatim>\<open>while True\<close>
  (line 73 of \<^verbatim>\<open>sensorframe_lidar_pointcloud.py\<close>) is a run of \<open>n\<close> complete
  sweeps of the big-step \<open>run_sweeps\<close>, for some \<open>n\<close>. Such a run never takes an
  interrupt, since the handler never returns to the loop. \<open>resume\<close> is what the
  big-step model computes from a configuration (the rest of the point loop, of the
  sweep, then \<open>n\<close> more sweeps), and each step of the machine leaves it unchanged.
  Together with \<open>run_sweeps_steps\<close>, the states at the top of the loop are exactly
  the results of \<open>run_sweeps\<close>.
\<close>

definition resume :: "string \<Rightarrow> string \<Rightarrow> string list \<Rightarrow> cfg \<Rightarrow> nat \<Rightarrow> world exec_result" where
  "resume ts vn lns c n =
     (case loc c of
        LoopHead \<Rightarrow> run_sweeps n ts vn lns (cleared c) (wld c)
      | NextLidar ls \<Rightarrow>
          (case sweep ts vn (cleared c) ls (wld c) of
             Normal w1 \<Rightarrow> run_sweeps n ts vn lns True w1
           | Raised e w1 \<Rightarrow> Raised e w1)
      | Points fn rest rm pos lo mo xs \<Rightarrow>
          (case points_loop fn rm pos lo mo xs (wld c) of
             Normal w1 \<Rightarrow>
               (case sweep ts vn (cleared c) rest (py_close w1) of
                  Normal w2 \<Rightarrow> run_sweeps n ts vn lns True w2
                | Raised e w2 \<Rightarrow> Raised e w2)
           | Raised e w1 \<Rightarrow> Raised e w1)
      | _ \<Rightarrow> Normal (wld c))"

definition final_cleared :: "cfg \<Rightarrow> nat \<Rightarrow> bool" where
  "final_cleared c n = (case loc c of LoopHead \<Rightarrow> cleared c \<or> 0 < n | _ \<Rightarrow> True)"

subsection \<open>Halted configurations stay halted\<close>

lemma step_halted: "step ts vn lns c c' \<Longrightarrow> \<not> running (loc c) \<Longrightarrow> \<not> running (loc c')"
  by (induction rule: step.induct) auto

lemma steps_halted: "(step ts vn lns)\<^sup>*\<^sup>* c c' \<Longrightarrow> \<not> running (loc c) \<Longrightarrow> \<not> running (loc c')"
  by (induction rule: rtranclp_induct) (auto dest: step_halted)

subsection \<open>Each step keeps what is left to compute\<close>

lemma step_resume:
  assumes "step ts vn lns c c2" "running (loc c2)"
  shows "resume ts vn lns c2 n = resume ts vn lns c (if loc c = LoopHead then Suc n else n) \<and>
         final_cleared c2 n = final_cleared c (if loc c = LoopHead then Suc n else n)"
  using assms
proof (induction rule: step.induct)
  case (scan_open c lname rest)
  then show ?case
    by (auto simp: resume_def final_cleared_def open_scan_def Let_def process_lidar_unfold
        split: exec_result.split)
next
  case (point_ok c fn rest rm pos lo mo xyz xs v r a)
  have "cleared (c\<lparr>loc := Points fn rest rm pos lo mo xs,
                    wld := py_write fn (row_of v r a (py_round (fst (time_time (wld c)) * 1000)))
                             (snd (time_time (wld c)))\<rparr>) = cleared c"
    by simp
  with point_ok show ?case
    by (simp only: resume_def final_cleared_def cfg.select_convs cfg.update_convs)
       (simp add: time_time_def)
qed (auto simp: resume_def final_cleared_def split: exec_result.split)

lemma steps_resume:
  "(step ts vn lns)\<^sup>*\<^sup>* c c' \<Longrightarrow> loc c' = LoopHead \<Longrightarrow>
   \<exists>n. resume ts vn lns c n = Normal (wld c') \<and> cleared c' = final_cleared c n"
proof (induction rule: converse_rtranclp_induct)
  case base
  then show ?case by (intro exI [of _ 0]) (simp add: resume_def final_cleared_def)
next
  case (step c c2)
  have "running (loc c2)"
    using steps_halted [OF step.hyps(2)] step.prems by fastforce
  moreover obtain n where "resume ts vn lns c2 n = Normal (wld c')" "cleared c' = final_cleared c2 n"
    using step.IH step.prems by blast
  ultimately show ?case
    using step_resume [OF step.hyps(1)] by metis
qed

subsection \<open>Each sweep terminates\<close>

text \<open>The variant of a sweep: twice the lidars still to scan (one more while a scan's
  points are processed), then the points left; the top of the loop ranks above the
  whole sweep, the handler below everything that runs.\<close>

fun loc_rank :: "nat \<Rightarrow> loc \<Rightarrow> nat \<times> nat" where
  "loc_rank m LoopHead = (2 * m + 1, 0)"
| "loc_rank m (NextLidar ls) = (2 * length ls, 2)"
| "loc_rank m (Points fn rest rm pos lo mo xs) = (2 * length rest + 1, length xs)"
| "loc_rank m Handler = (0, 1)"
| "loc_rank m Finished = (0, 0)"
| "loc_rank m (Failed e) = (0, 0)"

lemma step_rank:
  "step ts vn lns c c' \<Longrightarrow> loc c' \<noteq> LoopHead \<Longrightarrow>
   (loc_rank (length lns) (loc c'), loc_rank (length lns) (loc c)) \<in> less_than <*lex*> less_than"
  by (induction rule: step.induct) (auto simp: open_scan_def Let_def elim: running.elims)

lemma loop_head_steps_sweeps:
  "(step ts vn lns)\<^sup>*\<^sup>* \<lparr>loc = LoopHead, cleared = cl, wld = w\<rparr> \<lparr>loc = LoopHead, cleared = cl', wld = w'\<rparr> \<Longrightarrow>
   \<exists>n. run_sweeps n ts vn lns cl w = Normal w' \<and> cl' = (cl \<or> 0 < n)"
  using steps_resume [of ts vn lns "\<lparr>loc = LoopHead, cleared = cl, wld = w\<rparr>"
      "\<lparr>loc = LoopHead, cleared = cl', wld = w'\<rparr>"]
  by (simp add: resume_def final_cleared_def)


text \<open>
  C29: the configurations at the top of \<^verbatim>\<open>while True\<close> that the interruptible
  machine reaches from the top of the loop are exactly the results of \<open>n\<close> sweeps of
  the big-step loop, for some \<open>n\<close>, with \<^verbatim>\<open>existing_data_cleared\<close> set once a
  sweep has completed.
\<close>

theorem loop_head_states_are_sweeps:
  "(step ts vn lns)\<^sup>*\<^sup>* \<lparr>loc = LoopHead, cleared = cl, wld = w\<rparr> \<lparr>loc = LoopHead, cleared = cl', wld = w'\<rparr> \<longleftrightarrow>
   (\<exists>n. run_sweeps n ts vn lns cl w = Normal w' \<and> cl' = (cl \<or> 0 < n))"
  using loop_head_steps_sweeps run_sweeps_steps by blast

theorem loop_head_states_are_sweeps_witness:
  "(step ''t'' ''Drone1'' [''L''])\<^sup>*\<^sup>*
     \<lparr>loc = LoopHead, cleared = False, wld = demo_world [3, 4, 0] (mk_quat 1 0 0 0)\<rparr>
     \<lparr>loc = LoopHead, cleared = True,
      wld = result_state (run_sweeps 1 ''t'' ''Drone1'' [''L''] False (demo_world [3, 4, 0] (mk_quat 1 0 0 0)))\<rparr>"
proof -
  obtain w' where w': "run_sweeps 1 ''t'' ''Drone1'' [''L''] False (demo_world [3, 4, 0] (mk_quat 1 0 0 0)) = Normal w'"
    using run_sweeps_normal [OF good_feeds_demo] by blast
  have "\<exists>n. run_sweeps n ''t'' ''Drone1'' [''L''] False (demo_world [3, 4, 0] (mk_quat 1 0 0 0)) = Normal w' \<and>
            True = (False \<or> 0 < n)"
  proof (intro exI conjI)
    show "run_sweeps 1 ''t'' ''Drone1'' [''L''] False (demo_world [3, 4, 0] (mk_quat 1 0 0 0)) = Normal w'"
      by (rule w')
  qed simp
  then have "(step ''t'' ''Drone1'' [''L''])\<^sup>*\<^sup>*
     \<lparr>loc = LoopHead, cleared = False, wld = demo_world [3, 4, 0] (mk_quat 1 0 0 0)\<rparr>
     \<lparr>loc = LoopHead, cleared = True, wld = w'\<rparr>"
    using loop_head_states_are_sweeps [of "''t''" "''Drone1''" "[''L'']" False
        "demo_world [3, 4, 0] (mk_quat 1 0 0 0)" True w']
    by blast
  then show ?thesis by (simp only: w' result_state.simps)
qed

text \<open>
  C18: between two visits of the top of \<^verbatim>\<open>while True\<close> the machine can take only
  finitely many steps, interrupts and exceptions included: every \<^verbatim>\<open>for\<close> loop over
  the lidars and every point loop terminates, and only \<^verbatim>\<open>while True\<close> runs for ever.
\<close>

theorem sweep_terminates: "wfP (\<lambda>c' c. step ts vn lns c c' \<and> loc c' \<noteq> LoopHead)"
proof -
  have "{(c', c). step ts vn lns c c' \<and> loc c' \<noteq> LoopHead}
          \<subseteq> inv_image (less_than <*lex*> less_than) (\<lambda>c. loc_rank (length lns) (loc c))"
    using step_rank by auto
  then have "wf {(c', c). step ts vn lns c c' \<and> loc c' \<noteq> LoopHead}"
    by (rule wf_subset [OF wf_inv_image [OF wf_lex_prod [OF wf_less_than wf_less_than]]])
  then show ?thesis by (simp add: wfp_def)
qed
end
