(* ===== verification/Sweep_Contents.thy ===== *)
theory Sweep_Contents
  imports Execute_Loop
begin

text \<open>
  The contents of every file after \<open>n\<close> sweeps of \<^verbatim>\<open>while True\<close> (lines 73--114
  of \<^verbatim>\<open>sensorframe_lidar_pointcloud.py\<close>) in closed form. Number the scans of a run
  \<open>0, 1, 2, \<dots>\<close> in the order the loop makes them: scan \<open>k\<close> is of lidar
  \<open>k mod m\<close> (\<open>m\<close> the number of lidars), asks the simulator for request numbers
  \<open>2k\<close> and \<open>2k + 1\<close> after the start (lines 81--82), and reads the clock once per
  point after the reads of all earlier scans (line 110). \<open>scan_at\<close> is what one scan
  writes, given its request number and its first clock read; \<open>file_after\<close> is the
  concatenation of the scans of one lidar. With distinct lidar names and well-formed
  simulator answers the file of every lidar after \<open>n \<ge> 1\<close> sweeps is exactly
  \<open>file_after\<close>: the first sweep truncated it and every later scan appended to it.
\<close>

text \<open>The records one scan writes: the lidar's answer to request \<open>q\<close>, the vehicle's
  to request \<open>q + 1\<close>, the clock read from read \<open>r\<close> on.\<close>

definition scan_at :: "world \<Rightarrow> string \<Rightarrow> string \<Rightarrow> nat \<Rightarrow> nat \<Rightarrow> out_row list" where
  "scan_at w vn l q r =
     (let ld = lidar_feed w q l vn; mo = kin_orientation (kinematics_estimated (state_feed w (Suc q) vn))
      in scan_rows (rotation_matrix (orientation (pose ld))) (position (pose ld))
           (arccos (2 * (code_inner mo (orientation (pose ld)))\<^sup>2 - 1))
           (point_slices (point_cloud ld)) (clock w) r)"

definition npts :: "world \<Rightarrow> string \<Rightarrow> string \<Rightarrow> nat \<Rightarrow> nat" where
  "npts w vn l q = length (point_cloud (lidar_feed w q l vn)) div 3"

text \<open>The clock reads made before scan \<open>k\<close> of a run from \<open>w\<close>.\<close>

definition reads_before :: "world \<Rightarrow> string \<Rightarrow> string list \<Rightarrow> nat \<Rightarrow> nat" where
  "reads_before w vn lns k =
     clock_reads w + (\<Sum>j<k. npts w vn (lns ! (j mod length lns)) (sim_calls w + 2 * j))"

definition file_after :: "world \<Rightarrow> string \<Rightarrow> string list \<Rightarrow> nat \<Rightarrow> nat \<Rightarrow> out_row list" where
  "file_after w vn lns n i =
     concat (map (\<lambda>s. scan_at w vn (lns ! i) (sim_calls w + 2 * (s * length lns + i))
                         (reads_before w vn lns (s * length lns + i))) [0..<n])"

subsection \<open>One scan\<close>

lemma process_lidar_contents:
  assumes g: "good_scan (next_lidar w l vn) (next_vehicle_orientation w vn)"
  shows "\<exists>w'. process_lidar ts vn c l w = Normal w' \<and>
           sim_calls w' = Suc (Suc (sim_calls w)) \<and>
           clock_reads w' = clock_reads w + npts w vn l (sim_calls w) \<and>
           lidar_feed w' = lidar_feed w \<and> state_feed w' = state_feed w \<and> clock w' = clock w \<and>
           contents w' (scan_filename ts l) =
             (if c then contents w (scan_filename ts l) else []) @ scan_at w vn l (sim_calls w) (clock_reads w) \<and>
           (\<forall>g. g \<noteq> scan_filename ts l \<longrightarrow> files w' g = files w g)"
proof -
  let ?ld = "next_lidar w l vn" and ?mo = "next_vehicle_orientation w vn"
  have ang: "point_angle ?mo (orientation (pose ?ld))
               = Inr (arccos (2 * (code_inner ?mo (orientation (pose ?ld)))\<^sup>2 - 1))"
    using point_angle_nonzero g by (simp add: good_scan_def)
  have sl: "list_all (\<lambda>xyz. length xyz = 3) (point_slices (point_cloud ?ld))"
    using g by (simp add: good_scan_def point_slices_chunks list_all_chunks3)
  have len: "length (point_slices (point_cloud ?ld)) = npts w vn l (sim_calls w)"
    using g by (auto simp: good_scan_def point_slices_chunks length_chunks3 npts_def next_lidar_def
        elim!: dvdE)
  show ?thesis
    using points_loop_ok [OF sl ang files_scan_start] len
    by (simp add: process_lidar_unfold Let_def py_close_def scan_start_def contents_def scan_at_def
        next_lidar_def next_vehicle_orientation_def)
qed

lemma good_feeds_feeds:
  "lidar_feed w' = lidar_feed w \<Longrightarrow> state_feed w' = state_feed w \<Longrightarrow> good_feeds w vn lns \<Longrightarrow>
   good_feeds w' vn lns"
  by (simp add: good_feeds_def)

lemma good_feeds_Cons: "good_feeds w vn (l # lns) \<Longrightarrow> good_feeds w vn lns"
  by (simp add: good_feeds_def)

lemma scan_at_cong:
  "lidar_feed w' = lidar_feed w \<Longrightarrow> state_feed w' = state_feed w \<Longrightarrow> clock w' = clock w \<Longrightarrow>
   scan_at w' = scan_at w"
  by (intro ext) (simp add: scan_at_def)

lemma npts_cong: "lidar_feed w' = lidar_feed w \<Longrightarrow> npts w' = npts w"
  by (intro ext) (simp add: npts_def)


subsection \<open>One sweep\<close>

text \<open>The clock reads of the first \<open>i\<close> scans of a sweep over \<open>lns\<close> from \<open>u\<close>.\<close>

definition sweep_reads :: "world \<Rightarrow> string \<Rightarrow> string list \<Rightarrow> nat \<Rightarrow> nat" where
  "sweep_reads u vn lns i = (\<Sum>j<i. npts u vn (lns ! j) (sim_calls u + 2 * j))"

lemma sweep_reads_Cons:
  "sim_calls u1 = Suc (Suc (sim_calls u)) \<Longrightarrow> lidar_feed u1 = lidar_feed u \<Longrightarrow>
   npts u vn l (sim_calls u) + sweep_reads u1 vn lns i = sweep_reads u vn (l # lns) (Suc i)"
proof -
  assume s: "sim_calls u1 = Suc (Suc (sim_calls u))" and f: "lidar_feed u1 = lidar_feed u"
  have "npts u1 = npts u" using f by (rule npts_cong)
  then show ?thesis
    by (simp add: s sweep_reads_def sum.lessThan_Suc_shift algebra_simps del: sum.lessThan_Suc)
qed

lemma sweep_contents:
  assumes "good_feeds u vn lns" "distinct lns"
  shows "\<exists>u'. sweep ts vn c lns u = Normal u' \<and>
           sim_calls u' = sim_calls u + 2 * length lns \<and>
           clock_reads u' = clock_reads u + sweep_reads u vn lns (length lns) \<and>
           lidar_feed u' = lidar_feed u \<and> state_feed u' = state_feed u \<and> clock u' = clock u \<and>
           (\<forall>i < length lns. contents u' (scan_filename ts (lns ! i)) =
              (if c then contents u (scan_filename ts (lns ! i)) else []) @
              scan_at u vn (lns ! i) (sim_calls u + 2 * i) (clock_reads u + sweep_reads u vn lns i)) \<and>
           (\<forall>g. g \<notin> scan_filename ts ` set lns \<longrightarrow> files u' g = files u g)"
  using assms
proof (induction lns arbitrary: u)
  case Nil
  then show ?case by (simp add: sweep_reads_def)
next
  case (Cons l lns)
  have "good_scan (next_lidar u l vn) (next_vehicle_orientation u vn)"
    using Cons.prems(1) by (simp add: good_feeds_scan)
  from process_lidar_contents [OF this, of ts c] obtain u1 where p: "process_lidar ts vn c l u = Normal u1"
    and u1: "sim_calls u1 = Suc (Suc (sim_calls u))" "clock_reads u1 = clock_reads u + npts u vn l (sim_calls u)"
            "lidar_feed u1 = lidar_feed u" "state_feed u1 = state_feed u" "clock u1 = clock u"
    and c1: "contents u1 (scan_filename ts l) =
             (if c then contents u (scan_filename ts l) else []) @ scan_at u vn l (sim_calls u) (clock_reads u)"
    and oth1: "\<forall>g. g \<noteq> scan_filename ts l \<longrightarrow> files u1 g = files u g"
    by (elim exE conjE) (rule that; assumption)
  have gf1: "good_feeds u1 vn lns"
    using good_feeds_Cons [OF good_feeds_feeds [OF u1(3,4) Cons.prems(1)]] .
  have dl: "distinct lns" using Cons.prems(2) by simp
  from Cons.IH [OF gf1 dl] obtain u' where s: "sweep ts vn c lns u1 = Normal u'"
    and u': "sim_calls u' = sim_calls u1 + 2 * length lns"
            "clock_reads u' = clock_reads u1 + sweep_reads u1 vn lns (length lns)"
            "lidar_feed u' = lidar_feed u1" "state_feed u' = state_feed u1" "clock u' = clock u1"
    and c': "\<forall>i < length lns. contents u' (scan_filename ts (lns ! i)) =
              (if c then contents u1 (scan_filename ts (lns ! i)) else []) @
              scan_at u1 vn (lns ! i) (sim_calls u1 + 2 * i) (clock_reads u1 + sweep_reads u1 vn lns i)"
    and oth': "\<forall>g. g \<notin> scan_filename ts ` set lns \<longrightarrow> files u' g = files u1 g"
    by (elim exE conjE) (rule that; assumption)
  have sa: "scan_at u1 = scan_at u" using u1(3,4,5) by (rule scan_at_cong)
  have rd: "clock_reads u1 + sweep_reads u1 vn lns i = clock_reads u + sweep_reads u vn (l # lns) (Suc i)" for i
    using sweep_reads_Cons [OF u1(1,3), of vn l lns i] u1(2) by simp
  have notin: "scan_filename ts l \<notin> scan_filename ts ` set lns"
    using Cons.prems(2) by (auto simp: scan_filename_inj)
  have fn_ne: "scan_filename ts (lns ! j) \<noteq> scan_filename ts l" if "j < length lns" for j
    using Cons.prems(2) that by (auto simp: scan_filename_inj)
  have first: "contents u' (scan_filename ts l) =
             (if c then contents u (scan_filename ts l) else []) @
             scan_at u vn l (sim_calls u) (clock_reads u + sweep_reads u vn (l # lns) 0)"
    using oth' notin c1 by (simp add: contents_def sweep_reads_def)
  have later: "contents u' (scan_filename ts (lns ! j)) =
             (if c then contents u (scan_filename ts (lns ! j)) else []) @
             scan_at u vn (lns ! j) (sim_calls u + 2 * Suc j) (clock_reads u + sweep_reads u vn (l # lns) (Suc j))"
    if "j < length lns" for j
    using c' that oth1 fn_ne [OF that] u1(1) by (simp add: contents_def sa rd [symmetric])
  have all: "\<forall>i < length (l # lns). contents u' (scan_filename ts ((l # lns) ! i)) =
              (if c then contents u (scan_filename ts ((l # lns) ! i)) else []) @
              scan_at u vn ((l # lns) ! i) (sim_calls u + 2 * i) (clock_reads u + sweep_reads u vn (l # lns) i)"
  proof (intro allI impI)
    fix i assume "i < length (l # lns)"
    then show "contents u' (scan_filename ts ((l # lns) ! i)) =
              (if c then contents u (scan_filename ts ((l # lns) ! i)) else []) @
              scan_at u vn ((l # lns) ! i) (sim_calls u + 2 * i) (clock_reads u + sweep_reads u vn (l # lns) i)"
      using first later by (cases i) simp_all
  qed
  have reads: "clock_reads u' = clock_reads u + sweep_reads u vn (l # lns) (length (l # lns))"
    using u'(2) rd [of "length lns"] by simp
  show ?case
    using p s u1 u' all oth1 oth' reads by auto
qed

subsection \<open>Many sweeps\<close>

lemma sum_lessThan_add: "(\<Sum>j<a + b. f j) = (\<Sum>j<a. f j) + (\<Sum>j<b. f (a + j :: nat))"
  by (induction b) (simp_all add: add.assoc)

lemma reads_before_first:
  "i \<le> length lns \<Longrightarrow> reads_before w vn lns i = clock_reads w + sweep_reads w vn lns i"
  unfolding reads_before_def sweep_reads_def
  by (rule arg_cong [where f = "\<lambda>x. clock_reads w + x"], rule sum.cong) simp_all

text \<open>The world after one sweep, seen from the start of the run.\<close>

definition after_sweep :: "world \<Rightarrow> world \<Rightarrow> string \<Rightarrow> string list \<Rightarrow> bool" where
  "after_sweep w w1 vn lns \<longleftrightarrow>
     sim_calls w1 = sim_calls w + 2 * length lns \<and>
     clock_reads w1 = clock_reads w + sweep_reads w vn lns (length lns) \<and>
     lidar_feed w1 = lidar_feed w \<and> state_feed w1 = state_feed w \<and> clock w1 = clock w"

lemma reads_before_shift:
  assumes "after_sweep w w1 vn lns"
  shows "reads_before w1 vn lns k = reads_before w vn lns (length lns + k)"
proof -
  have n: "npts w1 = npts w" using assms unfolding after_sweep_def by (intro npts_cong) simp
  have "reads_before w vn lns (length lns + k) =
          reads_before w vn lns (length lns) +
          (\<Sum>j<k. npts w vn (lns ! ((length lns + j) mod length lns)) (sim_calls w + 2 * (length lns + j)))"
    by (simp add: reads_before_def sum_lessThan_add)
  also have "\<dots> = reads_before w1 vn lns k"
    using assms by (simp add: reads_before_first reads_before_def after_sweep_def n algebra_simps sweep_reads_def)
  finally show ?thesis by simp
qed

lemma file_after_Suc:
  assumes "after_sweep w w1 vn lns"
  shows "file_after w vn lns (Suc n) i =
           scan_at w vn (lns ! i) (sim_calls w + 2 * i) (reads_before w vn lns i) @ file_after w1 vn lns n i"
proof -
  have sa: "scan_at w1 = scan_at w" using assms unfolding after_sweep_def by (intro scan_at_cong) simp_all
  show ?thesis
    using assms
    by (simp add: file_after_def map_upt_Suc sa reads_before_shift after_sweep_def algebra_simps
        del: upt_Suc)
qed

lemma run_sweeps_contents:
  assumes "good_feeds w vn lns" "distinct lns"
  shows "\<exists>w'. run_sweeps n ts vn lns c w = Normal w' \<and>
           sim_calls w' = sim_calls w + 2 * (n * length lns) \<and>
           clock_reads w' = reads_before w vn lns (n * length lns) \<and>
           lidar_feed w' = lidar_feed w \<and> state_feed w' = state_feed w \<and> clock w' = clock w \<and>
           (\<forall>i < length lns. contents w' (scan_filename ts (lns ! i)) =
              (if c \<or> n = 0 then contents w (scan_filename ts (lns ! i)) else []) @ file_after w vn lns n i)"
  using assms(1)
proof (induction n arbitrary: c w)
  case 0
  then show ?case by (simp add: reads_before_def file_after_def)
next
  case (Suc n)
  from sweep_contents [OF Suc.prems assms(2), of ts c] obtain w1 where
    sw: "sweep ts vn c lns w = Normal w1"
    and w1: "sim_calls w1 = sim_calls w + 2 * length lns"
            "clock_reads w1 = clock_reads w + sweep_reads w vn lns (length lns)"
            "lidar_feed w1 = lidar_feed w" "state_feed w1 = state_feed w" "clock w1 = clock w"
    and c1: "\<forall>i < length lns. contents w1 (scan_filename ts (lns ! i)) =
              (if c then contents w (scan_filename ts (lns ! i)) else []) @
              scan_at w vn (lns ! i) (sim_calls w + 2 * i) (clock_reads w + sweep_reads w vn lns i)"
    by (elim exE conjE) (rule that; assumption)
  have aw: "after_sweep w w1 vn lns" using w1 by (simp add: after_sweep_def)
  have "good_feeds w1 vn lns" using good_feeds_feeds [OF w1(3,4) Suc.prems] .
  from Suc.IH [OF this, of True] obtain w' where
    rs: "run_sweeps n ts vn lns True w1 = Normal w'"
    and w': "sim_calls w' = sim_calls w1 + 2 * (n * length lns)"
            "clock_reads w' = reads_before w1 vn lns (n * length lns)"
            "lidar_feed w' = lidar_feed w1" "state_feed w' = state_feed w1" "clock w' = clock w1"
    and c': "\<forall>i < length lns. contents w' (scan_filename ts (lns ! i)) =
              contents w1 (scan_filename ts (lns ! i)) @ file_after w1 vn lns n i"
    by (elim exE conjE) (simp add: that)
  have "\<forall>i < length lns. contents w' (scan_filename ts (lns ! i)) =
          (if c then contents w (scan_filename ts (lns ! i)) else []) @ file_after w vn lns (Suc n) i"
    using c' c1 by (simp add: file_after_Suc [OF aw] reads_before_first)
  moreover have "clock_reads w' = reads_before w vn lns (Suc n * length lns)"
    using w'(2) by (simp add: reads_before_shift [OF aw])
  ultimately show ?case
    using sw rs w1 w' by (simp add: algebra_simps)
qed

text \<open>
  C17: with distinct lidar names and well-formed simulator answers, after \<open>n \<ge> 1\<close>
  sweeps the file of the \<open>i\<close>-th lidar holds exactly the records of its \<open>n\<close> scans
  one after the other (\<open>file_after\<close>): the first sweep truncated it, every later
  scan appended its points in order, each scan answering its own simulator requests
  and reading the clock after all earlier scans.
\<close>

theorem run_sweeps_file_contents:
  assumes "good_feeds w vn lns" "distinct lns" "i < length lns" "0 < n"
  shows "\<exists>w'. run_sweeps n ts vn lns False w = Normal w' \<and>
           contents w' (scan_filename ts (lns ! i)) = file_after w vn lns n i"
  using run_sweeps_contents [OF assms(1,2), of n ts False] assms(3,4) by auto

theorem run_sweeps_file_contents_witness:
  "good_feeds (demo_world [3, 4, 0] (mk_quat 1 0 0 0)) ''Drone1'' [''A'', ''B''] \<and>
   distinct [''A'', ''B''] \<and> 1 < length [''A'', ''B''] \<and> 0 < (2::nat) \<and>
   (\<exists>w'. run_sweeps 2 ''t'' ''Drone1'' [''A'', ''B''] False (demo_world [3, 4, 0] (mk_quat 1 0 0 0)) = Normal w' \<and>
      contents w' (scan_filename ''t'' ([''A'', ''B''] ! 1)) =
        file_after (demo_world [3, 4, 0] (mk_quat 1 0 0 0)) ''Drone1'' [''A'', ''B''] 2 1)"
  using run_sweeps_file_contents [OF good_feeds_demo, of "[''A'', ''B'']" 1 2 "''t''"] good_feeds_demo
  by simp
subsection \<open>A name listed twice\<close>

text \<open>
  C16: nothing in the script or the spec excludes a lidar name listed twice, and such
  a lidar loses data: in the first sweep its file is opened in \<^verbatim>\<open>'w'\<close> mode once per
  occurrence, so with well-formed answers the file holds only the records of the
  second scan (requests \<open>2\<close> and \<open>3\<close> of the sweep), and the records of the first scan
  are gone.
\<close>

theorem sweep_duplicate_name_loses_scan:
  assumes "good_feeds w vn [l]"
  shows "\<exists>w'. sweep ts vn False [l, l] w = Normal w' \<and>
           contents w' (scan_filename ts l) =
             scan_at w vn l (sim_calls w + 2) (clock_reads w + npts w vn l (sim_calls w))"
proof -
  have "good_scan (next_lidar w l vn) (next_vehicle_orientation w vn)"
    using assms by (simp add: good_feeds_scan)
  from process_lidar_contents [OF this, of ts False] obtain u1 where p1: "process_lidar ts vn False l w = Normal u1"
    and u1: "sim_calls u1 = Suc (Suc (sim_calls w))" "clock_reads u1 = clock_reads w + npts w vn l (sim_calls w)"
            "lidar_feed u1 = lidar_feed w" "state_feed u1 = state_feed w" "clock u1 = clock w"
    by (elim exE conjE) (rule that; assumption)
  have "good_scan (next_lidar u1 l vn) (next_vehicle_orientation u1 vn)"
    using good_feeds_feeds [OF u1(3,4) assms] by (simp add: good_feeds_scan)
  from process_lidar_contents [OF this, of ts False] obtain u2 where p2: "process_lidar ts vn False l u1 = Normal u2"
    and c2: "contents u2 (scan_filename ts l) = [] @ scan_at u1 vn l (sim_calls u1) (clock_reads u1)"
    by (elim exE conjE) (simp add: that)
  have "scan_at u1 = scan_at w" using u1(3,4,5) by (rule scan_at_cong)
  then show ?thesis using p1 p2 c2 u1(1,2) by simp
qed

theorem sweep_duplicate_name_loses_scan_witness:
  "good_feeds (demo_world [3, 4, 0] (mk_quat 1 0 0 0)) ''Drone1'' [''L''] \<and>
   (\<exists>w'. sweep ''t'' ''Drone1'' False [''L'', ''L''] (demo_world [3, 4, 0] (mk_quat 1 0 0 0)) = Normal w' \<and>
      contents w' (scan_filename ''t'' ''L'') =
        scan_at (demo_world [3, 4, 0] (mk_quat 1 0 0 0)) ''Drone1'' ''L''
          (sim_calls (demo_world [3, 4, 0] (mk_quat 1 0 0 0)) + 2)
          (clock_reads (demo_world [3, 4, 0] (mk_quat 1 0 0 0)) +
             npts (demo_world [3, 4, 0] (mk_quat 1 0 0 0)) ''Drone1'' ''L''
               (sim_calls (demo_world [3, 4, 0] (mk_quat 1 0 0 0)))))"
  using sweep_duplicate_name_loses_scan [OF good_feeds_demo, of "''t''"] good_feeds_demo by blast

end
