(* ===== verification/Interrupted_Scan.thy ===== *)
theory Interrupted_Scan
  imports Interrupt_Semantics
begin

text \<open>
  What a keyboard interrupt during a scan leaves in the scan's file. The spec says the
  interrupt ends the loop with no partial-scan rollback; in the machine of
  \<open>Interrupt_Semantics\<close> the points of a scan are processed one step each (lines
  93--112), the interrupt may arrive before any of them, and the handler of lines
  115--117 only prints. So the file keeps what it held when the scan began followed by
  the records of exactly the points processed before the interrupt, each with its own
  clock reading. \<open>in_scan\<close> is the machine restricted to the steps that stay inside
  one scan.
\<close>

fun same_scan :: "loc \<Rightarrow> loc \<Rightarrow> bool" where
  "same_scan (Points fn rest rm pos lo mo xs) (Points fn' rest' rm' pos' lo' mo' xs') \<longleftrightarrow>
     fn' = fn \<and> rest' = rest \<and> rm' = rm \<and> pos' = pos \<and> lo' = lo \<and> mo' = mo"
| "same_scan _ _ \<longleftrightarrow> False"

definition in_scan :: "string \<Rightarrow> string \<Rightarrow> string list \<Rightarrow> cfg \<Rightarrow> cfg \<Rightarrow> bool" where
  "in_scan ts vn lns c c' \<longleftrightarrow> step ts vn lns c c' \<and> same_scan (loc c) (loc c')"

definition demo_points_cfg :: cfg where
  "demo_points_cfg =
     \<lparr>loc = Points ''f'' [] id3 (mk_vec 0 0 0) (mk_quat 1 0 0 0) (mk_quat 1 0 0 0) [[1, 2, 2]],
      cleared = True, wld = demo_world [] (mk_quat 1 0 0 0)\<rparr>"

inductive_cases step_from_points: "step ts vn lns c c'"

lemma scan_rows_append:
  "scan_rows rm pos a (xs @ ys) clk k = scan_rows rm pos a xs clk k @ scan_rows rm pos a ys clk (k + length xs)"
  by (induction xs arbitrary: k) simp_all

lemma take_Suc_drop: "k < length xs \<Longrightarrow> drop k xs = y # ys \<Longrightarrow> take (Suc k) xs = take k xs @ [y]"
  by (simp add: take_Suc_conv_app_nth hd_drop_conv_nth [symmetric])


lemma in_scan_point:
  assumes st: "step ts vn lns c c'" and sc: "same_scan (loc c) (loc c')"
    and lc: "loc c = Points fn rest rm pos lo mo ys"
  shows "\<exists>xyz xs v r a'. ys = xyz # xs \<and> transform_point rm pos xyz = Inr (v, r) \<and>
           point_angle mo lo = Inr a' \<and>
           c' = c\<lparr>loc := Points fn rest rm pos lo mo xs,
                  wld := py_write fn (row_of v r a' (py_round (fst (time_time (wld c)) * 1000)))
                           (snd (time_time (wld c)))\<rparr>"
  using st sc lc by (auto elim!: step_from_points)

lemma in_scan_prefix:
  assumes "(in_scan ts vn lns)\<^sup>*\<^sup>* c0 c" and l0: "loc c0 = Points fn rest rm pos lo mo xs0"
    and sl: "list_all (\<lambda>xyz. length xyz = 3) xs0" and an: "point_angle mo lo = Inr a"
  shows "\<exists>k \<le> length xs0. loc c = Points fn rest rm pos lo mo (drop k xs0) \<and>
           clock (wld c) = clock (wld c0) \<and> clock_reads (wld c) = clock_reads (wld c0) + k \<and>
           contents (wld c) fn =
             contents (wld c0) fn @ scan_rows rm pos a (take k xs0) (clock (wld c0)) (clock_reads (wld c0))"
  using assms(1)
proof (induction rule: rtranclp_induct)
  case base
  then show ?case using l0 by (intro exI [of _ 0]) simp
next
  case (step c c')
  then obtain k where k: "k \<le> length xs0" and lc: "loc c = Points fn rest rm pos lo mo (drop k xs0)"
    and ck: "clock (wld c) = clock (wld c0)" and rk: "clock_reads (wld c) = clock_reads (wld c0) + k"
    and ct: "contents (wld c) fn =
               contents (wld c0) fn @ scan_rows rm pos a (take k xs0) (clock (wld c0)) (clock_reads (wld c0))"
    by blast
  from in_scan_point [OF _ _ lc] step.hyps(2) obtain xyz xs v r a' where
    d: "drop k xs0 = xyz # xs" and t: "transform_point rm pos xyz = Inr (v, r)" and a': "point_angle mo lo = Inr a'"
    and c': "c' = c\<lparr>loc := Points fn rest rm pos lo mo xs,
                  wld := py_write fn (row_of v r a' (py_round (fst (time_time (wld c)) * 1000)))
                           (snd (time_time (wld c)))\<rparr>"
    unfolding in_scan_def by blast
  have kl: "k < length xs0" using d by (cases "k < length xs0") auto
  have "xyz \<in> set xs0" using d by (metis in_set_dropD list.set_intros(1))
  then have "length xyz = 3" using sl by (simp add: list_all_iff)
  then obtain x y z where xyz: "xyz = [x, y, z]" by (auto simp: numeral_eq_Suc length_Suc_conv)
  have vr: "v = vadd3 (mat_vec rm (x, y, z)) (vec_of pos)" "r = norm3 (mat_vec rm (x, y, z))"
    using t by (simp_all add: xyz transform_point_eval)
  have "a' = a" using a' an by simp
  have tk: "take (Suc k) xs0 = take k xs0 @ [xyz]" using take_Suc_drop [OF kl d] .
  have "drop (Suc k) xs0 = xs" using d by (metis drop_Suc list.sel(3) tl_drop)
  moreover have "contents (wld c') fn =
      contents (wld c0) fn @ scan_rows rm pos a (take (Suc k) xs0) (clock (wld c0)) (clock_reads (wld c0))"
    using ct ck rk by (simp add: c' tk scan_rows_append xyz vr \<open>a' = a\<close> py_write_def time_time_def contents_def
        min_absorb2 [OF less_imp_le [OF kl]])
  ultimately show ?case
    using kl ck rk by (intro exI [of _ "Suc k"]) (simp add: c' py_write_def time_time_def)
qed

lemma step_to_handler: "step ts vn lns c c1 \<Longrightarrow> loc c1 = Handler \<Longrightarrow> wld c1 = wld c"
  by (auto elim!: step_from_points simp: open_scan_def Let_def)

lemma step_from_handler:
  "step ts vn lns c1 c2 \<Longrightarrow> loc c1 = Handler \<Longrightarrow> loc c2 = Finished \<and> files (wld c2) = files (wld c1)"
  by (auto elim!: step_from_points simp: py_print_def wait_key_def)

text \<open>
  C11: no partial-scan rollback. When the keyboard interrupt arrives while a scan's
  points are processed and the handler has run, the scan's file holds what it held when
  the scan began followed by the records of the first \<open>k\<close> points of the scan, for the
  \<open>k\<close> points processed before the interrupt, in order and each with its own clock
  reading.
\<close>

theorem interrupt_keeps_processed_points:
  assumes "loc c0 = Points fn rest rm pos lo mo xs0" "list_all (\<lambda>xyz. length xyz = 3) xs0"
    "point_angle mo lo = Inr a" "(in_scan ts vn lns)\<^sup>*\<^sup>* c0 c"
    "step ts vn lns c c1" "loc c1 = Handler" "step ts vn lns c1 c2"
  shows "loc c2 = Finished \<and>
         (\<exists>k \<le> length xs0. contents (wld c2) fn =
            contents (wld c0) fn @ scan_rows rm pos a (take k xs0) (clock (wld c0)) (clock_reads (wld c0)))"
proof -
  obtain k where "k \<le> length xs0"
    "contents (wld c) fn =
       contents (wld c0) fn @ scan_rows rm pos a (take k xs0) (clock (wld c0)) (clock_reads (wld c0))"
    using in_scan_prefix [OF assms(4,1,2,3)] by blast
  moreover have "wld c1 = wld c" using assms(5,6) by (rule step_to_handler)
  moreover have "loc c2 = Finished" "files (wld c2) = files (wld c1)"
    using step_from_handler [OF assms(7,6)] by simp_all
  ultimately show ?thesis by (auto simp: contents_def)
qed

theorem interrupt_keeps_processed_points_witness:
  "loc demo_points_cfg = Points ''f'' [] id3 (mk_vec 0 0 0) (mk_quat 1 0 0 0) (mk_quat 1 0 0 0) [[1, 2, 2]] \<and>
   list_all (\<lambda>xyz. length xyz = 3) [[1, 2, 2 :: real]] \<and>
   point_angle (mk_quat 1 0 0 0) (mk_quat 1 0 0 0)
     = Inr (arccos (2 * (code_inner (mk_quat 1 0 0 0) (mk_quat 1 0 0 0))\<^sup>2 - 1)) \<and>
   (in_scan ''t'' ''Drone1'' [''f''])\<^sup>*\<^sup>* demo_points_cfg demo_points_cfg \<and>
   step ''t'' ''Drone1'' [''f''] demo_points_cfg (demo_points_cfg\<lparr>loc := Handler\<rparr>) \<and>
   loc (demo_points_cfg\<lparr>loc := Handler\<rparr>) = Handler \<and>
   step ''t'' ''Drone1'' [''f''] (demo_points_cfg\<lparr>loc := Handler\<rparr>)
     (demo_points_cfg\<lparr>loc := Finished,
        wld := py_print (''Done!'' @ newline)
                 (wait_key ''Press any key to stop running this script'' (wld demo_points_cfg))\<rparr>) \<and>
   loc (demo_points_cfg\<lparr>loc := Finished,
        wld := py_print (''Done!'' @ newline)
                 (wait_key ''Press any key to stop running this script'' (wld demo_points_cfg))\<rparr>) = Finished \<and>
   (\<exists>k \<le> length [[1, 2, 2 :: real]].
      contents (wld (demo_points_cfg\<lparr>loc := Finished,
        wld := py_print (''Done!'' @ newline)
                 (wait_key ''Press any key to stop running this script'' (wld demo_points_cfg))\<rparr>)) ''f'' =
      contents (wld demo_points_cfg) ''f'' @
        scan_rows id3 (mk_vec 0 0 0) (arccos (2 * (code_inner (mk_quat 1 0 0 0) (mk_quat 1 0 0 0))\<^sup>2 - 1))
          (take k [[1, 2, 2]]) (clock (wld demo_points_cfg)) (clock_reads (wld demo_points_cfg)))"
proof -
  have l0: "loc demo_points_cfg = Points ''f'' [] id3 (mk_vec 0 0 0) (mk_quat 1 0 0 0) (mk_quat 1 0 0 0) [[1, 2, 2]]"
    by (simp add: demo_points_cfg_def)
  have an: "point_angle (mk_quat 1 0 0 0) (mk_quat 1 0 0 0)
     = Inr (arccos (2 * (code_inner (mk_quat 1 0 0 0) (mk_quat 1 0 0 0))\<^sup>2 - 1))"
    by (rule point_angle_nonzero) (simp_all add: quat_norm2_def)
  have s1: "step ''t'' ''Drone1'' [''f''] demo_points_cfg (demo_points_cfg\<lparr>loc := Handler\<rparr>)"
    by (rule step.interrupt) (simp add: l0)
  have s2: "step ''t'' ''Drone1'' [''f''] (demo_points_cfg\<lparr>loc := Handler\<rparr>)
     (demo_points_cfg\<lparr>loc := Finished,
        wld := py_print (''Done!'' @ newline)
                 (wait_key ''Press any key to stop running this script'' (wld demo_points_cfg))\<rparr>)"
    using step.handler [of "demo_points_cfg\<lparr>loc := Handler\<rparr>" "''t''" "''Drone1''" "[''f'']"] by simp
  have sl: "list_all (\<lambda>xyz. length xyz = 3) [[1, 2, 2 :: real]]" by simp
  show ?thesis
    using interrupt_keeps_processed_points [OF l0 sl an rtranclp.rtrancl_refl s1 _ s2] l0 sl an s1 s2
    by simp
qed
end
