(* ===== verification/Run_Files.thy ===== *)
theory Run_Files
  imports Sweep_Contents Interrupted_Scan
begin

text \<open>
  The files of a run of the interruptible machine of \<open>Interrupt_Semantics\<close>, wherever
  the keyboard interrupt falls. \<open>run_inv\<close> places every reachable configuration in
  the big-step run of \<open>Execute_Loop\<close>: at the top of \<^verbatim>\<open>while True\<close> after
  \<open>n\<close> sweeps, in the \<^verbatim>\<open>for\<close> loop after \<open>n\<close> sweeps and the first \<open>j\<close> lidars
  of the next, or inside the scan of lidar \<open>j\<close> after some of its points (lines
  73--113 of \<^verbatim>\<open>sensorframe_lidar_pointcloud.py\<close>); every step keeps it. With the
  closed form of \<open>Sweep_Contents\<close> and the partial scans of \<open>Interrupted_Scan\<close>, each
  lidar's file in such a configuration is either untouched or lies between the records
  of its completed scans and those of its next scan (\<open>file_between\<close>). The handler
  and an uncaught exception only change the console, so the same holds of the
  configurations where the program has stopped.
\<close>

definition run_inv :: "string \<Rightarrow> string \<Rightarrow> string list \<Rightarrow> world \<Rightarrow> cfg \<Rightarrow> bool" where
  "run_inv ts vn lns w0 c \<longleftrightarrow>
     (case loc c of
        LoopHead \<Rightarrow> \<exists>n. run_sweeps n ts vn lns False w0 = Normal (wld c) \<and> cleared c = (0 < n)
      | NextLidar ls \<Rightarrow> \<exists>n u j. run_sweeps n ts vn lns False w0 = Normal u \<and> cleared c = (0 < n) \<and>
          j \<le> length lns \<and> ls = drop j lns \<and> sweep ts vn (0 < n) (take j lns) u = Normal (wld c)
      | Points fn rest rm pos lo mo xs \<Rightarrow> \<exists>n u j u1. run_sweeps n ts vn lns False w0 = Normal u \<and>
          cleared c = (0 < n) \<and> j < length lns \<and> rest = drop (Suc j) lns \<and>
          sweep ts vn (0 < n) (take j lns) u = Normal u1 \<and>
          (in_scan ts vn lns)\<^sup>*\<^sup>*
             (open_scan ts vn (lns ! j) rest \<lparr>loc = NextLidar (drop j lns), cleared = (0 < n), wld = u1\<rparr>) c
      | _ \<Rightarrow> True)"

lemma run_sweeps_snoc:
  "run_sweeps n ts vn lns cl w = Normal u \<Longrightarrow> sweep ts vn (cl \<or> 0 < n) lns u = Normal u' \<Longrightarrow>
   run_sweeps (Suc n) ts vn lns cl w = Normal u'"
proof (induction n arbitrary: cl w)
  case (Suc n)
  then obtain w1 where "sweep ts vn cl lns w = Normal w1" "run_sweeps n ts vn lns True w1 = Normal u"
    by (auto split: exec_result.splits)
  with Suc.IH [of True w1] Suc.prems(2) show ?case by simp
qed simp

lemma sweep_append:
  "sweep ts vn cl (xs @ ys) w = (case sweep ts vn cl xs w of Normal w1 \<Rightarrow> sweep ts vn cl ys w1 | Raised e w1 \<Rightarrow> Raised e w1)"
  by (induction xs arbitrary: w) (auto split: exec_result.splits)

lemma in_scan_points_loop:
  assumes "(in_scan ts vn lns)\<^sup>*\<^sup>* c1 c" "loc c1 = Points fn rest rm pos lo mo xs0"
  shows "\<exists>p \<le> length xs0. loc c = Points fn rest rm pos lo mo (drop p xs0) \<and> cleared c = cleared c1 \<and>
           points_loop fn rm pos lo mo (take p xs0) (wld c1) = Normal (wld c)"
  using assms(1)
proof (induction rule: rtranclp_induct)
  case base
  then show ?case using assms(2) by (intro exI [of _ 0]) simp
next
  case (step c c')
  then obtain p where p: "p \<le> length xs0" and lc: "loc c = Points fn rest rm pos lo mo (drop p xs0)"
    and cc: "cleared c = cleared c1" and pl: "points_loop fn rm pos lo mo (take p xs0) (wld c1) = Normal (wld c)"
    by blast
  from in_scan_point [OF _ _ lc] step.hyps(2) obtain xyz xs v r a' where
    d: "drop p xs0 = xyz # xs" and t: "transform_point rm pos xyz = Inr (v, r)" and a': "point_angle mo lo = Inr a'"
    and c': "c' = c\<lparr>loc := Points fn rest rm pos lo mo xs,
                  wld := py_write fn (row_of v r a' (py_round (fst (time_time (wld c)) * 1000)))
                           (snd (time_time (wld c)))\<rparr>"
    unfolding in_scan_def by blast
  have kl: "p < length xs0" using d by (cases "p < length xs0") auto
  have tk: "take (Suc p) xs0 = take p xs0 @ [xyz]" using take_Suc_drop [OF kl d] .
  have "drop (Suc p) xs0 = xs" using d by (metis drop_Suc list.sel(3) tl_drop)
  moreover have "points_loop fn rm pos lo mo (take (Suc p) xs0) (wld c1) = Normal (wld c')"
    using pl by (simp add: tk points_loop_append c' t a' time_time_def)
  ultimately show ?case
    using kl cc by (intro exI [of _ "Suc p"]) (simp add: c')
qed

lemma in_scan_process_lidar:
  assumes "(in_scan ts vn lns)\<^sup>*\<^sup>* (open_scan ts vn l rest c0) c" "loc c = Points fn rest' rm pos lo mo []"
  shows "process_lidar ts vn (cleared c0) l (wld c0) = Normal (py_close (wld c))"
proof -
  let ?ld = "next_lidar (wld c0) l vn"
  let ?xs = "point_slices (point_cloud ?ld)"
  have l1: "loc (open_scan ts vn l rest c0) =
      Points (scan_filename ts l) rest (rotation_matrix (orientation (pose ?ld))) (position (pose ?ld))
        (orientation (pose ?ld)) (next_vehicle_orientation (wld c0) vn) ?xs"
    by (simp add: open_scan_def Let_def)
  obtain p where "loc c = Points (scan_filename ts l) rest (rotation_matrix (orientation (pose ?ld)))
        (position (pose ?ld)) (orientation (pose ?ld)) (next_vehicle_orientation (wld c0) vn) (drop p ?xs)"
    and pl: "points_loop (scan_filename ts l) (rotation_matrix (orientation (pose ?ld))) (position (pose ?ld))
        (orientation (pose ?ld)) (next_vehicle_orientation (wld c0) vn) (take p ?xs)
        (wld (open_scan ts vn l rest c0)) = Normal (wld c)"
    using in_scan_points_loop [OF assms(1) l1] by blast
  then have "take p ?xs = ?xs" using assms(2) by simp
  with pl show ?thesis by (simp add: process_lidar_unfold open_scan_def Let_def)
qed

lemma run_inv_LoopHeadI:
  "run_sweeps n ts vn lns False w0 = Normal (wld c) \<Longrightarrow> cleared c = (0 < n) \<Longrightarrow> loc c = LoopHead \<Longrightarrow>
   run_inv ts vn lns w0 c"
  unfolding run_inv_def by auto

lemma run_inv_NextLidarI:
  "run_sweeps n ts vn lns False w0 = Normal u \<Longrightarrow> cleared c = (0 < n) \<Longrightarrow> j \<le> length lns \<Longrightarrow>
   loc c = NextLidar (drop j lns) \<Longrightarrow> sweep ts vn (0 < n) (take j lns) u = Normal (wld c) \<Longrightarrow>
   run_inv ts vn lns w0 c"
  unfolding run_inv_def by auto

lemma run_inv_PointsI:
  "run_sweeps n ts vn lns False w0 = Normal u \<Longrightarrow> cleared c = (0 < n) \<Longrightarrow> j < length lns \<Longrightarrow>
   loc c = Points fn (drop (Suc j) lns) rm pos lo mo xs \<Longrightarrow> sweep ts vn (0 < n) (take j lns) u = Normal u1 \<Longrightarrow>
   (in_scan ts vn lns)\<^sup>*\<^sup>*
     (open_scan ts vn (lns ! j) (drop (Suc j) lns) \<lparr>loc = NextLidar (drop j lns), cleared = (0 < n), wld = u1\<rparr>) c \<Longrightarrow>
   run_inv ts vn lns w0 c"
  unfolding run_inv_def by auto

lemma run_inv_LoopHeadE:
  "run_inv ts vn lns w0 c \<Longrightarrow> loc c = LoopHead \<Longrightarrow>
   \<exists>n. run_sweeps n ts vn lns False w0 = Normal (wld c) \<and> cleared c = (0 < n)"
  unfolding run_inv_def by auto

lemma run_inv_NextLidarE:
  "run_inv ts vn lns w0 c \<Longrightarrow> loc c = NextLidar ls \<Longrightarrow>
   \<exists>n u j. run_sweeps n ts vn lns False w0 = Normal u \<and> cleared c = (0 < n) \<and>
     j \<le> length lns \<and> ls = drop j lns \<and> sweep ts vn (0 < n) (take j lns) u = Normal (wld c)"
  unfolding run_inv_def by auto

lemma run_inv_PointsE:
  "run_inv ts vn lns w0 c \<Longrightarrow> loc c = Points fn rest rm pos lo mo xs \<Longrightarrow>
   \<exists>n u j u1. run_sweeps n ts vn lns False w0 = Normal u \<and>
     cleared c = (0 < n) \<and> j < length lns \<and> rest = drop (Suc j) lns \<and>
     sweep ts vn (0 < n) (take j lns) u = Normal u1 \<and>
     (in_scan ts vn lns)\<^sup>*\<^sup>*
        (open_scan ts vn (lns ! j) rest \<lparr>loc = NextLidar (drop j lns), cleared = (0 < n), wld = u1\<rparr>) c"
  unfolding run_inv_def by auto

lemma step_run_inv: "step ts vn lns c c' \<Longrightarrow> run_inv ts vn lns w0 c \<Longrightarrow> run_inv ts vn lns w0 c'"
proof (induction rule: step.induct)
  case (loop_head c)
  then obtain n where "run_sweeps n ts vn lns False w0 = Normal (wld c)" "cleared c = (0 < n)"
    using run_inv_LoopHeadE by blast
  then show ?case by (intro run_inv_NextLidarI [where j = 0]) simp_all
next
  case (sweep_done c)
  then obtain n u j where r: "run_sweeps n ts vn lns False w0 = Normal u" and cl: "cleared c = (0 < n)"
    and j: "j \<le> length lns" "[] = drop j lns" and s: "sweep ts vn (0 < n) (take j lns) u = Normal (wld c)"
    using run_inv_NextLidarE by blast
  have "take j lns = lns" using j by simp
  then have "run_sweeps (Suc n) ts vn lns False w0 = Normal (wld c)"
    using run_sweeps_snoc [OF r] s by simp
  then show ?case by (intro run_inv_LoopHeadI [where n = "Suc n"]) simp_all
next
  case (scan_open c lname rest)
  then obtain n u j where r: "run_sweeps n ts vn lns False w0 = Normal u" and cl: "cleared c = (0 < n)"
    and j: "j \<le> length lns" "lname # rest = drop j lns" and s: "sweep ts vn (0 < n) (take j lns) u = Normal (wld c)"
    using run_inv_NextLidarE by blast
  have jl: "j < length lns" using j by (cases "j < length lns") auto
  have ln: "lns ! j = lname" and rs: "rest = drop (Suc j) lns"
    using j(2) jl by (simp_all add: Cons_nth_drop_Suc [symmetric])
  have c: "\<lparr>loc = NextLidar (drop j lns), cleared = (0 < n), wld = wld c\<rparr> = c"
    using scan_open.hyps j(2) cl by simp
  show ?case
    by (rule run_inv_PointsI [OF r _ jl _ s]) (simp_all add: c ln rs [symmetric] cl open_scan_def Let_def)
next
  case (point_ok c fn rest rm pos lo mo xyz xs v r a)
  then obtain n u j u1 where r: "run_sweeps n ts vn lns False w0 = Normal u" and cl: "cleared c = (0 < n)"
    and j: "j < length lns" "rest = drop (Suc j) lns" and s: "sweep ts vn (0 < n) (take j lns) u = Normal u1"
    and sc: "(in_scan ts vn lns)\<^sup>*\<^sup>*
        (open_scan ts vn (lns ! j) rest \<lparr>loc = NextLidar (drop j lns), cleared = (0 < n), wld = u1\<rparr>) c"
    using run_inv_PointsE by blast
  have "in_scan ts vn lns c (c\<lparr>loc := Points fn rest rm pos lo mo xs,
          wld := py_write fn (row_of v r a (py_round (fst (time_time (wld c)) * 1000))) (snd (time_time (wld c)))\<rparr>)"
    unfolding in_scan_def using step.point_ok [OF point_ok.hyps] point_ok.hyps(1) by simp
  with sc have "(in_scan ts vn lns)\<^sup>*\<^sup>*
        (open_scan ts vn (lns ! j) rest \<lparr>loc = NextLidar (drop j lns), cleared = (0 < n), wld = u1\<rparr>)
        (c\<lparr>loc := Points fn rest rm pos lo mo xs,
          wld := py_write fn (row_of v r a (py_round (fst (time_time (wld c)) * 1000))) (snd (time_time (wld c)))\<rparr>)"
    by (rule rtranclp.rtrancl_into_rtrancl)
  then show ?case using j by (intro run_inv_PointsI [OF r _ j(1) _ s]) (simp_all add: cl)
next
  case (scan_close c fn rest rm pos lo mo)
  then obtain n u j u1 where r: "run_sweeps n ts vn lns False w0 = Normal u" and cl: "cleared c = (0 < n)"
    and j: "j < length lns" "rest = drop (Suc j) lns" and s: "sweep ts vn (0 < n) (take j lns) u = Normal u1"
    and sc: "(in_scan ts vn lns)\<^sup>*\<^sup>*
        (open_scan ts vn (lns ! j) rest \<lparr>loc = NextLidar (drop j lns), cleared = (0 < n), wld = u1\<rparr>) c"
    using run_inv_PointsE by blast
  have "process_lidar ts vn (0 < n) (lns ! j) u1 = Normal (py_close (wld c))"
    using in_scan_process_lidar [OF sc scan_close.hyps] by simp
  then have "sweep ts vn (0 < n) (take (Suc j) lns) u = Normal (py_close (wld c))"
    using s j(1) by (simp add: take_Suc_conv_app_nth sweep_append)
  then show ?case using j by (intro run_inv_NextLidarI [OF r _ _ _]) (simp_all add: cl)
qed (simp_all add: run_inv_def)

lemma steps_run_inv: "(step ts vn lns)\<^sup>*\<^sup>* c c' \<Longrightarrow> run_inv ts vn lns w0 c \<Longrightarrow> run_inv ts vn lns w0 c'"
  by (induction rule: rtranclp_induct) (auto intro: step_run_inv)

lemma run_inv_start: "run_inv ts vn lns (wld (exec_start w)) (exec_start w)"
  by (rule run_inv_LoopHeadI [where n = 0]) (simp_all add: exec_start_def)

subsection \<open>The files at a point of the run\<close>

lemma reads_before_mid:
  assumes "lidar_feed u = lidar_feed w" "sim_calls u = sim_calls w + 2 * (n * length lns)" "i \<le> length lns"
  shows "reads_before w vn lns (n * length lns + i) = reads_before w vn lns (n * length lns) + sweep_reads u vn lns i"
proof -
  have np: "npts u = npts w" using assms(1) by (rule npts_cong)
  have "(\<Sum>j<i. npts w vn (lns ! ((n * length lns + j) mod length lns)) (sim_calls w + 2 * (n * length lns + j)))
        = sweep_reads u vn lns i"
    unfolding sweep_reads_def np assms(2)
    by (rule sum.cong) (use assms(3) in \<open>simp_all add: algebra_simps\<close>)
  then show ?thesis by (simp add: reads_before_def sum_lessThan_add)
qed

lemma sweep_reads_take: "i \<le> j \<Longrightarrow> sweep_reads u vn (take j lns) i = sweep_reads u vn lns i"
  unfolding sweep_reads_def by (rule sum.cong) simp_all

lemma file_after_snoc:
  "file_after w vn lns (Suc n) i =
     file_after w vn lns n i @
     scan_at w vn (lns ! i) (sim_calls w + 2 * (n * length lns + i)) (reads_before w vn lns (n * length lns + i))"
  by (simp add: file_after_def)

lemma scan_rows_take: "scan_rows rm pos a (take k xs) clk r = take k (scan_rows rm pos a xs clk r)"
  by (induction xs arbitrary: k r) (simp_all add: take_Cons split: nat.split)

lemma good_feeds_mono: "good_feeds w vn lns \<Longrightarrow> set lns' \<subseteq> set lns \<Longrightarrow> good_feeds w vn lns'"
  by (auto simp: good_feeds_def)

lemma distinct_nth_notin_take: "distinct xs \<Longrightarrow> j \<le> i \<Longrightarrow> i < length xs \<Longrightarrow> xs ! i \<notin> set (take j xs)"
  by (auto simp: in_set_conv_nth nth_eq_iff_index_eq)

lemma partial_sweep_contents:
  assumes gf: "good_feeds w0 vn lns" and dl: "distinct lns"
    and r: "run_sweeps n ts vn lns False w0 = Normal u" and j: "j \<le> length lns"
    and s: "sweep ts vn (0 < n) (take j lns) u = Normal u1"
  shows "sim_calls u1 = sim_calls w0 + 2 * (n * length lns + j) \<and>
         clock_reads u1 = reads_before w0 vn lns (n * length lns + j) \<and>
         lidar_feed u1 = lidar_feed w0 \<and> state_feed u1 = state_feed w0 \<and> clock u1 = clock w0 \<and>
         (\<forall>i < length lns. contents u1 (scan_filename ts (lns ! i)) =
            (if i < j then file_after w0 vn lns (Suc n) i
             else if n = 0 then contents w0 (scan_filename ts (lns ! i)) else file_after w0 vn lns n i))"
proof -
  from run_sweeps_contents [OF gf dl, of n ts False] r
  have u: "sim_calls u = sim_calls w0 + 2 * (n * length lns)"
          "clock_reads u = reads_before w0 vn lns (n * length lns)"
          "lidar_feed u = lidar_feed w0" "state_feed u = state_feed w0" "clock u = clock w0"
    and cu: "\<forall>i < length lns. contents u (scan_filename ts (lns ! i)) =
              (if n = 0 then contents w0 (scan_filename ts (lns ! i)) else []) @ file_after w0 vn lns n i"
    by auto
  have gfu: "good_feeds u vn (take j lns)"
    using good_feeds_mono [OF good_feeds_feeds [OF u(3,4) gf] set_take_subset] .
  have lt: "length (take j lns) = j" using j by simp
  from sweep_contents [OF gfu distinct_take [OF dl], of ts "0 < n"] s
  have u1: "sim_calls u1 = sim_calls u + 2 * j"
           "clock_reads u1 = clock_reads u + sweep_reads u vn (take j lns) j"
           "lidar_feed u1 = lidar_feed u" "state_feed u1 = state_feed u" "clock u1 = clock u"
    and c1: "\<forall>i < j. contents u1 (scan_filename ts (take j lns ! i)) =
              (if 0 < n then contents u (scan_filename ts (take j lns ! i)) else []) @
              scan_at u vn (take j lns ! i) (sim_calls u + 2 * i)
                (clock_reads u + sweep_reads u vn (take j lns) i)"
    and o1: "\<forall>g. g \<notin> scan_filename ts ` set (take j lns) \<longrightarrow> files u1 g = files u g"
    using lt by auto
  have sa: "scan_at u = scan_at w0" using u(3,4,5) by (rule scan_at_cong)
  have rb: "clock_reads u + sweep_reads u vn (take j lns) i = reads_before w0 vn lns (n * length lns + i)"
    if "i \<le> j" for i
    using reads_before_mid [OF u(3,1), of i vn] that j u(2) by (simp add: sweep_reads_take)
  have "contents u1 (scan_filename ts (lns ! i)) =
          (if i < j then file_after w0 vn lns (Suc n) i
           else if n = 0 then contents w0 (scan_filename ts (lns ! i)) else file_after w0 vn lns n i)"
    if i: "i < length lns" for i
  proof (cases "i < j")
    case True
    then show ?thesis
      using c1 cu i rb [of i] u(1) by (simp add: file_after_snoc sa algebra_simps file_after_def)
  next
    case False
    then have "scan_filename ts (lns ! i) \<notin> scan_filename ts ` set (take j lns)"
      using distinct_nth_notin_take [OF dl _ i] by (auto simp: scan_filename_inj)
    then show ?thesis using o1 cu i False by (simp add: contents_def file_after_def)
  qed
  then show ?thesis using u u1 rb [of j] by simp
qed

lemma points_loop_other:
  "g \<noteq> fn \<Longrightarrow> files (result_state (points_loop fn rm pos lo mo xs w)) g = files w g"
  by (induction xs arbitrary: w) (auto simp: time_time_def py_write_def split: sum.split prod.split)

lemma in_scan_other:
  assumes "(in_scan ts vn lns)\<^sup>*\<^sup>* c1 c" "loc c1 = Points fn rest rm pos lo mo xs0" "g \<noteq> fn"
  shows "files (wld c) g = files (wld c1) g"
proof -
  obtain p where "points_loop fn rm pos lo mo (take p xs0) (wld c1) = Normal (wld c)"
    using in_scan_points_loop [OF assms(1,2)] by blast
  then show ?thesis using points_loop_other [OF assms(3), of rm pos lo mo "take p xs0" "wld c1"] by simp
qed

definition file_between :: "world \<Rightarrow> string \<Rightarrow> string list \<Rightarrow> nat \<Rightarrow> out_row list \<Rightarrow> out_row list \<Rightarrow> bool" where
  "file_between w0 vn lns i init xs \<longleftrightarrow>
     xs = init \<or> (\<exists>n. prefix (file_after w0 vn lns n i) xs \<and> prefix xs (file_after w0 vn lns (Suc n) i))"

lemma file_between_scan:
  "prefix ys (scan_at w0 vn (lns ! i) (sim_calls w0 + 2 * (n * length lns + i)) (reads_before w0 vn lns (n * length lns + i))) \<Longrightarrow>
   file_between w0 vn lns i init (file_after w0 vn lns n i @ ys)"
  unfolding file_between_def file_after_snoc by (intro disjI2 exI [of _ n]) simp

lemma file_between_partial:
  "file_between w0 vn lns i init
     (if i < j then file_after w0 vn lns (Suc n) i else if n = 0 then init else file_after w0 vn lns n i)"
proof -
  have "file_between w0 vn lns i init (file_after w0 vn lns k i)" for k
    using file_between_scan [of "[]" w0 vn lns i k init] by simp
  then show ?thesis by (simp add: file_between_def)
qed

lemma points_files:
  assumes gf: "good_feeds w0 vn lns" and dl: "distinct lns" and i: "i < length lns"
    and inv: "run_inv ts vn lns w0 c" and lc: "loc c = Points fn rest rm pos lo mo xs"
  shows "file_between w0 vn lns i (contents w0 (scan_filename ts (lns ! i))) (contents (wld c) (scan_filename ts (lns ! i)))"
proof -
  obtain n u j u1 where r: "run_sweeps n ts vn lns False w0 = Normal u"
    and j: "j < length lns" "rest = drop (Suc j) lns" and s: "sweep ts vn (0 < n) (take j lns) u = Normal u1"
    and sc: "(in_scan ts vn lns)\<^sup>*\<^sup>*
        (open_scan ts vn (lns ! j) rest \<lparr>loc = NextLidar (drop j lns), cleared = (0 < n), wld = u1\<rparr>) c"
    using run_inv_PointsE [OF inv lc] by blast
  let ?c1 = "open_scan ts vn (lns ! j) rest \<lparr>loc = NextLidar (drop j lns), cleared = (0 < n), wld = u1\<rparr>"
  let ?ld = "next_lidar u1 (lns ! j) vn" and ?mo = "next_vehicle_orientation u1 vn"
  let ?fj = "scan_filename ts (lns ! j)"
  have ps: "sim_calls u1 = sim_calls w0 + 2 * (n * length lns + j)"
           "clock_reads u1 = reads_before w0 vn lns (n * length lns + j)"
           "lidar_feed u1 = lidar_feed w0" "state_feed u1 = state_feed w0" "clock u1 = clock w0"
    and pc: "\<forall>i < length lns. contents u1 (scan_filename ts (lns ! i)) =
            (if i < j then file_after w0 vn lns (Suc n) i
             else if n = 0 then contents w0 (scan_filename ts (lns ! i)) else file_after w0 vn lns n i)"
    using partial_sweep_contents [OF gf dl r _ s] j(1) by simp_all
  have l1: "loc ?c1 = Points ?fj rest (rotation_matrix (orientation (pose ?ld))) (position (pose ?ld))
             (orientation (pose ?ld)) ?mo (point_slices (point_cloud ?ld))"
    by (simp add: open_scan_def Let_def)
  have w1: "wld ?c1 = scan_start ?fj (0 < n) u1" by (simp add: open_scan_def Let_def)
  show ?thesis
  proof (cases "i = j")
    case True
    have g: "good_scan ?ld ?mo"
      using good_feeds_scan [OF good_feeds_feeds [OF ps(3,4) gf]] j(1) by simp
    have an: "point_angle ?mo (orientation (pose ?ld))
                = Inr (arccos (2 * (code_inner ?mo (orientation (pose ?ld)))\<^sup>2 - 1))"
      using point_angle_nonzero g by (simp add: good_scan_def)
    have sl: "list_all (\<lambda>xyz. length xyz = 3) (point_slices (point_cloud ?ld))"
      using g by (simp add: good_scan_def point_slices_chunks list_all_chunks3)
    obtain k where ck: "contents (wld c) ?fj = contents (wld ?c1) ?fj @
        scan_rows (rotation_matrix (orientation (pose ?ld))) (position (pose ?ld))
          (arccos (2 * (code_inner ?mo (orientation (pose ?ld)))\<^sup>2 - 1))
          (take k (point_slices (point_cloud ?ld))) (clock (wld ?c1)) (clock_reads (wld ?c1))"
      using in_scan_prefix [OF sc l1 sl an] by blast
    have c1: "contents (wld ?c1) ?fj = file_after w0 vn lns n j"
      using pc j(1) by (simp add: w1 file_after_def)
    have sr: "scan_rows (rotation_matrix (orientation (pose ?ld))) (position (pose ?ld))
          (arccos (2 * (code_inner ?mo (orientation (pose ?ld)))\<^sup>2 - 1))
          (point_slices (point_cloud ?ld)) (clock u1) (clock_reads u1)
        = scan_at w0 vn (lns ! j) (sim_calls w0 + 2 * (n * length lns + j)) (reads_before w0 vn lns (n * length lns + j))"
      using ps by (simp add: scan_at_def next_lidar_def next_vehicle_orientation_def Let_def)
    have "contents (wld c) ?fj = file_after w0 vn lns n j @
        take k (scan_at w0 vn (lns ! j) (sim_calls w0 + 2 * (n * length lns + j))
          (reads_before w0 vn lns (n * length lns + j)))"
      by (simp only: ck c1 sr [symmetric] scan_rows_take) (simp add: w1)
    then show ?thesis
      unfolding True by (simp only:) (rule file_between_scan, rule take_is_prefix)
  next
    case False
    then have "scan_filename ts (lns ! i) \<noteq> ?fj"
      using dl i j(1) by (simp add: scan_filename_inj nth_eq_iff_index_eq)
    then have "files (wld c) (scan_filename ts (lns ! i)) = files u1 (scan_filename ts (lns ! i))"
      using in_scan_other [OF sc l1] by (simp add: w1)
    then have "contents (wld c) (scan_filename ts (lns ! i)) = contents u1 (scan_filename ts (lns ! i))"
      by (simp add: contents_def)
    then show ?thesis using pc i by (simp only:) (simp only: file_between_partial)
  qed
qed

lemma running_files:
  assumes gf: "good_feeds w0 vn lns" and dl: "distinct lns" and i: "i < length lns"
    and inv: "run_inv ts vn lns w0 c" and rn: "running (loc c)"
  shows "file_between w0 vn lns i (contents w0 (scan_filename ts (lns ! i))) (contents (wld c) (scan_filename ts (lns ! i)))"
proof (cases "loc c")
  case LoopHead
  then obtain n where r: "run_sweeps n ts vn lns False w0 = Normal (wld c)"
    using run_inv_LoopHeadE [OF inv] by blast
  have "contents (wld c) (scan_filename ts (lns ! i)) =
          (if i < 0 then file_after w0 vn lns (Suc n) i
           else if n = 0 then contents w0 (scan_filename ts (lns ! i)) else file_after w0 vn lns n i)"
    using partial_sweep_contents [OF gf dl r, of 0 "wld c"] i by simp
  then show ?thesis by (simp only:) (rule file_between_partial)
next
  case (NextLidar ls)
  then obtain n u j where r: "run_sweeps n ts vn lns False w0 = Normal u"
    and j: "j \<le> length lns" and s: "sweep ts vn (0 < n) (take j lns) u = Normal (wld c)"
    using run_inv_NextLidarE [OF inv] by blast
  have "contents (wld c) (scan_filename ts (lns ! i)) =
          (if i < j then file_after w0 vn lns (Suc n) i
           else if n = 0 then contents w0 (scan_filename ts (lns ! i)) else file_after w0 vn lns n i)"
    using partial_sweep_contents [OF gf dl r j s] i by simp
  then show ?thesis by (simp only:) (rule file_between_partial)
next
  case (Points fn rest rm pos lo mo xs)
  then show ?thesis using points_files [OF gf dl i inv] by blast
qed (use rn in simp_all)

lemma step_halted_files: "step ts vn lns c c' \<Longrightarrow> \<not> running (loc c') \<Longrightarrow> files (wld c') = files (wld c)"
  by (induction rule: step.induct) (auto simp: open_scan_def Let_def py_print_def wait_key_def)

lemma reach_running:
  "(step ts vn lns)\<^sup>*\<^sup>* s c \<Longrightarrow> running (loc s) \<Longrightarrow>
   \<exists>c0. (step ts vn lns)\<^sup>*\<^sup>* s c0 \<and> running (loc c0) \<and> files (wld c) = files (wld c0)"
proof (induction rule: rtranclp_induct)
  case (step c c')
  show ?case
  proof (cases "running (loc c')")
    case True
    have "(step ts vn lns)\<^sup>*\<^sup>* s c'" using step.hyps by (rule rtranclp.rtrancl_into_rtrancl)
    with True show ?thesis by blast
  next
    case False
    obtain c0 where "(step ts vn lns)\<^sup>*\<^sup>* s c0" "running (loc c0)" "files (wld c) = files (wld c0)"
      using step.IH step.prems by blast
    then show ?thesis using step_halted_files [OF step.hyps(2) False] by metis
  qed
next
  case base
  then show ?case by blast
qed

lemma exec_start_feeds:
  "lidar_feed (wld (exec_start w)) = lidar_feed w \<and> state_feed (wld (exec_start w)) = state_feed w \<and>
   files (wld (exec_start w)) = files w"
  by (simp add: exec_start_def time_time_def py_print_def)

text \<open>
  C14: no rollback and nothing lost, wherever the keyboard interrupt falls. With
  distinct lidar names and well-formed simulator answers, in every configuration the
  program reaches from the start of \<^verbatim>\<open>execute\<close> (in the middle of a scan, between
  lidars, between sweeps, in the handler or after it), the file of each lidar either
  still holds what it held before the run (its first scan has not begun) or holds all
  the records of its completed scans and a prefix of the records of its next one, in
  loop order (\<open>file_after\<close>).
\<close>

theorem reachable_files_between:
  assumes "good_feeds w vn lns" "distinct lns" "(step ts vn lns)\<^sup>*\<^sup>* (exec_start w) c" "i < length lns"
  shows "contents (wld c) (scan_filename ts (lns ! i)) = contents w (scan_filename ts (lns ! i)) \<or>
         (\<exists>n. prefix (file_after (wld (exec_start w)) vn lns n i) (contents (wld c) (scan_filename ts (lns ! i))) \<and>
              prefix (contents (wld c) (scan_filename ts (lns ! i))) (file_after (wld (exec_start w)) vn lns (Suc n) i))"
proof -
  let ?w0 = "wld (exec_start w)"
  have gf: "good_feeds ?w0 vn lns"
    using exec_start_feeds [of w] by (intro good_feeds_feeds [OF _ _ assms(1)]) simp_all
  obtain c0 where r0: "(step ts vn lns)\<^sup>*\<^sup>* (exec_start w) c0" and rn: "running (loc c0)"
    and fc: "files (wld c) = files (wld c0)"
    using reach_running [OF assms(3)] by (auto simp: exec_start_def)
  have "run_inv ts vn lns ?w0 c0" using steps_run_inv [OF r0 run_inv_start] .
  from running_files [OF gf assms(2,4) this rn]
  have "file_between ?w0 vn lns i (contents ?w0 (scan_filename ts (lns ! i)))
          (contents (wld c0) (scan_filename ts (lns ! i)))" .
  moreover have "contents ?w0 (scan_filename ts (lns ! i)) = contents w (scan_filename ts (lns ! i))"
    using exec_start_feeds [of w] by (simp add: contents_def)
  moreover have "contents (wld c) (scan_filename ts (lns ! i)) = contents (wld c0) (scan_filename ts (lns ! i))"
    using fc by (simp add: contents_def)
  ultimately show ?thesis by (simp only: file_between_def)
qed

theorem reachable_files_between_witness:
  "good_feeds (demo_world [3, 4, 0] (mk_quat 1 0 0 0)) ''Drone1'' [''L''] \<and> distinct [''L''] \<and>
   (step ''t'' ''Drone1'' [''L''])\<^sup>*\<^sup>* (exec_start (demo_world [3, 4, 0] (mk_quat 1 0 0 0))) demo_cfg \<and>
   0 < length [''L''] \<and>
   (contents (wld demo_cfg) (scan_filename ''t'' ([''L''] ! 0)) =
      contents (demo_world [3, 4, 0] (mk_quat 1 0 0 0)) (scan_filename ''t'' ([''L''] ! 0)) \<or>
    (\<exists>n. prefix (file_after (wld (exec_start (demo_world [3, 4, 0] (mk_quat 1 0 0 0)))) ''Drone1'' [''L''] n 0)
             (contents (wld demo_cfg) (scan_filename ''t'' ([''L''] ! 0))) \<and>
         prefix (contents (wld demo_cfg) (scan_filename ''t'' ([''L''] ! 0)))
             (file_after (wld (exec_start (demo_world [3, 4, 0] (mk_quat 1 0 0 0)))) ''Drone1'' [''L''] (Suc n) 0)))"
proof (intro conjI)
  show "good_feeds (demo_world [3, 4, 0] (mk_quat 1 0 0 0)) ''Drone1'' [''L'']" by (rule good_feeds_demo)
  show "(step ''t'' ''Drone1'' [''L''])\<^sup>*\<^sup>* (exec_start (demo_world [3, 4, 0] (mk_quat 1 0 0 0))) demo_cfg"
    by (rule demo_cfg_reachable)
  show "contents (wld demo_cfg) (scan_filename ''t'' ([''L''] ! 0)) =
      contents (demo_world [3, 4, 0] (mk_quat 1 0 0 0)) (scan_filename ''t'' ([''L''] ! 0)) \<or>
    (\<exists>n. prefix (file_after (wld (exec_start (demo_world [3, 4, 0] (mk_quat 1 0 0 0)))) ''Drone1'' [''L''] n 0)
             (contents (wld demo_cfg) (scan_filename ''t'' ([''L''] ! 0))) \<and>
         prefix (contents (wld demo_cfg) (scan_filename ''t'' ([''L''] ! 0)))
             (file_after (wld (exec_start (demo_world [3, 4, 0] (mk_quat 1 0 0 0)))) ''Drone1'' [''L''] (Suc n) 0))"
    by (rule reachable_files_between [OF good_feeds_demo _ demo_cfg_reachable]) simp_all
qed simp_all

end
