(* ===== verification/Output_Format.thy ===== *)
theory Output_Format
  imports Scan_Processing
begin

text \<open>
  The text of a record: line 112 of \<^verbatim>\<open>sensorframe_lidar_pointcloud.py\<close> writes
  \<^verbatim>\<open>"%f %f %f %f %f %f %d %d %d \n" % (final_x, final_y, final_z, point_range,
  point_angle, milli_time, 255, 255, 0)\<close>. \<^verbatim>\<open>%d\<close> writes an integer in decimal;
  \<^verbatim>\<open>%f\<close> writes a number rounded to six decimals, ties to even, with a minus sign
  for a negative value (also when it rounds to zero) and converts an integer argument
  to a float first. The lemmas show that the time stamp, an integer, is written with
  \<^verbatim>\<open>%f\<close> and so carries the suffix \<^verbatim>\<open>.000000\<close>, that \<^verbatim>\<open>%d\<close> reads back
  exactly, and that a \<^verbatim>\<open>%f\<close> field reads back within \<open>5 \<cdot> 10\<^sup>-\<^sup>7\<close> of the value.
\<close>

subsection \<open>Decimal digits\<close>

definition digit_char :: "nat \<Rightarrow> char" where
  "digit_char d = char_of (48 + d)"

fun digits_nat :: "nat \<Rightarrow> string" where
  "digits_nat n = (if n < 10 then [digit_char n] else digits_nat (n div 10) @ [digit_char (n mod 10)])"

declare digits_nat.simps [simp del]

definition is_digit :: "char \<Rightarrow> bool" where
  "is_digit c \<longleftrightarrow> (48::nat) \<le> of_char c \<and> of_char c \<le> (57::nat)"

definition digit_val :: "char \<Rightarrow> nat" where
  "digit_val c = of_char c - 48"

text \<open>\<^verbatim>\<open>%d\<close>.\<close>

definition fmt_d :: "int \<Rightarrow> string" where
  "fmt_d k = (if k < 0 then ''-'' @ digits_nat (nat (- k)) else digits_nat (nat k))"

text \<open>\<^verbatim>\<open>%f\<close>: six decimals, the fraction padded with zeros on the left.\<close>

definition pad6 :: "string \<Rightarrow> string" where
  "pad6 s = replicate (6 - length s) (CHR ''0'') @ s"

definition fmt_f :: "real \<Rightarrow> string" where
  "fmt_f x =
     (let m = nat (py_round (\<bar>x\<bar> * 10 ^ 6))
      in (if x < 0 then ''-'' else []) @ digits_nat (m div 10 ^ 6) @ ''.'' @ pad6 (digits_nat (m mod 10 ^ 6)))"

definition space :: string where
  "space = [CHR 0x20]"

text \<open>The line written by line 112 for one record.\<close>

definition format_row :: "out_row \<Rightarrow> string" where
  "format_row r =
     fmt_f (row_x r) @ space @ fmt_f (row_y r) @ space @ fmt_f (row_z r) @ space @
     fmt_f (row_range r) @ space @ fmt_f (row_angle r) @ space @ fmt_f (of_int (row_time r)) @ space @
     fmt_d (row_r r) @ space @ fmt_d (row_g r) @ space @ fmt_d (row_b r) @ space @ [CHR 0x0A]"

text \<open>Reading a field back: \<^verbatim>\<open>int()\<close> of a \<^verbatim>\<open>%d\<close> field, \<^verbatim>\<open>float()\<close> of a
  \<^verbatim>\<open>%f\<close> field.\<close>

fun parse_digits :: "nat \<Rightarrow> string \<Rightarrow> nat option" where
  "parse_digits acc [] = Some acc"
| "parse_digits acc (c # cs) = (if is_digit c then parse_digits (10 * acc + digit_val c) cs else None)"

definition parse_nat :: "string \<Rightarrow> nat option" where
  "parse_nat s = (if s = [] then None else parse_digits 0 s)"

definition parse_int :: "string \<Rightarrow> int option" where
  "parse_int s =
     (case s of c # ds \<Rightarrow> if c = CHR ''-'' then map_option (\<lambda>n. - int n) (parse_nat ds)
                          else map_option int (parse_nat s)
      | [] \<Rightarrow> None)"

definition parse_fixed :: "string \<Rightarrow> real option" where
  "parse_fixed s =
     (let (neg, body) = (case s of c # r \<Rightarrow> if c = CHR ''-'' then (True, r) else (False, s) | [] \<Rightarrow> (False, s));
          ip = takeWhile (\<lambda>c. c \<noteq> CHR ''.'') body;
          fp = drop (Suc (length ip)) body
      in if ip = body then None
         else if length fp = 6
         then (case (parse_nat ip, parse_nat fp) of
                 (Some a, Some b) \<Rightarrow> Some ((if neg then -1 else 1) * (real a + real b / 10 ^ 6))
               | _ \<Rightarrow> None)
         else None)"

text \<open>Reading a line back: \<^verbatim>\<open>line.split(' ')\<close>, then \<^verbatim>\<open>float()\<close> of the six
  \<^verbatim>\<open>%f\<close> fields and \<^verbatim>\<open>int()\<close> of the three \<^verbatim>\<open>%d\<close> fields; the last piece is the
  newline that follows the trailing space.\<close>

fun split_at_char :: "char \<Rightarrow> string \<Rightarrow> string list" where
  "split_at_char c [] = [[]]"
| "split_at_char c (x # xs) =
     (if x = c then [] # split_at_char c xs
      else (case split_at_char c xs of f # fs \<Rightarrow> (x # f) # fs | [] \<Rightarrow> [[x]]))"

definition parse_line :: "string \<Rightarrow> (real list \<times> int list) option" where
  "parse_line s =
     (case split_at_char (CHR 0x20) s of
        [a1, a2, a3, a4, a5, a6, b1, b2, b3, e] \<Rightarrow>
          if e \<noteq> [CHR 0x0A] then None
          else (case (those (map parse_fixed [a1, a2, a3, a4, a5, a6]), those (map parse_int [b1, b2, b3])) of
                  (Some ys, Some ks) \<Rightarrow> Some (ys, ks)
                | _ \<Rightarrow> None)
      | _ \<Rightarrow> None)"

text \<open>Reading a file back line by line, as \<^verbatim>\<open>f.readlines()\<close> does: every line ends
  with its newline.\<close>

definition parse_file :: "string \<Rightarrow> (real list \<times> int list) list option" where
  "parse_file s =
     (case rev (split_at_char (CHR 0x0A) s) of
        [] # ls \<Rightarrow> those (map (\<lambda>l. parse_line (l @ [CHR 0x0A])) (rev ls))
      | _ \<Rightarrow> None)"

text \<open>What a reader gets back for a record: the six \<^verbatim>\<open>%f\<close> fields within half a unit
  of their sixth decimal (the time stamp exactly) and the three colour fields.\<close>

definition reads_back :: "out_row \<Rightarrow> real list \<times> int list \<Rightarrow> bool" where
  "reads_back r p \<longleftrightarrow>
     list_all2 (\<lambda>y v. \<bar>y - v\<bar> \<le> 1 / (2 * 10 ^ 6)) (fst p)
       [row_x r, row_y r, row_z r, row_range r, row_angle r, of_int (row_time r)] \<and>
     fst p ! 5 = of_int (row_time r) \<and> snd p = [row_r r, row_g r, row_b r]"

subsection \<open>Digits\<close>

lemma digit_char_is_digit: "d < 10 \<Longrightarrow> is_digit (digit_char d)"
  by (simp add: digit_char_def is_digit_def)

lemma digit_val_char: "d < 10 \<Longrightarrow> digit_val (digit_char d) = d"
  by (simp add: digit_char_def digit_val_def)

lemma of_char_digit_char: "d < 10 \<Longrightarrow> of_char (digit_char d) = (48 + d :: nat)"
  by (simp add: digit_char_def)

lemma digit_char_not:
  "d < 10 \<Longrightarrow> digit_char d \<noteq> CHR ''-'' \<and> digit_char d \<noteq> CHR ''.'' \<and> digit_char d \<noteq> CHR 0x20 \<and> digit_char d \<noteq> CHR 0x0A"
  by (auto dest!: arg_cong [where f = "of_char :: char \<Rightarrow> nat"] simp: of_char_digit_char)

lemma digits_nat_small: "n < 10 \<Longrightarrow> digits_nat n = [digit_char n]"
  by (subst digits_nat.simps) simp

lemma digits_nat_chars: "c \<in> set (digits_nat n) \<Longrightarrow> \<exists>d<10. c = digit_char d"
  by (induction n rule: digits_nat.induct) (subst (asm) digits_nat.simps; force split: if_splits)

lemma digits_nat_ne: "digits_nat n \<noteq> []"
  by (subst digits_nat.simps) simp

lemma parse_digits_append:
  "parse_digits acc (xs @ ys) = (case parse_digits acc xs of None \<Rightarrow> None | Some a \<Rightarrow> parse_digits a ys)"
  by (induction xs arbitrary: acc) auto

lemma parse_digits_digits:
  "parse_digits acc (digits_nat n) = Some (acc * 10 ^ length (digits_nat n) + n)"
proof (induction n arbitrary: acc rule: digits_nat.induct)
  case (1 n)
  show ?case
  proof (cases "n < 10")
    case True
    then show ?thesis by (simp add: digits_nat_small digit_char_is_digit digit_val_char)
  next
    case False
    then have d: "digits_nat n = digits_nat (n div 10) @ [digit_char (n mod 10)]"
      by (subst digits_nat.simps) simp
    have "10 * (acc * 10 ^ length (digits_nat (n div 10)) + n div 10) + n mod 10
          = acc * 10 ^ Suc (length (digits_nat (n div 10))) + n"
      by simp
    with False show ?thesis
      by (simp add: d parse_digits_append 1 digit_char_is_digit digit_val_char)
  qed
qed

lemma parse_nat_digits: "parse_nat (digits_nat n) = Some n"
  by (simp add: parse_nat_def digits_nat_ne parse_digits_digits)

lemma length_digits_nat: "n < 10 ^ k \<Longrightarrow> length (digits_nat n) \<le> max 1 k"
proof (induction n arbitrary: k rule: digits_nat.induct)
  case (1 n)
  show ?case
  proof (cases "n < 10")
    case True
    then show ?thesis by (subst digits_nat.simps) simp
  next
    case False
    then obtain j where k: "k = Suc j"
      using "1.prems" by (cases k) auto
    with "1.prems" have lt: "n div 10 < 10 ^ j" by (simp add: div_less_iff_less_mult mult.commute)
    with False have "j \<noteq> 0" by (cases j) auto
    moreover have "length (digits_nat (n div 10)) \<le> max 1 j" using 1 False lt by blast
    ultimately have "length (digits_nat (n div 10)) \<le> j" by simp
    with False k show ?thesis by (subst digits_nat.simps) simp
  qed
qed

lemma parse_digits_zeros: "parse_digits acc (replicate k (CHR ''0'') @ ds) = parse_digits (acc * 10 ^ k) ds"
  by (induction k arbitrary: acc) (auto simp: is_digit_def digit_val_def parse_digits_append ac_simps)

lemma digits_nat_char_not:
  assumes "c \<in> set (digits_nat n)"
  shows "c \<noteq> CHR ''-'' \<and> c \<noteq> CHR ''.'' \<and> c \<noteq> CHR 0x20 \<and> c \<noteq> CHR 0x0A"
proof -
  obtain d where "d < 10" "c = digit_char d" using digits_nat_chars [OF assms] by blast
  then show ?thesis using digit_char_not by simp
qed

lemma digits_nat_no_dot: "CHR ''.'' \<notin> set (digits_nat n)"
  using digits_nat_char_not by blast

lemma digits_nat_hd: "\<exists>c ds. digits_nat n = c # ds \<and> c \<noteq> CHR ''-''"
proof -
  obtain c ds where cd: "digits_nat n = c # ds"
    using digits_nat_ne by (cases "digits_nat n") auto
  then have "c \<in> set (digits_nat n)" by simp
  then have "c \<noteq> CHR ''-''" using digits_nat_char_not by blast
  with cd show ?thesis by blast
qed

lemma parse_nat_pad6: "b < 10 ^ 6 \<Longrightarrow> parse_nat (pad6 (digits_nat b)) = Some b \<and> length (pad6 (digits_nat b)) = 6"
proof -
  assume "b < 10 ^ 6"
  then have "length (digits_nat b) \<le> 6" using length_digits_nat [of b 6] by simp
  then show ?thesis
    by (simp add: pad6_def parse_nat_def parse_digits_zeros parse_digits_digits digits_nat_ne)
qed

lemma parse_fixed_fields:
  assumes b: "b < 10 ^ 6"
  shows "parse_fixed ((if neg then ''-'' else []) @ digits_nat a @ ''.'' @ pad6 (digits_nat b))
         = Some ((if neg then -1 else 1) * (real a + real b / 10 ^ 6))"
proof -
  define body where "body = digits_nat a @ ''.'' @ pad6 (digits_nat b)"
  have split: "(case (if neg then ''-'' else []) @ body of c # r \<Rightarrow> if c = CHR ''-'' then (True, r) else (False, (if neg then ''-'' else []) @ body)
               | [] \<Rightarrow> (False, (if neg then ''-'' else []) @ body)) = (neg, body)"
    using digits_nat_hd [of a] by (auto simp: body_def)
  have tw: "takeWhile (\<lambda>c. c \<noteq> CHR ''.'') body = digits_nat a"
  proof -
    have "takeWhile (\<lambda>c. c \<noteq> CHR ''.'') body = digits_nat a @ takeWhile (\<lambda>c. c \<noteq> CHR ''.'') (''.'' @ pad6 (digits_nat b))"
      unfolding body_def by (rule takeWhile_append2) (use digits_nat_no_dot [of a] in auto)
    then show ?thesis by simp
  qed
  have dr: "drop (Suc (length (digits_nat a))) body = pad6 (digits_nat b)"
    by (simp add: body_def)
  have ne: "digits_nat a \<noteq> body" by (simp add: body_def)
  show ?thesis
    using parse_nat_pad6 [OF b]
    by (simp only: body_def [symmetric] parse_fixed_def split Let_def tw dr prod.case)
       (simp add: ne parse_nat_digits)
qed

lemma pad6_zero: "pad6 [digit_char 0] = ''000000''"
proof -
  have "(of_char (CHR ''0'') :: nat) = 48" by simp
  then have "digit_char 0 = CHR ''0''"
    unfolding digit_char_def by (metis add_0_right char_of_char)
  then show ?thesis by (simp add: pad6_def numeral_eq_Suc)
qed

lemma fmt_f_int:
  "fmt_f (of_int k) = (if k < 0 then ''-'' else []) @ digits_nat (nat \<bar>k\<bar>) @ ''.'' @ pad6 (digits_nat 0)"
proof -
  have r: "py_round (\<bar>of_int k\<bar> * 10 ^ 6) = \<bar>k\<bar> * 10 ^ 6"
    using py_round_of_int [of "\<bar>k\<bar> * 10 ^ 6"] by simp
  have m: "nat (\<bar>k\<bar> * 10 ^ 6) div 10 ^ 6 = nat \<bar>k\<bar>" "nat (\<bar>k\<bar> * 10 ^ 6) mod 10 ^ 6 = 0"
    by (simp_all add: nat_mult_distrib)
  show ?thesis
    unfolding fmt_f_def Let_def r m by simp
qed

lemma parse_fixed_close: "\<exists>y. parse_fixed (fmt_f x) = Some y \<and> \<bar>y - x\<bar> \<le> 1 / (2 * 10 ^ 6)"
proof -
  define m where "m = nat (py_round (\<bar>x\<bar> * 10 ^ 6))"
  have m0: "real m = of_int (py_round (\<bar>x\<bar> * 10 ^ 6))"
    using py_round_nonneg [of "\<bar>x\<bar> * 10 ^ 6"] by (simp add: m_def)
  have close: "\<bar>real m - \<bar>x\<bar> * 10 ^ 6\<bar> \<le> 1/2"
    using py_round_close [of "\<bar>x\<bar> * 10 ^ 6"] by (simp add: m0)
  have parts: "real (m div 10 ^ 6) + real (m mod 10 ^ 6) / 10 ^ 6 = real m / 10 ^ 6"
  proof -
    have "real m = real (m div 10 ^ 6) * 10 ^ 6 + real (m mod 10 ^ 6)"
      using div_mult_mod_eq [of m "10 ^ 6"] by (metis of_nat_add of_nat_mult of_nat_numeral of_nat_power)
    then show ?thesis by (simp add: field_simps)
  qed
  define y where "y = (if x < 0 then -1 else 1) * (real m / 10 ^ 6)"
  have p: "parse_fixed (fmt_f x) = Some y"
    unfolding fmt_f_def Let_def m_def [symmetric] y_def
    using parse_fixed_fields [of "m mod 10 ^ 6" "x < 0" "m div 10 ^ 6"]
    by (simp only: parts) simp
  have "\<bar>y - x\<bar> = \<bar>real m - \<bar>x\<bar> * 10 ^ 6\<bar> / 10 ^ 6"
    by (auto simp: y_def abs_if field_simps)
  with close have "\<bar>y - x\<bar> \<le> 1 / (2 * 10 ^ 6)" by simp
  with p show ?thesis by blast
qed

lemma parse_int_fmt_d_eq: "parse_int (fmt_d k) = Some k"
proof (cases "k < 0")
  case True
  then show ?thesis by (simp add: fmt_d_def parse_int_def parse_nat_digits)
next
  case False
  obtain c ds where "digits_nat (nat k) = c # ds" "c \<noteq> CHR ''-''"
    using digits_nat_hd by blast
  with False show ?thesis
    by (simp add: fmt_d_def parse_int_def) (metis parse_nat_digits option.simps(9) nat_0_le not_less)
qed

subsection \<open>The fields of a line\<close>

text \<open>\<^verbatim>\<open>%f\<close> of an integer: its decimal digits followed by \<^verbatim>\<open>.000000\<close>.\<close>

lemma fmt_f_time_stamp: "fmt_f (of_int k) = fmt_d k @ ''.000000''"
  by (simp add: fmt_f_int fmt_d_def digits_nat_small pad6_zero)



subsection \<open>Lines\<close>

lemma split_at_char_no: "c \<notin> set xs \<Longrightarrow> split_at_char c xs = [xs]"
  by (induction xs) auto

lemma split_at_char_app: "c \<notin> set xs \<Longrightarrow> split_at_char c (xs @ c # ys) = xs # split_at_char c ys"
proof (induction xs)
  case (Cons x xs)
  then show ?case by (cases "split_at_char c (xs @ c # ys)") auto
qed simp

lemma fmt_d_no_space: "CHR 0x20 \<notin> set (fmt_d k) \<and> CHR 0x0A \<notin> set (fmt_d k)"
  using digits_nat_char_not by (auto simp: fmt_d_def)

lemma fmt_f_no_space: "CHR 0x20 \<notin> set (fmt_f x) \<and> CHR 0x0A \<notin> set (fmt_f x)"
  using digits_nat_char_not by (auto simp: fmt_f_def Let_def pad6_def)

lemma fmt_f_of_int: "parse_fixed (fmt_f (of_int k)) = Some (of_int k)"
  using parse_fixed_fields [of 0 "k < 0" "nat \<bar>k\<bar>"] by (auto simp: fmt_f_int abs_if)


text \<open>The line of line 112 splits on its spaces into the nine fields and the newline.\<close>

lemma format_row_fields:
  "split_at_char (CHR 0x20) (format_row r) =
     [fmt_f (row_x r), fmt_f (row_y r), fmt_f (row_z r), fmt_f (row_range r), fmt_f (row_angle r),
      fmt_f (of_int (row_time r)), fmt_d (row_r r), fmt_d (row_g r), fmt_d (row_b r), [CHR 0x0A]]"
  by (simp add: format_row_def space_def split_at_char_app split_at_char_no fmt_f_no_space fmt_d_no_space)

text \<open>C27: the time stamp, an integer number of milliseconds, is written by line 112
  with \<^verbatim>\<open>%f\<close>: the sixth space-separated field of every line is the stamp's decimal
  digits followed by \<^verbatim>\<open>.000000\<close>, not the integer the spec describes.\<close>

theorem format_row_time_field:
  "split_at_char (CHR 0x20) (format_row r) ! 5 = fmt_d (row_time r) @ ''.000000''"
  by (simp add: format_row_fields fmt_f_time_stamp)

lemma parse_line_row: "\<exists>p. parse_line (format_row r) = Some p \<and> reads_back r p"
proof -
  obtain y1 y2 y3 y4 y5 where
    y: "parse_fixed (fmt_f (row_x r)) = Some y1" "\<bar>y1 - row_x r\<bar> \<le> 1 / (2 * 10 ^ 6)"
       "parse_fixed (fmt_f (row_y r)) = Some y2" "\<bar>y2 - row_y r\<bar> \<le> 1 / (2 * 10 ^ 6)"
       "parse_fixed (fmt_f (row_z r)) = Some y3" "\<bar>y3 - row_z r\<bar> \<le> 1 / (2 * 10 ^ 6)"
       "parse_fixed (fmt_f (row_range r)) = Some y4" "\<bar>y4 - row_range r\<bar> \<le> 1 / (2 * 10 ^ 6)"
       "parse_fixed (fmt_f (row_angle r)) = Some y5" "\<bar>y5 - row_angle r\<bar> \<le> 1 / (2 * 10 ^ 6)"
    using parse_fixed_close by meson
  note sp = format_row_fields [of r]
  have "parse_line (format_row r) = Some ([y1, y2, y3, y4, y5, of_int (row_time r)], [row_r r, row_g r, row_b r])"
    by (simp add: parse_line_def sp y fmt_f_of_int parse_int_fmt_d_eq)
  moreover have "reads_back r ([y1, y2, y3, y4, y5, of_int (row_time r)], [row_r r, row_g r, row_b r])"
    using y by (simp add: reads_back_def)
  ultimately show ?thesis by blast
qed

lemma format_row_line: "\<exists>b. format_row r = b @ [CHR 0x0A] \<and> CHR 0x0A \<notin> set b"
  by (rule exI, rule conjI [rotated])
     (simp_all add: format_row_def space_def fmt_f_no_space fmt_d_no_space)

lemma split_at_char_lines:
  "list_all (\<lambda>b. c \<notin> set b) bs \<Longrightarrow> split_at_char c (concat (map (\<lambda>b. b @ [c]) bs)) = bs @ [[]]"
  by (induction bs) (simp_all add: split_at_char_app)

lemma those_parse_rows:
  "\<exists>ps. those (map (\<lambda>r. parse_line (format_row r)) rows) = Some ps \<and> list_all2 reads_back rows ps"
proof (induction rows)
  case (Cons r rows)
  then obtain ps where "those (map (\<lambda>r. parse_line (format_row r)) rows) = Some ps" "list_all2 reads_back rows ps"
    by blast
  moreover obtain p where "parse_line (format_row r) = Some p" "reads_back r p"
    using parse_line_row by blast
  ultimately show ?case by simp
qed simp

lemma parse_file_rows:
  "\<exists>ps. parse_file (concat (map format_row rows)) = Some ps \<and> list_all2 reads_back rows ps"
proof -
  obtain body where b: "\<And>r. format_row r = body r @ [CHR 0x0A] \<and> CHR 0x0A \<notin> set (body r)"
    using format_row_line by metis
  then have fr: "format_row = (\<lambda>r. body r @ [CHR 0x0A])" by (simp add: fun_eq_iff)
  have "split_at_char (CHR 0x0A) (concat (map format_row rows)) = map body rows @ [[]]"
    using split_at_char_lines [of "CHR 0x0A" "map body rows"] b
    by (simp add: fr comp_def list_all_iff)
  then show ?thesis
    using those_parse_rows [of rows] by (simp add: parse_file_def fr comp_def)
qed

subsection \<open>Evaluation\<close>

lemma digits_nat_big: "10 \<le> n \<Longrightarrow> digits_nat n = digits_nat (n div 10) @ [digit_char (n mod 10)]"
  by (subst digits_nat.simps) simp

lemma replicate_numeral_eq: "replicate (numeral k) x = x # replicate (pred_numeral k) x"
  by (simp add: numeral_eq_Suc)

lemmas fmt_eval = format_row_def space_def fmt_f_def fmt_d_def digits_nat_small digits_nat_big
  pad6_def digit_char_def char_of_def bit_0 py_round_def replicate_numeral_eq

subsection \<open>Round trips\<close>

text \<open>C30: the line written for a record splits on its spaces into nine fields and a
  newline; the six \<^verbatim>\<open>%f\<close> fields read back within half a unit of the sixth
  decimal of the coordinates, range, angle and time stamp (the time stamp exactly) and
  the three \<^verbatim>\<open>%d\<close> fields read back as the colour.\<close>

theorem parse_line_format_row: "\<exists>p. parse_line (format_row r) = Some p \<and> reads_back r p"
  by (rule parse_line_row)

text \<open>C31: the text of a file, the lines written for its records one after the other,
  reads back line by line as those records.\<close>

theorem parse_file_format_rows:
  "\<exists>ps. parse_file (concat (map format_row rows)) = Some ps \<and> list_all2 reads_back rows ps"
  by (rule parse_file_rows)
end
