(* ===== verification/Lidar_Settings.thy ===== *)
theory Lidar_Settings
  imports Point_Transform
begin

text \<open>
  The sample \<^verbatim>\<open>settings.json\<close> in the header docstring of
  \<^verbatim>\<open>sensorframe_lidar_pointcloud.py\<close> (lines 1--50): the configuration the script is
  written for. It is modelled as a JSON value (\<open>json\<close>, objects as association
  lists) with key-path lookup. Two facts about the simulator, not under
  \<^verbatim>\<open>src/\<close>, are modelled from the AirSim documentation: a sensor's mounting angles
  are given in degrees, and its orientation quaternion is
  \<^verbatim>\<open>airsim.to_quaternion(pitch, roll, yaw)\<close> of those angles in radians. The lemmas
  show where the script puts a return of the first lidar as it is mounted; the root
  theory checks the lidars \<^verbatim>\<open>main\<close> polls against these settings.
\<close>

datatype json =
    JObject "(string \<times> json) list"
  | JArray "json list"
  | JNumber real
  | JString string
  | JBool bool
  | JNull

text \<open>Lines 4--50.\<close>

definition lidar_sensor_settings :: "real \<Rightarrow> json" where
  "lidar_sensor_settings roll =
     JObject [(''SensorType'', JNumber 6), (''Enabled'', JBool True), (''NumberOfChannels'', JNumber 1),
              (''RotationsPerSecond'', JNumber 10), (''Range'', JNumber 12),
              (''PointsPerSecond'', JNumber 8000),
              (''X'', JNumber 0), (''Y'', JNumber 0), (''Z'', JNumber (-1)),
              (''Roll'', JNumber roll), (''Pitch'', JNumber 90), (''Yaw'', JNumber 0),
              (''VerticalFOVUpper'', JNumber 0), (''VerticalFOVLower'', JNumber 0),
              (''HorizontalFOVStart'', JNumber 0), (''HorizontalFOVEnd'', JNumber 0),
              (''DrawDebugPoints'', JBool True), (''DataFrame'', JString ''SensorLocalFrame'')]"

definition sample_settings :: json where
  "sample_settings =
     JObject [(''SeeDocsAt'', JString ''https://github.com/Microsoft/AirSim/blob/master/docs/settings_json.md''),
              (''SettingsVersion'', JNumber (12 / 10)), (''SimMode'', JString ''Multirotor''),
              (''Vehicles'', JObject [(''Drone1'', JObject
                 [(''VehicleType'', JString ''SimpleFlight''), (''AutoCreate'', JBool True),
                  (''Sensors'', JObject [(''LidarSensor1'', lidar_sensor_settings 0),
                                          (''LidarSensor2'', lidar_sensor_settings 90)])])])]"

subsection \<open>Lookup\<close>

fun json_get :: "string \<Rightarrow> json \<Rightarrow> json option" where
  "json_get k (JObject kvs) = map_of kvs k"
| "json_get k _ = None"

fun json_path :: "string list \<Rightarrow> json \<Rightarrow> json option" where
  "json_path [] j = Some j"
| "json_path (k # ks) j = (case json_get k j of None \<Rightarrow> None | Some j' \<Rightarrow> json_path ks j')"

definition sensor_setting :: "json \<Rightarrow> string \<Rightarrow> string \<Rightarrow> string \<Rightarrow> json option" where
  "sensor_setting j vn sn key = json_path [''Vehicles'', vn, ''Sensors'', sn, key] j"

text \<open>The sensors of a vehicle that are lidars (\<^verbatim>\<open>SensorType\<close> 6), in order.\<close>

definition configured_lidars :: "json \<Rightarrow> string \<Rightarrow> string list" where
  "configured_lidars j vn =
     (case json_path [''Vehicles'', vn, ''Sensors''] j of
        Some (JObject kvs) \<Rightarrow> [k. (k, s) \<leftarrow> kvs, json_get ''SensorType'' s = Some (JNumber 6)]
      | _ \<Rightarrow> [])"

text \<open>A lidar the script can process: configured, enabled, reporting points in the
  sensor's own frame.\<close>

definition script_lidar :: "json \<Rightarrow> string \<Rightarrow> string \<Rightarrow> bool" where
  "script_lidar j vn sn \<longleftrightarrow>
     sensor_setting j vn sn ''SensorType'' = Some (JNumber 6) \<and>
     sensor_setting j vn sn ''Enabled'' = Some (JBool True) \<and>
     sensor_setting j vn sn ''DataFrame'' = Some (JString ''SensorLocalFrame'')"

subsection \<open>The mounting pose\<close>

text \<open>\<^verbatim>\<open>airsim.to_quaternion(pitch, roll, yaw)\<close>, angles in radians.\<close>

definition to_quaternion :: "real \<Rightarrow> real \<Rightarrow> real \<Rightarrow> quaternionr" where
  "to_quaternion pitch roll yaw =
     (let t0 = cos (yaw * 0.5); t1 = sin (yaw * 0.5); t2 = cos (roll * 0.5);
          t3 = sin (roll * 0.5); t4 = cos (pitch * 0.5); t5 = sin (pitch * 0.5)
      in mk_quat (t0 * t2 * t4 + t1 * t3 * t5) (t0 * t3 * t4 - t1 * t2 * t5)
                 (t0 * t2 * t5 + t1 * t3 * t4) (t1 * t2 * t4 - t0 * t3 * t5))"

definition setting_num :: "json \<Rightarrow> string \<Rightarrow> string \<Rightarrow> string \<Rightarrow> real" where
  "setting_num j vn sn key = (case sensor_setting j vn sn key of Some (JNumber x) \<Rightarrow> x | _ \<Rightarrow> 0)"

definition radians :: "real \<Rightarrow> real" where
  "radians deg = deg * pi / 180"

definition mounting_orientation :: "json \<Rightarrow> string \<Rightarrow> string \<Rightarrow> quaternionr" where
  "mounting_orientation j vn sn =
     to_quaternion (radians (setting_num j vn sn ''Pitch'')) (radians (setting_num j vn sn ''Roll''))
                   (radians (setting_num j vn sn ''Yaw''))"

definition mounting_position :: "json \<Rightarrow> string \<Rightarrow> string \<Rightarrow> vector3r" where
  "mounting_position j vn sn =
     mk_vec (setting_num j vn sn ''X'') (setting_num j vn sn ''Y'') (setting_num j vn sn ''Z'')"

subsection \<open>Evaluation\<close>

lemmas settings_eval = sensor_setting_def sample_settings_def lidar_sensor_settings_def

lemma lidar1_settings:
  "setting_num sample_settings ''Drone1'' ''LidarSensor1'' ''Pitch'' = 90"
  "setting_num sample_settings ''Drone1'' ''LidarSensor1'' ''Roll'' = 0"
  "setting_num sample_settings ''Drone1'' ''LidarSensor1'' ''Yaw'' = 0"
  "setting_num sample_settings ''Drone1'' ''LidarSensor1'' ''X'' = 0"
  "setting_num sample_settings ''Drone1'' ''LidarSensor1'' ''Y'' = 0"
  "setting_num sample_settings ''Drone1'' ''LidarSensor1'' ''Z'' = -1"
  by (simp_all add: setting_num_def settings_eval)

lemma lidar1_orientation:
  "mounting_orientation sample_settings ''Drone1'' ''LidarSensor1'' = mk_quat (sqrt 2 / 2) 0 (sqrt 2 / 2) 0"
proof -
  have "radians 90 * 0.5 = pi / 4" by (simp add: radians_def)
  then show ?thesis
    by (simp add: mounting_orientation_def lidar1_settings to_quaternion_def radians_def Let_def
        cos_45 sin_45)
qed


lemma lidar1_position: "mounting_position sample_settings ''Drone1'' ''LidarSensor1'' = mk_vec 0 0 (-1)"
  by (simp add: mounting_position_def lidar1_settings)

lemma lidar1_matrix:
  "rotation_matrix (mk_quat (sqrt 2 / 2) 0 (sqrt 2 / 2) 0) = ((0, 0, 1), (0, 1, 0), (-1, 0, 0))"
proof -
  have h: "sqrt 2 / 2 * (sqrt 2 / 2) = (1 / 2 :: real)" by (simp add: field_simps)
  show ?thesis by (simp add: rotation_matrix_def Let_def power2_eq_square h)
qed

text \<open>
  C7: \<^verbatim>\<open>LidarSensor1\<close> as the sample settings mount it (at \<open>(0, 0, -1)\<close>, pitched
  by 90 degrees) looks straight up: the script's transform sends a return at distance
  \<open>d\<close> along the sensor's axis to \<open>(0, 0, -1 - d)\<close> (up, in AirSim's north-east-down
  frame) with range \<open>d\<close>.
\<close>

theorem lidar1_beam_points_up:
  assumes "0 \<le> d"
  shows "transform_point (rotation_matrix (mounting_orientation sample_settings ''Drone1'' ''LidarSensor1''))
           (mounting_position sample_settings ''Drone1'' ''LidarSensor1'') [d, 0, 0] = Inr ((0, 0, -1 - d), d)"
  using assms
  by (simp add: lidar1_orientation lidar1_position lidar1_matrix transform_point_eval vec_simps vec_of_def)

theorem lidar1_beam_points_up_witness:
  "0 \<le> (5::real) \<and>
   transform_point (rotation_matrix (mounting_orientation sample_settings ''Drone1'' ''LidarSensor1''))
     (mounting_position sample_settings ''Drone1'' ''LidarSensor1'') [5, 0, 0] = Inr ((0, 0, -6), 5)"
  using lidar1_beam_points_up [of 5] by simp
end
