(* ===== verification/Spec2Isabelle.thy ===== *)
theory Spec2Isabelle
  imports Time_Stamps Row_Types Loop_Refinement Run_Files Output_Format Lidar_Settings
begin

text \<open>
  \<^bold>\<open>A verification model of AirSim's sensor-frame lidar point-cloud client.\<close>

  The program is one script,
  \<^verbatim>\<open>src/PythonClient/multirotor/sensorframe_lidar_pointcloud.py\<close>: the class
  \<^verbatim>\<open>LidarTest\<close> connects to the simulator (\<^verbatim>\<open>__init__\<close>, lines 60--65) and
  \<^verbatim>\<open>execute\<close> (lines 67--117) polls the simulator for ever. For each lidar name it
  opens the file \<^verbatim>\<open><time_stamp>_<lidar_name>_pointcloud.asc\<close> (truncating in the
  first sweep, appending afterwards), asks for the lidar data and the vehicle state,
  builds a rotation matrix from the lidar's orientation quaternion, and for every
  triple of the point cloud writes the world-frame point, its range, an angle between
  the vehicle's and the lidar's orientations, a millisecond time stamp and a fixed
  colour. A keyboard interrupt ends the loop. The header docstring (lines 1--50)
  gives the sample \<^verbatim>\<open>settings.json\<close> the script is written for.

  \<^bold>\<open>Theories.\<close>
  \<^item> \<open>Lidar_Prelude\<close>: three-vectors and row-major matrices (what \<^verbatim>\<open>numpy\<close>
    computes), the Python exceptions of the script (\<open>py_error\<close>), the outcome of a
    statement sequence (\<open>exec_result\<close>: \<open>Normal\<close> or \<open>Raised\<close>, both with the
    state reached), and shared lemmas on sums of squares and Cauchy--Schwarz.
  \<^item> \<open>Airsim_Types\<close>: the message records of the AirSim client library
    (\<^verbatim>\<open>Vector3r\<close>, \<^verbatim>\<open>Quaternionr\<close>, \<^verbatim>\<open>Pose\<close>, \<^verbatim>\<open>LidarData\<close>,
    \<^verbatim>\<open>MultirotorState\<close>), modelled from the spec because \<^verbatim>\<open>airsim/types.py\<close>
    is not under \<^verbatim>\<open>src/\<close>.
  \<^item> \<open>Rotation\<close>: \<open>rotation_matrix\<close> (lines 85--88) and its specification by
    Hamilton quaternions: it refines the rotation \<open>q v q\<^sup>*\<close>, is orthogonal with
    determinant one, keeps lengths, is invariant under \<open>q \<mapsto> -q\<close> and turns
    quaternion products into matrix products, all for unit quaternions; a
    non-unit quaternion scales every vector off its axis, by an exact identity.
  \<^item> \<open>Point_Transform\<close>: \<open>point_slices\<close> (the \<^verbatim>\<open>range\<close> and slice of lines
    92--93, shown equal to chunking into triples), \<open>np_matmul\<close> with its shape
    error, and \<open>transform_point\<close> (lines 95--100).
  \<^item> \<open>Orientation_Angle\<close>: \<open>from_quat\<close>/\<open>as_quat\<close> (scipy's normalisation and
    its zero-norm error), \<open>py_acos\<close> (\<^verbatim>\<open>math.acos\<close> with its domain error) and
    \<open>point_angle\<close> (lines 102--108).
  \<^item> \<open>Scan_Processing\<close>: the environment as a record \<open>world\<close> (files as lists of
    written records, the open handle, standard output, the clock, the simulator's
    answers); \<open>py_open\<close>, \<open>py_write\<close>, \<open>py_close\<close>, \<open>time_time\<close>,
    \<open>get_lidar_data\<close>, \<open>get_multirotor_state\<close>; \<open>py_round\<close> (Python 3's
    rounding); the point loop \<open>points_loop\<close> (lines 92--112) and one lidar's scan
    \<open>process_lidar\<close> (lines 76--113).
  \<^item> \<open>Execute_Loop\<close>: \<open>sweep\<close> (the \<^verbatim>\<open>for\<close> loop of line 74), \<open>run_sweeps\<close>
    (\<^verbatim>\<open>while True\<close>, lines 73--114), \<open>execute\<close>, \<open>lidar_test_init\<close> and
    \<open>main\<close> (lines 120--122).
  \<^item> \<open>Interrupt_Semantics\<close>: the same loop as an \<^theory_text>\<open>inductive\<close> step relation
    \<open>step\<close> on configurations (control location, \<^verbatim>\<open>existing_data_cleared\<close>,
    world) in which the keyboard interrupt may arrive before any step; reachable
    states are runs of \<open>step\<close> from \<open>exec_start\<close>.
  \<^item> \<open>Loop_Refinement\<close>: the converse simulation. \<open>resume\<close> is what the
    big-step model computes from a configuration of the machine; every step keeps it,
    so the configurations at the top of the loop that the machine reaches are exactly
    the results of \<open>run_sweeps\<close>. The variant \<open>loc_rank\<close> (lidars left, points
    left) shows that every step not returning to the top of the loop decreases it.
  \<^item> \<open>Interrupted_Scan\<close>: the machine restricted to the steps inside one scan
    (\<open>in_scan\<close>); after an interrupt there and the handler, the scan's file holds its
    old contents followed by the records of exactly the points processed.
  \<^item> \<open>Sweep_Contents\<close>: the files after \<open>n\<close> sweeps in closed form: numbering the
    scans of a run in loop order, scan \<open>k\<close> answers simulator requests \<open>2k\<close> and
    \<open>2k + 1\<close> and reads the clock after all earlier scans (\<open>reads_before\<close>);
    \<open>scan_at\<close> is what one scan writes and \<open>file_after\<close> the concatenation of one
    lidar's scans.
  \<^item> \<open>Run_Files\<close>: the invariant \<open>run_inv\<close> placing every reachable configuration
    of the machine in the big-step run (after \<open>n\<close> sweeps, \<open>j\<close> lidars of the next
    and part of a scan), with \<open>Sweep_Contents\<close> and \<open>Interrupted_Scan\<close> the files of
    every reachable configuration (\<open>file_between\<close>), and the progress of the loop
    without an interrupt.
  \<^item> \<open>Row_Types\<close>: the type \<open>row_ok\<close> of a record on disk (colour
    \<open>255 255 0\<close>, range not negative, angle in \<open>[0, \<pi>]\<close>) and the invariant that
    every file holds only such records, kept by every step of the machine.
  \<^item> \<open>Time_Stamps\<close>: the invariant \<open>stamps_ok\<close> (every file's time stamps
    sorted and bounded by the next rounded clock reading), kept by every step of the
    machine when the clock is monotone; \<open>py_round\<close> is monotone.
  \<^item> \<open>Output_Format\<close>: the text of a record, the format string of line 112:
    \<open>fmt_f\<close> (\<^verbatim>\<open>%f\<close>: six decimals, ties to even, the integer time stamp
    converted to a float), \<open>fmt_d\<close> (\<^verbatim>\<open>%d\<close>) and \<open>format_row\<close>; and a reader of
    the file (\<open>parse_fixed\<close>, \<open>parse_int\<close>, \<open>parse_line\<close>, \<open>parse_file\<close>: Python's
    \<^verbatim>\<open>float\<close>, \<^verbatim>\<open>int\<close>, \<^verbatim>\<open>split(' ')\<close>, \<^verbatim>\<open>readlines\<close>) for the round
    trips. The model's files hold records; their text is
    \<open>concat (map format_row rows)\<close>.
  \<^item> \<open>Lidar_Settings\<close>: the sample settings of lines 4--50 as a JSON value
    (\<open>json\<close>, \<open>sample_settings\<close>) with key lookup, and the mounting pose of a
    sensor (\<open>to_quaternion\<close>, \<^verbatim>\<open>airsim.to_quaternion\<close>, of the angles in radians,
    modelled from the AirSim documentation since the simulator reads the file).
  \<^item> This theory: the spec's end-to-end scenario, its text on disk, its
    identity-pose property (lemmas on the spec's fixed inputs), the check of the
    lidars \<open>main\<close> polls against the sample settings, the text of every file after \<open>n\<close> sweeps and the console output of \<open>main\<close> (the loop never
    writes to \<open>stdout\<close>), which run through all components.

  \<^bold>\<open>What the lemmas show.\<close> The geometry is right under the unit-norm
  precondition (refinement of quaternion rotation, orthogonality, length
  preservation). The point loop writes one record per point in input order, in
  closed form; a scan raises only on a cloud whose length is not a multiple of three
  (after writing the complete triples) or on a zero-norm quaternion (before writing
  anything, after the file was truncated), and leaves its file handle open when it
  raises. After the first sweep no file loses a record, even when an interrupt or an
  exception arrives in the middle of a scan. Every big-step
  run of \<open>execute\<close> is a run of the interruptible machine, every run of the machine
  from the top of the loop back to it is a run of \<open>run_sweeps\<close>, and in every reachable
  configuration the file handle is open exactly while a scan's points are processed,
  so an interrupt inside a scan ends the program with that file open. A written line
  splits into nine fields and a newline; its integer fields read back exactly, its
  float fields within \<open>5 \<cdot> 10\<^sup>-\<^sup>7\<close>, and a file's text reads back as its
  records. With a clock that never goes back, every reachable configuration has the
  time stamps of every file in order, and in every reachable configuration every
  record on disk is well formed. Between two visits of the top of the loop the machine
  takes finitely many steps. With distinct lidar names each file after \<open>n\<close> sweeps
  is exactly the concatenation of the records of its \<open>n\<close> scans, and an interrupt in
  the middle of a scan leaves the records of the points already processed (no
  rollback). The text of each such file reads back, line by line, as those records
  (\<open>run_file_text_reads_back\<close>). Wherever the interrupt falls, every file of every
  reachable configuration is either untouched or holds the records of its completed
  scans followed by a prefix of its next scan's records. A lidar listed twice keeps only
  its second scan of the first sweep. The lidars
  \<^verbatim>\<open>main\<close> polls are configured in the sample settings in the frame the transform
  assumes, and as mounted there \<^verbatim>\<open>LidarSensor1\<close> looks straight up.

  No property says that the angle computation, a scan or the loop never raises: over
  the reals the argument of \<^verbatim>\<open>math.acos\<close> stays in \<open>[-1, 1]\<close>, but in double
  precision it does not (see the findings), so such a statement would hold of the
  model and not of the program. Where a lemma needs a scan to finish (the closed forms,
  \<open>good_feeds\<close>) it assumes well-formed answers and computes over reals.

  \<^bold>\<open>Findings.\<close> The angle of lines 102--108 is the rotation angle of the product
  \<open>m \<otimes> q\<close> of the vehicle and lidar quaternions, not of the relative rotation
  \<open>m\<^sup>* \<otimes> q\<close> the comment on line 101 and the spec describe: two equal
  orientations give zero only for the identity and for half turns. The lidar
  quaternion is not normalised before the matrix is built, so a non-unit quaternion
  scales the points. The spec asks for the \<^verbatim>\<open>acos\<close> argument to be clamped; the
  code does not clamp, and in double precision the argument can exceed 1 (by about
  \<open>2 \<cdot> 10\<^sup>-\<^sup>1\<^sup>5\<close> when the lidar quaternion is the conjugate of the vehicle's), so
  line 108 can raise \<^verbatim>\<open>ValueError: math domain error\<close>; the real-number model cannot
  exhibit this. A lidar
  named twice loses its first scan in the first sweep. The time stamp is formatted
  with \<^verbatim>\<open>%f\<close>, not as an integer: its field ends in \<^verbatim>\<open>.000000\<close>. The time
  stamps come from the wall clock \<^verbatim>\<open>time.time()\<close>, so they are in order within a
  file only while the clock is not set back. The sample settings configure a second
  lidar, \<^verbatim>\<open>LidarSensor2\<close>, that \<^verbatim>\<open>main\<close> never polls.

  \<^bold>\<open>Bounds and fuel.\<close> In \<open>Execute_Loop\<close>, \<^verbatim>\<open>while True\<close> is modelled by
  \<open>run_sweeps n\<close>: the keyboard interrupt arrives after \<open>n\<close> complete sweeps, for
  any \<open>n\<close>; \<open>Interrupt_Semantics\<close> lifts that restriction. Every other loop is
  structural recursion over a list and terminates; in the machine, termination of each
  sweep is the well-foundedness of its steps (\<open>sweep_terminates\<close>).

  \<^bold>\<open>Not modelled.\<close> Floating-point rounding (floats are reals: the
  \<^verbatim>\<open>math.acos\<close> domain error of line 108 under rounding cannot occur in the model,
  and \<^verbatim>\<open>%f\<close> rounds the real value, so a float whose decimal expansion sits near a
  tie may print differently; an IEEE model needs word libraries outside the imports
  this development uses), the simulator's own
  behaviour (its answers are arbitrary functions of the request count), the
  connection handshake of \<^verbatim>\<open>confirmConnection\<close> and whatever that library call
  prints (the console model holds the script's own \<^verbatim>\<open>print\<close> calls), an interrupt
  between the
  \<^verbatim>\<open>open\<close> of line 78 and the requests of lines 81--82 (one step of the machine),
  the key read by \<^verbatim>\<open>wait_key\<close>, and the imports of lines 51--57 (module
  loading). The settings are data the simulator reads: the model checks them against
  the script, but how the simulator turns them into the poses it reports is assumed
  (angles in degrees, \<^verbatim>\<open>to_quaternion\<close>).

  \<^bold>\<open>Plan.\<close> Every statement of the script is modelled. What remains open is
  the files of a run that ends in an exception raised by a malformed simulator answer
  (the closed form of \<open>Sweep_Contents\<close> assumes well-formed answers), and
  floating-point rounding, which would need an IEEE model of \<^verbatim>\<open>numpy\<close>,
  \<^verbatim>\<open>math\<close> and \<^verbatim>\<open>%f\<close>.
\<close>

lemma points_loop_stdout: "stdout (result_state (points_loop fn rm pos lo mo xs w)) = stdout w"
  by (induction xs arbitrary: w) (auto simp: time_time_def py_write_def split: sum.split prod.split)

lemma process_lidar_stdout: "stdout (result_state (process_lidar ts vn cl lname w)) = stdout w"
proof -
  define ld where "ld = next_lidar w lname vn"
  define r where "r = points_loop (scan_filename ts lname) (rotation_matrix (orientation (pose ld)))
     (position (pose ld)) (orientation (pose ld)) (next_vehicle_orientation w vn)
     (point_slices (point_cloud ld)) (scan_start (scan_filename ts lname) cl w)"
  have "stdout (result_state r) = stdout w"
    unfolding r_def by (simp add: points_loop_stdout scan_start_def)
  then show ?thesis
    by (cases r) (simp_all add: process_lidar_unfold Let_def ld_def [symmetric] r_def [symmetric] py_close_def)
qed

lemma sweep_stdout: "stdout (result_state (sweep ts vn cl lns w)) = stdout w"
proof (induction lns arbitrary: w)
  case (Cons l lns)
  then show ?case
    using process_lidar_stdout [of ts vn cl l w]
    by (cases "process_lidar ts vn cl l w") simp_all
qed simp

lemma run_sweeps_stdout: "stdout (result_state (run_sweeps n ts vn lns cl w)) = stdout w"
proof (induction n arbitrary: cl w)
  case (Suc n)
  then show ?case
    using sweep_stdout [of ts vn cl lns w]
    by (cases "sweep ts vn cl lns w") simp_all
qed simp


text \<open>
  The spec's end-to-end scenario, on the concrete inputs the spec gives: a lidar at
  \<open>(0, 0, -1)\<close> with identity orientation on a vehicle with identity orientation
  returns the point \<open>(3, 4, 0)\<close>; its file then holds the single record
  \<open>(3, 4, -1)\<close> with range 5, angle 0, the clock reading in milliseconds and the
  colour \<open>(255, 255, 0)\<close>. (With identity orientations the matrix is symmetric and
  the conjugate of the vehicle quaternion is itself, so this scenario cannot tell a
  transposed matrix or a missing conjugation; \<open>Rotation\<close> and \<open>Orientation_Angle\<close>
  do.)
\<close>

lemma demo_scenario_rows:
  "\<exists>w'. process_lidar ''t'' ''Drone1'' False ''LidarSensor1'' (demo_world [3, 4, 0] (mk_quat 1 0 0 0))
          = Normal w' \<and>
        contents w' (scan_filename ''t'' ''LidarSensor1'') =
          [\<lparr>row_x = 3, row_y = 4, row_z = -1, row_range = 5, row_angle = 0,
            row_time = 1700000000000, row_r = 255, row_g = 255, row_b = 0\<rparr>]"
proof -
  have s: "sqrt 25 = (5::real)" by (rule sqrt_of_square_sum) simp_all
  have r: "py_round 1700000000000 = 1700000000000"
    using py_round_of_int [of 1700000000000] by simp
  show ?thesis
    by (simp add: demo_eval rotation_matrix_def vec_simps vec_of_def row_of_def s r)
qed

text \<open>
  The spec's identity-pose property: a lidar at the origin with identity orientation
  maps a point to itself, with range \<open>sqrt(x\<^sup>2 + y\<^sup>2 + z\<^sup>2)\<close>.
\<close>

lemma identity_pose_transform:
  "transform_point (rotation_matrix (mk_quat 1 0 0 0)) (mk_vec 0 0 0) [x, y, z]
     = Inr ((x, y, z), sqrt (x\<^sup>2 + y\<^sup>2 + z\<^sup>2))"
  by (simp add: transform_point_eval rotation_matrix_def vec_simps vec_of_def power2_eq_square)

text \<open>
  C9: what a reader of the output finds after a run. With distinct lidar names and
  well-formed simulator answers, after \<open>n \<ge> 1\<close> sweeps the text of the \<open>i\<close>-th
  lidar's file, the lines line 112 wrote one after the other, reads back line by line as
  the records of its \<open>n\<close> scans in loop order (\<open>file_after\<close>), each field within
  half a unit of its sixth decimal.
\<close>

theorem run_file_text_reads_back:
  assumes "good_feeds w vn lns" "distinct lns" "i < length lns" "0 < n"
  shows "\<exists>w' ps. run_sweeps n ts vn lns False w = Normal w' \<and>
           parse_file (concat (map format_row (contents w' (scan_filename ts (lns ! i))))) = Some ps \<and>
           list_all2 reads_back (file_after w vn lns n i) ps"
proof -
  obtain w' where r: "run_sweeps n ts vn lns False w = Normal w'"
    and "\<forall>i < length lns. contents w' (scan_filename ts (lns ! i)) =
           (if False \<or> n = 0 then contents w (scan_filename ts (lns ! i)) else []) @ file_after w vn lns n i"
    using run_sweeps_contents [OF assms(1,2), of n ts False] by (elim exE conjE) (rule that)
  then have "contents w' (scan_filename ts (lns ! i)) = file_after w vn lns n i"
    using assms(3,4) by simp
  then show ?thesis using r parse_file_rows [of "file_after w vn lns n i"] by auto
qed

theorem run_file_text_reads_back_witness:
  "good_feeds (demo_world [3, 4, 0] (mk_quat 1 0 0 0)) ''Drone1'' [''A'', ''B''] \<and>
   distinct [''A'', ''B''] \<and> 0 < length [''A'', ''B''] \<and> 0 < (3::nat) \<and>
   (\<exists>w' ps. run_sweeps 3 ''t'' ''Drone1'' [''A'', ''B''] False (demo_world [3, 4, 0] (mk_quat 1 0 0 0)) = Normal w' \<and>
      parse_file (concat (map format_row (contents w' (scan_filename ''t'' ([''A'', ''B''] ! 0))))) = Some ps \<and>
      list_all2 reads_back (file_after (demo_world [3, 4, 0] (mk_quat 1 0 0 0)) ''Drone1'' [''A'', ''B''] 3 0) ps)"
  using run_file_text_reads_back [OF good_feeds_demo, of "[''A'', ''B'']" 0 3 "''t''"] good_feeds_demo
  by simp

text \<open>
  The text the spec's scenario leaves on disk: the line
  \<^verbatim>\<open>3.000000 4.000000 -1.000000 5.000000 0.000000 1700000000000.000000 255 255 0 \<close>
  followed by a newline, the time stamp carrying the six decimals of \<^verbatim>\<open>%f\<close>.
\<close>

lemma spec_scenario_text:
  "\<exists>w'. process_lidar ''t'' ''Drone1'' False ''LidarSensor1'' (demo_world [3, 4, 0] (mk_quat 1 0 0 0))
          = Normal w' \<and>
        concat (map format_row (contents w' (scan_filename ''t'' ''LidarSensor1''))) =
          ''3.000000 4.000000 -1.000000 5.000000 0.000000 1700000000000.000000 255 255 0 '' @ [CHR 0x0A]"
proof -
  obtain w' where w': "process_lidar ''t'' ''Drone1'' False ''LidarSensor1'' (demo_world [3, 4, 0] (mk_quat 1 0 0 0))
          = Normal w'"
     "contents w' (scan_filename ''t'' ''LidarSensor1'') =
          [\<lparr>row_x = 3, row_y = 4, row_z = -1, row_range = 5, row_angle = 0,
            row_time = 1700000000000, row_r = 255, row_g = 255, row_b = 0\<rparr>]"
    using demo_scenario_rows by blast
  have "format_row \<lparr>row_x = 3, row_y = 4, row_z = -1, row_range = 5, row_angle = 0,
            row_time = 1700000000000, row_r = 255, row_g = 255, row_b = 0\<rparr>
        = ''3.000000 4.000000 -1.000000 5.000000 0.000000 1700000000000.000000 255 255 0 '' @ [CHR 0x0A]"
    by (simp add: fmt_eval)
  with w' show ?thesis by auto
qed

text \<open>
  C28: with well-formed simulator answers, whenever the keyboard interrupt arrives
  between sweeps, the script's own \<^verbatim>\<open>print\<close> calls show exactly \<^verbatim>\<open>Connected!\<close>,
  \<^verbatim>\<open>Scanning Has Started\<close>, the interrupt hint (each followed by a blank line,
  since the messages end in \<^verbatim>\<open>\n\<close> and \<^verbatim>\<open>print\<close> adds another), the prompt of
  \<^verbatim>\<open>wait_key\<close> and \<^verbatim>\<open>Done!\<close>; the loop itself prints nothing.
\<close>

theorem main_console:
  assumes "good_feeds w ''Drone1'' [''LidarSensor1'']"
  shows "\<exists>w'. main float_str n w = Normal w' \<and>
           stdout w' = stdout w @
             [''Connected!'' @ newline @ newline, ''Scanning Has Started'' @ newline @ newline,
              ''Use Keyboard Interrupt 'CTRL + C' to Stop Scanning'' @ newline @ newline,
              ''Press any key to stop running this script'' @ newline, ''Done!'' @ newline @ newline]"
proof -
  define w2 where "w2 = py_print (''Use Keyboard Interrupt 'CTRL + C' to Stop Scanning'' @ newline)
               (py_print (''Scanning Has Started'' @ newline) (lidar_test_init w))"
  define ts where "ts = float_str (fst (time_time w2))"
  have g: "good_feeds (snd (time_time w2)) ''Drone1'' [''LidarSensor1'']"
    using assms by (simp add: w2_def good_feeds_def time_time_def py_print_def lidar_test_init_def)
  obtain w4 where w4: "run_sweeps n ts ''Drone1'' [''LidarSensor1''] False (snd (time_time w2)) = Normal w4"
    using run_sweeps_normal [OF g] by blast
  have out: "stdout w4 = stdout (snd (time_time w2))"
    using run_sweeps_stdout [of n ts "''Drone1''" "[''LidarSensor1'']" False "snd (time_time w2)"] w4 by simp
  have "main float_str n w =
        Normal (py_print (''Done!'' @ newline) (wait_key ''Press any key to stop running this script'' w4))"
    unfolding main_def main_vehicle_def main_lidars_def execute_def Let_def case_prod_beta w2_def [symmetric] ts_def [symmetric] w4
    by simp
  moreover have "stdout (snd (time_time w2)) = stdout w @
      [''Connected!'' @ newline @ newline, ''Scanning Has Started'' @ newline @ newline,
       ''Use Keyboard Interrupt 'CTRL + C' to Stop Scanning'' @ newline @ newline]"
    by (simp add: w2_def time_time_def py_print_def lidar_test_init_def)
  ultimately show ?thesis
    using out by (simp add: py_print_def wait_key_def)
qed

theorem main_console_witness:
  "good_feeds (demo_world [3, 4, 0] (mk_quat 1 0 0 0)) ''Drone1'' [''LidarSensor1''] \<and>
   (\<exists>w'. main (\<lambda>x. ''1700000000.0'') 2 (demo_world [3, 4, 0] (mk_quat 1 0 0 0)) = Normal w' \<and>
      stdout w' = stdout (demo_world [3, 4, 0] (mk_quat 1 0 0 0)) @
        [''Connected!'' @ newline @ newline, ''Scanning Has Started'' @ newline @ newline,
         ''Use Keyboard Interrupt 'CTRL + C' to Stop Scanning'' @ newline @ newline,
         ''Press any key to stop running this script'' @ newline, ''Done!'' @ newline @ newline])"
  using main_console [OF good_feeds_demo] good_feeds_demo by blast



end
